theory Spec2Isabelle
  imports Main "HOL-Library.Word"
begin

unbundle bit_operations_syntax

section \<open>Data model of the postmaster (postmaster.c)\<close>

text \<open>
  The lifecycle state \<open>PMState\<close>, in the order of the C enum. The comparison
  \<open>pmState < PM_STOP_BACKENDS\<close> of the source is \<open>PMState_rank\<close> below.
\<close>

datatype PMState =
    PM_INIT
  | PM_STARTUP
  | PM_RECOVERY
  | PM_HOT_STANDBY
  | PM_RUN
  | PM_STOP_BACKENDS
  | PM_WAIT_BACKENDS
  | PM_SHUTDOWN
  | PM_SHUTDOWN_2
  | PM_WAIT_DEAD_END
  | PM_NO_CHILDREN

fun PMState_rank :: "PMState \<Rightarrow> nat" where
  "PMState_rank PM_INIT = 0"
| "PMState_rank PM_STARTUP = 1"
| "PMState_rank PM_RECOVERY = 2"
| "PMState_rank PM_HOT_STANDBY = 3"
| "PMState_rank PM_RUN = 4"
| "PMState_rank PM_STOP_BACKENDS = 5"
| "PMState_rank PM_WAIT_BACKENDS = 6"
| "PMState_rank PM_SHUTDOWN = 7"
| "PMState_rank PM_SHUTDOWN_2 = 8"
| "PMState_rank PM_WAIT_DEAD_END = 9"
| "PMState_rank PM_NO_CHILDREN = 10"

datatype StartupStatusEnum =
    STARTUP_NOT_RUNNING
  | STARTUP_RUNNING
  | STARTUP_SIGNALED
  | STARTUP_CRASHED

datatype CAC_state =
    CAC_OK
  | CAC_STARTUP
  | CAC_SHUTDOWN
  | CAC_RECOVERY
  | CAC_NOTCONSISTENT
  | CAC_TOOMANY

text \<open>The signals the postmaster sends with \<open>kill()\<close>.\<close>

datatype signal = SIGHUP | SIGINT | SIGQUIT | SIGABRT | SIGKILL | SIGUSR1 | SIGUSR2 | SIGTERM

datatype BgWorkerStartTime =
    BgWorkerStart_PostmasterStart
  | BgWorkerStart_ConsistentState
  | BgWorkerStart_RecoveryFinished

text \<open>Shutdown modes (\<open>#define\<close>s of the source; \<open>Shutdown\<close> is a C int).\<close>

abbreviation (input) NoShutdown :: int where "NoShutdown \<equiv> 0"
abbreviation (input) SmartShutdown :: int where "SmartShutdown \<equiv> 1"
abbreviation (input) FastShutdown :: int where "FastShutdown \<equiv> 2"
abbreviation (input) ImmediateShutdown :: int where "ImmediateShutdown \<equiv> 3"

text \<open>Backend types: OR-able request bits.\<close>

abbreviation (input) BACKEND_TYPE_NORMAL :: int where "BACKEND_TYPE_NORMAL \<equiv> 1"
abbreviation (input) BACKEND_TYPE_AUTOVAC :: int where "BACKEND_TYPE_AUTOVAC \<equiv> 2"
abbreviation (input) BACKEND_TYPE_WALSND :: int where "BACKEND_TYPE_WALSND \<equiv> 4"
abbreviation (input) BACKEND_TYPE_BGWORKER :: int where "BACKEND_TYPE_BGWORKER \<equiv> 8"
abbreviation (input) BACKEND_TYPE_ALL :: int where "BACKEND_TYPE_ALL \<equiv> 15"

abbreviation (input) SIGKILL_CHILDREN_AFTER_SECS :: int where "SIGKILL_CHILDREN_AFTER_SECS \<equiv> 5"
abbreviation (input) MAX_BGWORKERS_TO_LAUNCH :: nat where "MAX_BGWORKERS_TO_LAUNCH \<equiv> 100"

text \<open>
  \<open>BGW_NEVER_RESTART\<close> is declared in bgworker.h, which is not among the sources;
  it is the value \<open>-1\<close> there.
\<close>

abbreviation (input) BGW_NEVER_RESTART :: int where "BGW_NEVER_RESTART \<equiv> - 1"

text \<open>\<open>struct bkend\<close>: one entry of \<open>BackendList\<close>.\<close>

record Backend =
  pid :: int
  cancel_key :: "32 word"
  child_slot :: int
  bkend_type :: int
  dead_end :: bool
  bgworker_notify :: bool

text \<open>
  \<open>RegisteredBgWorker\<close> with the fields of \<open>rw_worker\<close> the postmaster reads.
  The pointer \<open>rw_backend\<close> refers to the \<open>BackendList\<close> entry of the running
  worker; in the model that entry is the one whose \<open>pid\<close> is \<open>rw_pid\<close>.
\<close>

record RegisteredBgWorker =
  rw_pid :: int
  rw_child_slot :: int
  rw_crashed_at :: int
  rw_terminate :: bool
  bgw_restart_time :: int
  bgw_notify_pid :: int
  bgw_start_time :: BgWorkerStartTime

text \<open>
  Everything the postmaster reads from outside itself: configuration variables, the
  clock, the build option \<open>HAVE_SETSID\<close>, and the results of calls into other
  modules and the operating system. Calls whose result differs from call to call
  (fork, random numbers, memory allocation, slot assignment) take the number of such
  calls made so far. The functions of bgworker.c that rewrite the registration list
  (\<open>BackgroundWorkerStateChange\<close>, \<open>ForgetUnstartedBackgroundWorkers\<close>,
  \<open>ResetBackgroundWorkerCrashTimes\<close>) are not among the sources and are taken as
  they come: from the list to the new list and the signals sent. \<open>ReportBackgroundWorkerExit\<close> says whether it forgets the entry
  it is given, and which signals it sends.
\<close>

record env =
  restart_after_crash :: bool
  send_abort_for_crash :: bool
  send_abort_for_kill :: bool
  MaxConnections :: int
  autovacuum_max_workers :: int
  max_wal_senders :: int
  max_worker_processes :: int
  Logging_collector :: bool
  EnableHotStandby :: bool
  summarize_wal :: bool
  sync_replication_slots :: bool
  IsBinaryUpgrade :: bool
  AutoVacuumingActive :: bool
  XLogArchivingActive :: bool
  XLogArchivingAlways :: bool
  HAVE_SETSID :: bool
  time_now :: int
  GetCurrentTimestamp :: int
  postmaster_child_launch :: "nat \<Rightarrow> int"
  SysLogger_Start :: "nat \<Rightarrow> int"
  pg_strong_random :: "nat \<Rightarrow> 32 word option"
  palloc_extended :: "nat \<Rightarrow> bool"
  AssignPostmasterChildSlot :: "nat \<Rightarrow> int"
  ReleasePostmasterChildSlot :: "int \<Rightarrow> bool"
  IsPostmasterChildWalSender :: "int \<Rightarrow> bool"
  PgArchCanRestart :: bool
  SlotSyncWorkerCanRestart :: bool
  ValidateSlotSyncParams :: bool
  RecheckDataDirLockFile :: bool
  CheckLogrotateSignal :: bool
  CheckPromoteSignal :: bool
  BackgroundWorkerStateChange ::
    "bool \<Rightarrow> RegisteredBgWorker list \<Rightarrow> RegisteredBgWorker list \<times> (int \<times> signal) list"
  ForgetUnstartedBackgroundWorkers ::
    "RegisteredBgWorker list \<Rightarrow> RegisteredBgWorker list \<times> (int \<times> signal) list"
  ResetBackgroundWorkerCrashTimes :: "RegisteredBgWorker list \<Rightarrow> RegisteredBgWorker list"
  ReportBackgroundWorkerExit :: "RegisteredBgWorker \<Rightarrow> bool \<times> (int \<times> signal) list"

text \<open>
  The postmaster's static variables, followed by what it does to the outside world:
  the \<open>kill()\<close> calls made, the LOG-level messages written, the calls of
  \<open>CreateSharedMemoryAndSemaphores\<close> (each with what the postmaster's variables say
  at that moment: \<open>pmState\<close>, \<open>FatalError\<close>, \<open>restart_after_crash\<close> and the
  process ids of the children it tracks), the argument of the last
  \<open>ConfigurePostmasterWaitSet\<close>, the status passed to \<open>ExitPostmaster\<close> (after
  which nothing runs), every value assigned to \<open>pmState\<close> in order, and the number
  of calls made to the call-dependent functions of \<open>env\<close>.
\<close>

record postmaster =
  pmState :: PMState
  Shutdown :: int
  FatalError :: bool
  connsAllowed :: bool
  AbortStartTime :: int
  StartupStatus :: StartupStatusEnum
  ReachedNormalRunning :: bool
  StartupPID :: int
  BgWriterPID :: int
  CheckpointerPID :: int
  WalWriterPID :: int
  WalReceiverPID :: int
  WalSummarizerPID :: int
  AutoVacPID :: int
  PgArchPID :: int
  SysLoggerPID :: int
  SlotSyncWorkerPID :: int
  BackendList :: "Backend list"
  BackgroundWorkerList :: "RegisteredBgWorker list"
  StartWorkerNeeded :: bool
  HaveCrashedWorker :: bool
  start_autovac_launcher :: bool
  avlauncher_needs_signal :: bool
  WalReceiverRequested :: bool
  pending_pm_pmsignal :: bool
  pending_pm_child_exit :: bool
  pending_pm_reload_request :: bool
  pending_pm_shutdown_request :: bool
  pending_pm_fast_shutdown_request :: bool
  pending_pm_immediate_shutdown_request :: bool
  kills :: "(int \<times> signal) list"
  server_log :: "string list"
  shmem_creations :: "(PMState \<times> bool \<times> bool \<times> int list) list"
  accept_connections :: bool
  exited :: "int option"
  pmState_log :: "PMState list"
  env_calls :: nat

datatype BackendType =
    B_STARTUP
  | B_CHECKPOINTER
  | B_BG_WRITER
  | B_WAL_WRITER
  | B_WAL_RECEIVER
  | B_WAL_SUMMARIZER
  | B_AUTOVAC_LAUNCHER
  | B_AUTOVAC_WORKER
  | B_ARCHIVER
  | B_SLOTSYNC_WORKER
  | B_BACKEND
  | B_BG_WORKER

text \<open>
  The pmsignal reasons whose flags \<open>CheckPostmasterSignal\<close> finds set while one call
  of \<open>process_pm_pmsignal\<close> runs (the flags live in shared memory).
\<close>

record pmsignals =
  PMSIGNAL_RECOVERY_STARTED :: bool
  PMSIGNAL_BEGIN_HOT_STANDBY :: bool
  PMSIGNAL_BACKGROUND_WORKER_CHANGE :: bool
  PMSIGNAL_ROTATE_LOGFILE :: bool
  PMSIGNAL_START_AUTOVAC_LAUNCHER :: bool
  PMSIGNAL_START_AUTOVAC_WORKER :: bool
  PMSIGNAL_START_WALRECEIVER :: bool
  PMSIGNAL_ADVANCE_STATE_MACHINE :: bool

section \<open>Machine arithmetic and system macros\<close>

text \<open>A value stored in a C \<open>int\<close>: two's complement, 32 bits.\<close>

definition wrap_int32 :: "int \<Rightarrow> int" where
  "wrap_int32 x = (x + 2147483648) mod 4294967296 - 2147483648"

abbreviation (input) INT_MAX :: int where "INT_MAX \<equiv> 2147483647"

text \<open>
  \<open>WIFEXITED\<close> and \<open>WEXITSTATUS\<close> come from the system header sys/wait.h; these are the
  usual definitions (low seven bits zero; bits 8 to 15).
\<close>

definition WIFEXITED :: "int \<Rightarrow> bool" where
  "WIFEXITED st = (st AND 127 = 0)"

definition WEXITSTATUS :: "int \<Rightarrow> int" where
  "WEXITSTATUS st = drop_bit 8 (st AND 65280)"

definition EXIT_STATUS_0 :: "int \<Rightarrow> bool" where
  "EXIT_STATUS_0 st = (st = 0)"

definition EXIT_STATUS_1 :: "int \<Rightarrow> bool" where
  "EXIT_STATUS_1 st = (WIFEXITED st \<and> WEXITSTATUS st = 1)"

definition EXIT_STATUS_3 :: "int \<Rightarrow> bool" where
  "EXIT_STATUS_3 st = (WIFEXITED st \<and> WEXITSTATUS st = 3)"

text \<open>
  Timestamp helpers of utils/timestamp.h and timestamp.c (not among the sources), on
  microsecond timestamps: \<open>TimestampDifferenceExceeds\<close> takes its limit as a C
  \<open>int\<close> of milliseconds; \<open>TimestampDifferenceMilliseconds\<close> rounds up and, as the
  comment in \<open>DetermineSleepTime\<close> says, answers in \<open>[0, INT_MAX]\<close>.
\<close>

definition TimestampDifferenceExceeds :: "int \<Rightarrow> int \<Rightarrow> int \<Rightarrow> bool" where
  "TimestampDifferenceExceeds start_time stop_time msec =
     (stop_time - start_time \<ge> msec * 1000)"

definition TimestampTzPlusMilliseconds :: "int \<Rightarrow> int \<Rightarrow> int" where
  "TimestampTzPlusMilliseconds tz ms = tz + ms * 1000"

definition TimestampDifferenceMilliseconds :: "int \<Rightarrow> int \<Rightarrow> int" where
  "TimestampDifferenceMilliseconds start_time stop_time =
     (if start_time \<ge> stop_time then 0
      else if stop_time - start_time \<ge> INT_MAX * 1000 - 999 then INT_MAX
      else (stop_time - start_time + 999) div 1000)"

section \<open>Effects\<close>

definition kill :: "int \<Rightarrow> signal \<Rightarrow> postmaster \<Rightarrow> postmaster" where
  "kill p sig s = s\<lparr>kills := kills s @ [(p, sig)]\<rparr>"

text \<open>\<open>ereport(LOG, errmsg(...))\<close>: the message format is recorded.\<close>

definition ereport_LOG :: "string \<Rightarrow> postmaster \<Rightarrow> postmaster" where
  "ereport_LOG msg s = s\<lparr>server_log := server_log s @ [msg]\<rparr>"

definition ExitPostmaster :: "int \<Rightarrow> postmaster \<Rightarrow> postmaster" where
  "ExitPostmaster status s = s\<lparr>exited := Some status\<rparr>"

text \<open>An assignment to \<open>pmState\<close>.\<close>

definition set_pmState :: "PMState \<Rightarrow> postmaster \<Rightarrow> postmaster" where
  "set_pmState x s = s\<lparr>pmState := x, pmState_log := pmState_log s @ [x]\<rparr>"

definition tick :: "postmaster \<Rightarrow> postmaster" where
  "tick s = s\<lparr>env_calls := Suc (env_calls s)\<rparr>"

text \<open>
  The children the postmaster has on its books: the entries of \<open>BackendList\<close>
  (sessions, autovacuum workers, walsenders, background workers, dead-end children) and
  the special children whose pid variable is not zero. The log collector is not
  attached to shared memory and is left out.
\<close>

definition tracked_children :: "postmaster \<Rightarrow> int list" where
  "tracked_children s =
     map pid (BackendList s) @
     filter (\<lambda>p. p \<noteq> 0)
       [StartupPID s, BgWriterPID s, CheckpointerPID s, WalWriterPID s, WalReceiverPID s,
        WalSummarizerPID s, AutoVacPID s, PgArchPID s, SlotSyncWorkerPID s]"

text \<open>
  \<open>CreateSharedMemoryAndSemaphores\<close> (ipci.c) touches none of the postmaster's
  variables; the call is recorded.
\<close>

definition CreateSharedMemoryAndSemaphores :: "env \<Rightarrow> postmaster \<Rightarrow> postmaster" where
  "CreateSharedMemoryAndSemaphores e s =
     s\<lparr>shmem_creations := shmem_creations s @
          [(pmState s, FatalError s, restart_after_crash e, tracked_children s)]\<rparr>"

definition ConfigurePostmasterWaitSet :: "bool \<Rightarrow> postmaster \<Rightarrow> postmaster" where
  "ConfigurePostmasterWaitSet acc s = s\<lparr>accept_connections := acc\<rparr>"

text \<open>
  \<open>LogChildExit\<close>: only messages at level LOG are recorded; the three wordings
  (exit code, signal, unrecognized status) are not told apart.
\<close>

definition LogChildExit :: "bool \<Rightarrow> string \<Rightarrow> int \<Rightarrow> int \<Rightarrow> postmaster \<Rightarrow> postmaster" where
  "LogChildExit at_LOG procname p exitstatus s =
     (if at_LOG then ereport_LOG (procname @ '' (PID %d) exited'') s else s)"

section \<open>Signalling children\<close>

definition signal_child :: "env \<Rightarrow> int \<Rightarrow> signal \<Rightarrow> postmaster \<Rightarrow> postmaster" where
  "signal_child e p sig s =
     (let s = kill p sig s in
      if HAVE_SETSID e \<and> (sig = SIGINT \<or> sig = SIGTERM \<or> sig = SIGQUIT \<or> sig = SIGKILL \<or> sig = SIGABRT)
      then kill (- p) sig s
      else s)"

definition sigquit_child :: "env \<Rightarrow> int \<Rightarrow> postmaster \<Rightarrow> postmaster" where
  "sigquit_child e p s = signal_child e p (if send_abort_for_crash e then SIGABRT else SIGQUIT) s"

text \<open>
  The relabelling step shared by \<open>SignalSomeChildren\<close> and \<open>CountChildren\<close>: a NORMAL
  child that has announced itself as a walsender becomes WALSND.
\<close>

definition relabel_walsender :: "env \<Rightarrow> Backend \<Rightarrow> Backend" where
  "relabel_walsender e bp =
     (if bkend_type bp = BACKEND_TYPE_NORMAL \<and> IsPostmasterChildWalSender e (child_slot bp)
      then bp\<lparr>bkend_type := BACKEND_TYPE_WALSND\<rparr> else bp)"

text \<open>
  \<open>SignalSomeChildren\<close>: the loop over \<open>BackendList\<close>; the result is the list with the
  relabelled entries and the state after the signals. The C function also returns
  whether it signalled anyone; no caller reads that.
\<close>

fun SignalSomeChildren_loop ::
  "env \<Rightarrow> signal \<Rightarrow> int \<Rightarrow> Backend list \<Rightarrow> postmaster \<Rightarrow> Backend list \<times> postmaster" where
  "SignalSomeChildren_loop e sig target [] s = ([], s)"
| "SignalSomeChildren_loop e sig target (bp # rest) s =
     (if dead_end bp then
        (let (rest', s') = SignalSomeChildren_loop e sig target rest s in (bp # rest', s'))
      else if target \<noteq> BACKEND_TYPE_ALL then
        (let bp' = relabel_walsender e bp in
         if target AND bkend_type bp' = 0 then
           (let (rest', s') = SignalSomeChildren_loop e sig target rest s in (bp' # rest', s'))
         else
           (let (rest', s') = SignalSomeChildren_loop e sig target rest (signal_child e (pid bp') sig s)
            in (bp' # rest', s')))
      else
        (let (rest', s') = SignalSomeChildren_loop e sig target rest (signal_child e (pid bp) sig s)
         in (bp # rest', s')))"

definition SignalSomeChildren :: "env \<Rightarrow> signal \<Rightarrow> int \<Rightarrow> postmaster \<Rightarrow> postmaster" where
  "SignalSomeChildren e sig target s =
     (let (bl, s') = SignalSomeChildren_loop e sig target (BackendList s) s
      in s'\<lparr>BackendList := bl\<rparr>)"

definition SignalChildren :: "env \<Rightarrow> signal \<Rightarrow> postmaster \<Rightarrow> postmaster" where
  "SignalChildren e sig s = SignalSomeChildren e sig BACKEND_TYPE_ALL s"

definition TerminateChildren :: "env \<Rightarrow> signal \<Rightarrow> postmaster \<Rightarrow> postmaster" where
  "TerminateChildren e sig s =
     (let s = SignalChildren e sig s;
          s = (if StartupPID s \<noteq> 0 then
                 (let s = signal_child e (StartupPID s) sig s in
                  if sig = SIGQUIT \<or> sig = SIGKILL \<or> sig = SIGABRT
                  then s\<lparr>StartupStatus := STARTUP_SIGNALED\<rparr> else s)
               else s);
          s = (if BgWriterPID s \<noteq> 0 then signal_child e (BgWriterPID s) sig s else s);
          s = (if CheckpointerPID s \<noteq> 0 then signal_child e (CheckpointerPID s) sig s else s);
          s = (if WalWriterPID s \<noteq> 0 then signal_child e (WalWriterPID s) sig s else s);
          s = (if WalReceiverPID s \<noteq> 0 then signal_child e (WalReceiverPID s) sig s else s);
          s = (if WalSummarizerPID s \<noteq> 0 then signal_child e (WalSummarizerPID s) sig s else s);
          s = (if AutoVacPID s \<noteq> 0 then signal_child e (AutoVacPID s) sig s else s);
          s = (if PgArchPID s \<noteq> 0 then signal_child e (PgArchPID s) sig s else s);
          s = (if SlotSyncWorkerPID s \<noteq> 0 then signal_child e (SlotSyncWorkerPID s) sig s else s)
      in s)"

section \<open>Counting children and admitting connections\<close>

fun CountChildren_loop :: "env \<Rightarrow> int \<Rightarrow> Backend list \<Rightarrow> Backend list \<times> int" where
  "CountChildren_loop e target [] = ([], 0)"
| "CountChildren_loop e target (bp # rest) =
     (let (rest', cnt) = CountChildren_loop e target rest in
      if dead_end bp then (bp # rest', cnt)
      else if target \<noteq> BACKEND_TYPE_ALL then
        (let bp' = relabel_walsender e bp in
         if target AND bkend_type bp' = 0 then (bp' # rest', cnt) else (bp' # rest', cnt + 1))
      else (bp # rest', cnt + 1))"

text \<open>\<open>CountChildren\<close> returns the count and leaves the relabelled list behind.\<close>

definition CountChildren :: "env \<Rightarrow> int \<Rightarrow> postmaster \<Rightarrow> int \<times> postmaster" where
  "CountChildren e target s =
     (let (bl, cnt) = CountChildren_loop e target (BackendList s)
      in (cnt, s\<lparr>BackendList := bl\<rparr>))"

text \<open>
  The four settings are bounded by \<open>MAX_BACKENDS\<close> (\<open>0x3FFFF\<close>) where they are
  declared, so the C \<open>int\<close> sum cannot overflow.
\<close>

definition MaxLivePostmasterChildren :: "env \<Rightarrow> int" where
  "MaxLivePostmasterChildren e =
     2 * (MaxConnections e + autovacuum_max_workers e + 1 + max_wal_senders e + max_worker_processes e)"

definition canAcceptConnections :: "env \<Rightarrow> int \<Rightarrow> postmaster \<Rightarrow> CAC_state" where
  "canAcceptConnections e backend_type s =
     (if pmState s \<noteq> PM_RUN \<and> pmState s \<noteq> PM_HOT_STANDBY \<and> backend_type \<noteq> BACKEND_TYPE_BGWORKER then
        (if Shutdown s > NoShutdown then CAC_SHUTDOWN
         else if \<not> FatalError s \<and> pmState s = PM_STARTUP then CAC_STARTUP
         else if \<not> FatalError s \<and> pmState s = PM_RECOVERY then CAC_NOTCONSISTENT
         else CAC_RECOVERY)
      else if \<not> connsAllowed s \<and> backend_type = BACKEND_TYPE_NORMAL then CAC_SHUTDOWN
      else if fst (CountChildren e BACKEND_TYPE_ALL s) \<ge> MaxLivePostmasterChildren e then CAC_TOOMANY
      else CAC_OK)"

section \<open>Cancel requests\<close>

fun processCancelRequest_loop ::
  "env \<Rightarrow> int \<Rightarrow> 32 word \<Rightarrow> Backend list \<Rightarrow> postmaster \<Rightarrow> postmaster" where
  "processCancelRequest_loop e backendPID cancelAuthCode [] s =
     ereport_LOG ''PID %d in cancel request did not match any process'' s"
| "processCancelRequest_loop e backendPID cancelAuthCode (bp # rest) s =
     (if pid bp = backendPID then
        (if cancel_key bp = cancelAuthCode then signal_child e (pid bp) SIGINT s
         else ereport_LOG ''wrong key in cancel request for process %d'' s)
      else processCancelRequest_loop e backendPID cancelAuthCode rest s)"

definition processCancelRequest :: "env \<Rightarrow> int \<Rightarrow> 32 word \<Rightarrow> postmaster \<Rightarrow> postmaster" where
  "processCancelRequest e backendPID cancelAuthCode s =
     processCancelRequest_loop e backendPID cancelAuthCode (BackendList s) s"

section \<open>Launching children\<close>

definition StartChildProcess :: "env \<Rightarrow> BackendType \<Rightarrow> postmaster \<Rightarrow> int \<times> postmaster" where
  "StartChildProcess e ty s =
     (let p = postmaster_child_launch e (env_calls s); s = tick s in
      if p < 0 then
        (let s = ereport_LOG ''could not fork process: %m'' s in
         if ty = B_STARTUP then (0, ExitPostmaster 1 s) else (0, s))
      else (p, s))"

text \<open>
  \<open>BackendStartup\<close>. The status it returns is ignored by \<open>ServerLoop\<close> and left out.
\<close>

definition BackendStartup :: "env \<Rightarrow> postmaster \<Rightarrow> postmaster" where
  "BackendStartup e s =
     (let have_bn = palloc_extended e (env_calls s); s = tick s in
      if \<not> have_bn then ereport_LOG ''out of memory'' s
      else
        (let MyCancelKey = pg_strong_random e (env_calls s); s = tick s in
         case MyCancelKey of
           None \<Rightarrow> ereport_LOG ''could not generate random cancel key'' s
         | Some key \<Rightarrow>
             (let is_dead_end = (canAcceptConnections e BACKEND_TYPE_NORMAL s \<noteq> CAC_OK);
                  slot = (if \<not> is_dead_end then AssignPostmasterChildSlot e (env_calls s) else 0);
                  s = (if \<not> is_dead_end then tick s else s);
                  p = postmaster_child_launch e (env_calls s);
                  s = tick s
              in if p < 0 then ereport_LOG ''could not fork new process for connection: %m'' s
                 else s\<lparr>BackendList :=
                         \<lparr>pid = p, cancel_key = key, child_slot = slot,
                          bkend_type = BACKEND_TYPE_NORMAL, dead_end = is_dead_end,
                          bgworker_notify = False\<rparr> # BackendList s\<rparr>)))"

definition StartAutovacuumWorker :: "env \<Rightarrow> postmaster \<Rightarrow> postmaster" where
  "StartAutovacuumWorker e s =
     (let report = (\<lambda>s. if AutoVacPID s \<noteq> 0 then s\<lparr>avlauncher_needs_signal := True\<rparr> else s) in
      if canAcceptConnections e BACKEND_TYPE_AUTOVAC s = CAC_OK then
        (let MyCancelKey = pg_strong_random e (env_calls s); s = tick s in
         case MyCancelKey of
           None \<Rightarrow> ereport_LOG ''could not generate random cancel key'' s
         | Some key \<Rightarrow>
             (let have_bn = palloc_extended e (env_calls s); s = tick s in
              if have_bn then
                (let slot = AssignPostmasterChildSlot e (env_calls s); s = tick s;
                     (p, s) = StartChildProcess e B_AUTOVAC_WORKER s
                 in if p > 0 then
                      s\<lparr>BackendList :=
                          \<lparr>pid = p, cancel_key = key, child_slot = slot,
                           bkend_type = BACKEND_TYPE_AUTOVAC, dead_end = False,
                           bgworker_notify = False\<rparr> # BackendList s\<rparr>
                    else report s)
              else report (ereport_LOG ''out of memory'' s)))
      else report s)"

definition MaybeStartWalReceiver :: "env \<Rightarrow> postmaster \<Rightarrow> postmaster" where
  "MaybeStartWalReceiver e s =
     (if WalReceiverPID s = 0 \<and>
         (pmState s = PM_STARTUP \<or> pmState s = PM_RECOVERY \<or> pmState s = PM_HOT_STANDBY) \<and>
         Shutdown s \<le> SmartShutdown then
        (let (p, s) = StartChildProcess e B_WAL_RECEIVER s; s = s\<lparr>WalReceiverPID := p\<rparr> in
         if WalReceiverPID s \<noteq> 0 then s\<lparr>WalReceiverRequested := False\<rparr> else s)
      else s)"

definition MaybeStartWalSummarizer :: "env \<Rightarrow> postmaster \<Rightarrow> postmaster" where
  "MaybeStartWalSummarizer e s =
     (if summarize_wal e \<and> WalSummarizerPID s = 0 \<and>
         (pmState s = PM_RUN \<or> pmState s = PM_HOT_STANDBY) \<and>
         Shutdown s \<le> SmartShutdown then
        (let (p, s) = StartChildProcess e B_WAL_SUMMARIZER s in s\<lparr>WalSummarizerPID := p\<rparr>)
      else s)"

definition MaybeStartSlotSyncWorker :: "env \<Rightarrow> postmaster \<Rightarrow> postmaster" where
  "MaybeStartSlotSyncWorker e s =
     (if SlotSyncWorkerPID s = 0 \<and> pmState s = PM_HOT_STANDBY \<and>
         Shutdown s \<le> SmartShutdown \<and> sync_replication_slots e \<and>
         ValidateSlotSyncParams e \<and> SlotSyncWorkerCanRestart e then
        (let (p, s) = StartChildProcess e B_SLOTSYNC_WORKER s in s\<lparr>SlotSyncWorkerPID := p\<rparr>)
      else s)"

definition PgArchStartupAllowed :: "env \<Rightarrow> postmaster \<Rightarrow> bool" where
  "PgArchStartupAllowed e s =
     (((XLogArchivingActive e \<and> pmState s = PM_RUN) \<or>
       (XLogArchivingAlways e \<and> (pmState s = PM_RECOVERY \<or> pmState s = PM_HOT_STANDBY))) \<and>
      PgArchCanRestart e)"

section \<open>Background workers\<close>

fun bgworker_should_start_now :: "PMState \<Rightarrow> BgWorkerStartTime \<Rightarrow> bool" where
  "bgworker_should_start_now PM_NO_CHILDREN start_time = False"
| "bgworker_should_start_now PM_WAIT_DEAD_END start_time = False"
| "bgworker_should_start_now PM_SHUTDOWN_2 start_time = False"
| "bgworker_should_start_now PM_SHUTDOWN start_time = False"
| "bgworker_should_start_now PM_WAIT_BACKENDS start_time = False"
| "bgworker_should_start_now PM_STOP_BACKENDS start_time = False"
| "bgworker_should_start_now PM_RUN start_time =
     (start_time = BgWorkerStart_RecoveryFinished \<or> start_time = BgWorkerStart_ConsistentState \<or>
      start_time = BgWorkerStart_PostmasterStart)"
| "bgworker_should_start_now PM_HOT_STANDBY start_time =
     (start_time = BgWorkerStart_ConsistentState \<or> start_time = BgWorkerStart_PostmasterStart)"
| "bgworker_should_start_now PM_RECOVERY start_time = (start_time = BgWorkerStart_PostmasterStart)"
| "bgworker_should_start_now PM_STARTUP start_time = (start_time = BgWorkerStart_PostmasterStart)"
| "bgworker_should_start_now PM_INIT start_time = (start_time = BgWorkerStart_PostmasterStart)"

text \<open>
  \<open>assign_backendlist_entry\<close>: on success the new \<open>Backend\<close> (its \<open>pid\<close> not yet
  set, written 0 here) and the worker with its child slot.
\<close>

definition assign_backendlist_entry ::
  "env \<Rightarrow> RegisteredBgWorker \<Rightarrow> postmaster \<Rightarrow> (Backend \<times> RegisteredBgWorker) option \<times> postmaster" where
  "assign_backendlist_entry e rw s =
     (if canAcceptConnections e BACKEND_TYPE_BGWORKER s \<noteq> CAC_OK then
        (None, ereport_LOG ''no slot available for new background worker process'' s)
      else
        (let MyCancelKey = pg_strong_random e (env_calls s); s = tick s in
         case MyCancelKey of
           None \<Rightarrow> (None, ereport_LOG ''could not generate random cancel key'' s)
         | Some key \<Rightarrow>
             (let have_bn = palloc_extended e (env_calls s); s = tick s in
              if \<not> have_bn then (None, ereport_LOG ''out of memory'' s)
              else
                (let slot = AssignPostmasterChildSlot e (env_calls s); s = tick s in
                 (Some (\<lparr>pid = 0, cancel_key = key, child_slot = slot,
                         bkend_type = BACKEND_TYPE_BGWORKER, dead_end = False,
                         bgworker_notify = False\<rparr>,
                        rw\<lparr>rw_child_slot := slot\<rparr>), s)))))"

definition do_start_bgworker ::
  "env \<Rightarrow> RegisteredBgWorker \<Rightarrow> postmaster \<Rightarrow> bool \<times> RegisteredBgWorker \<times> postmaster" where
  "do_start_bgworker e rw s =
     (case assign_backendlist_entry e rw s of
        (None, s) \<Rightarrow> (False, rw\<lparr>rw_crashed_at := GetCurrentTimestamp e\<rparr>, s)
      | (Some (bn, rw), s) \<Rightarrow>
          (let worker_pid = postmaster_child_launch e (env_calls s); s = tick s in
           if worker_pid = - 1 then
             (False, rw\<lparr>rw_child_slot := 0, rw_crashed_at := GetCurrentTimestamp e\<rparr>,
              ereport_LOG ''could not fork background worker process: %m'' s)
           else
             (True, rw\<lparr>rw_pid := worker_pid\<rparr>,
              s\<lparr>BackendList := bn\<lparr>pid := worker_pid\<rparr> # BackendList s\<rparr>)))"

text \<open>
  The loop of \<open>maybe_start_bgworkers\<close>. \<open>done\<close> holds the entries already passed and
  kept, in list order; \<open>now\<close> is the local variable of that name (0 until the clock is
  read). \<open>bgw_restart_time\<close> is a C \<open>int\<close> and so is its product with 1000.

  Modelled from the spec: \<open>ForgetBackgroundWorker\<close> is defined in bgworker.c, which is
  not among the sources; section 4.8 says of such an entry that it is removed, so the
  entry is dropped from the list.
\<close>

fun maybe_start_bgworkers_loop ::
  "env \<Rightarrow> nat \<Rightarrow> int \<Rightarrow> RegisteredBgWorker list \<Rightarrow> RegisteredBgWorker list \<Rightarrow> postmaster \<Rightarrow> postmaster" where
  "maybe_start_bgworkers_loop e num_launched now done [] s = s\<lparr>BackgroundWorkerList := done\<rparr>"
| "maybe_start_bgworkers_loop e num_launched now done (rw # rest) s =
     (if rw_pid rw \<noteq> 0 then maybe_start_bgworkers_loop e num_launched now (done @ [rw]) rest s
      else if rw_terminate rw then maybe_start_bgworkers_loop e num_launched now done rest s
      else if rw_crashed_at rw \<noteq> 0 \<and> bgw_restart_time rw = BGW_NEVER_RESTART then
        maybe_start_bgworkers_loop e num_launched now done rest
          (if bgw_notify_pid rw \<noteq> 0 then kill (bgw_notify_pid rw) SIGUSR1 s else s)
      else
        (let now = (if rw_crashed_at rw \<noteq> 0 \<and> now = 0 then GetCurrentTimestamp e else now) in
         if rw_crashed_at rw \<noteq> 0 \<and>
            \<not> TimestampDifferenceExceeds (rw_crashed_at rw) now (wrap_int32 (bgw_restart_time rw * 1000))
         then maybe_start_bgworkers_loop e num_launched now (done @ [rw]) rest
                (s\<lparr>HaveCrashedWorker := True\<rparr>)
         else if bgworker_should_start_now (pmState s) (bgw_start_time rw) then
           (case do_start_bgworker e (rw\<lparr>rw_crashed_at := 0\<rparr>) s of
              (started, rw', s') \<Rightarrow>
                if \<not> started then
                  s'\<lparr>StartWorkerNeeded := True, BackgroundWorkerList := done @ rw' # rest\<rparr>
                else if Suc num_launched \<ge> MAX_BGWORKERS_TO_LAUNCH then
                  s'\<lparr>StartWorkerNeeded := True, BackgroundWorkerList := done @ rw' # rest\<rparr>
                else maybe_start_bgworkers_loop e (Suc num_launched) now (done @ [rw']) rest s')
         else maybe_start_bgworkers_loop e num_launched now (done @ [rw]) rest s))"

definition maybe_start_bgworkers :: "env \<Rightarrow> postmaster \<Rightarrow> postmaster" where
  "maybe_start_bgworkers e s =
     (if FatalError s then s\<lparr>StartWorkerNeeded := False, HaveCrashedWorker := False\<rparr>
      else maybe_start_bgworkers_loop e 0 0 [] (BackgroundWorkerList s)
             (s\<lparr>StartWorkerNeeded := False, HaveCrashedWorker := False\<rparr>))"

text \<open>
  The scan of \<open>DetermineSleepTime\<close> over the crashed workers: the entries kept and
  \<open>next_wakeup\<close> (0 while none is known).
\<close>

fun DetermineSleepTime_loop ::
  "int \<Rightarrow> RegisteredBgWorker list \<Rightarrow> RegisteredBgWorker list \<times> int" where
  "DetermineSleepTime_loop next_wakeup [] = ([], next_wakeup)"
| "DetermineSleepTime_loop next_wakeup (rw # rest) =
     (if rw_crashed_at rw = 0 then
        (let (kept, w) = DetermineSleepTime_loop next_wakeup rest in (rw # kept, w))
      else if bgw_restart_time rw = BGW_NEVER_RESTART \<or> rw_terminate rw then
        DetermineSleepTime_loop next_wakeup rest
      else
        (let this_wakeup = TimestampTzPlusMilliseconds (rw_crashed_at rw) (1000 * bgw_restart_time rw);
             (kept, w) = DetermineSleepTime_loop
                           (if next_wakeup = 0 \<or> this_wakeup < next_wakeup then this_wakeup else next_wakeup)
                           rest
         in (rw # kept, w)))"

text \<open>
  \<open>DetermineSleepTime\<close>: the milliseconds to sleep, and the state (the scan may forget
  workers). \<open>seconds\<close> is a C \<open>int\<close>, and so is \<open>seconds * 1000\<close>.
\<close>

definition DetermineSleepTime :: "env \<Rightarrow> postmaster \<Rightarrow> int \<times> postmaster" where
  "DetermineSleepTime e s =
     (if Shutdown s > NoShutdown \<or> (\<not> StartWorkerNeeded s \<and> \<not> HaveCrashedWorker s) then
        (if AbortStartTime s \<noteq> 0 then
           (let seconds = wrap_int32 (SIGKILL_CHILDREN_AFTER_SECS - (time_now e - AbortStartTime s))
            in (max (wrap_int32 (seconds * 1000)) 0, s))
         else (60 * 1000, s))
      else if StartWorkerNeeded s then (0, s)
      else
        (let (kept, next_wakeup) =
               (if HaveCrashedWorker s then DetermineSleepTime_loop 0 (BackgroundWorkerList s)
                else (BackgroundWorkerList s, 0));
             s = s\<lparr>BackgroundWorkerList := kept\<rparr>
         in if next_wakeup \<noteq> 0 then
              (min (60 * 1000)
                 (wrap_int32 (TimestampDifferenceMilliseconds (GetCurrentTimestamp e) next_wakeup)), s)
            else (60 * 1000, s)))"

section \<open>Crash handling\<close>

text \<open>
  \<open>dlist_delete(&rw->rw_backend->elem)\<close>: the \<open>BackendList\<close> entry of the background
  worker with process id \<open>p\<close> leaves the list.
\<close>

fun dlist_delete_rw_backend :: "int \<Rightarrow> Backend list \<Rightarrow> Backend list" where
  "dlist_delete_rw_backend p [] = []"
| "dlist_delete_rw_backend p (bp # rest) =
     (if pid bp = p \<and> bkend_type bp = BACKEND_TYPE_BGWORKER then rest
      else bp # dlist_delete_rw_backend p rest)"

fun HandleChildCrash_bgworkers ::
  "env \<Rightarrow> int \<Rightarrow> bool \<Rightarrow> RegisteredBgWorker list \<Rightarrow> postmaster \<Rightarrow> RegisteredBgWorker list \<times> postmaster" where
  "HandleChildCrash_bgworkers e p take_action [] s = ([], s)"
| "HandleChildCrash_bgworkers e p take_action (rw # rest) s =
     (if rw_pid rw = 0 then
        (let (rest', s') = HandleChildCrash_bgworkers e p take_action rest s in (rw # rest', s'))
      else if rw_pid rw = p then
        (let (rest', s') = HandleChildCrash_bgworkers e p take_action rest
                             (s\<lparr>BackendList := dlist_delete_rw_backend (rw_pid rw) (BackendList s)\<rparr>)
         in (rw\<lparr>rw_pid := 0, rw_child_slot := 0\<rparr> # rest', s'))
      else
        (let (rest', s') = HandleChildCrash_bgworkers e p take_action rest
                             (if take_action then sigquit_child e (rw_pid rw) s else s)
         in (rw # rest', s')))"

fun HandleChildCrash_backends ::
  "env \<Rightarrow> int \<Rightarrow> bool \<Rightarrow> Backend list \<Rightarrow> postmaster \<Rightarrow> Backend list \<times> postmaster" where
  "HandleChildCrash_backends e p take_action [] s = ([], s)"
| "HandleChildCrash_backends e p take_action (bp # rest) s =
     (if pid bp = p then HandleChildCrash_backends e p take_action rest s
      else if bkend_type bp = BACKEND_TYPE_BGWORKER then
        (let (rest', s') = HandleChildCrash_backends e p take_action rest s in (bp # rest', s'))
      else
        (let (rest', s') = HandleChildCrash_backends e p take_action rest
                             (if take_action then sigquit_child e (pid bp) s else s)
         in (bp # rest', s')))"

definition HandleChildCrash :: "env \<Rightarrow> int \<Rightarrow> int \<Rightarrow> string \<Rightarrow> postmaster \<Rightarrow> postmaster" where
  "HandleChildCrash e p exitstatus procname s =
     (let take_action = (\<not> FatalError s \<and> Shutdown s \<noteq> ImmediateShutdown);
          s = (if take_action then
                 ereport_LOG ''terminating any other active server processes''
                   (LogChildExit True procname p exitstatus s)
               else s);
          (bgws, s) = HandleChildCrash_bgworkers e p take_action (BackgroundWorkerList s) s;
          s = s\<lparr>BackgroundWorkerList := bgws\<rparr>;
          (bl, s) = HandleChildCrash_backends e p take_action (BackendList s) s;
          s = s\<lparr>BackendList := bl\<rparr>;
          s = (if p = StartupPID s then s\<lparr>StartupPID := 0\<rparr>
               else if StartupPID s \<noteq> 0 \<and> take_action then
                 (sigquit_child e (StartupPID s) s)\<lparr>StartupStatus := STARTUP_SIGNALED\<rparr>
               else s);
          s = (if p = BgWriterPID s then s\<lparr>BgWriterPID := 0\<rparr>
               else if BgWriterPID s \<noteq> 0 \<and> take_action then sigquit_child e (BgWriterPID s) s
               else s);
          s = (if p = CheckpointerPID s then s\<lparr>CheckpointerPID := 0\<rparr>
               else if CheckpointerPID s \<noteq> 0 \<and> take_action then sigquit_child e (CheckpointerPID s) s
               else s);
          s = (if p = WalWriterPID s then s\<lparr>WalWriterPID := 0\<rparr>
               else if WalWriterPID s \<noteq> 0 \<and> take_action then sigquit_child e (WalWriterPID s) s
               else s);
          s = (if p = WalReceiverPID s then s\<lparr>WalReceiverPID := 0\<rparr>
               else if WalReceiverPID s \<noteq> 0 \<and> take_action then sigquit_child e (WalReceiverPID s) s
               else s);
          s = (if p = WalSummarizerPID s then s\<lparr>WalSummarizerPID := 0\<rparr>
               else if WalSummarizerPID s \<noteq> 0 \<and> take_action then sigquit_child e (WalSummarizerPID s) s
               else s);
          s = (if p = AutoVacPID s then s\<lparr>AutoVacPID := 0\<rparr>
               else if AutoVacPID s \<noteq> 0 \<and> take_action then sigquit_child e (AutoVacPID s) s
               else s);
          s = (if p = PgArchPID s then s\<lparr>PgArchPID := 0\<rparr>
               else if PgArchPID s \<noteq> 0 \<and> take_action then sigquit_child e (PgArchPID s) s
               else s);
          s = (if p = SlotSyncWorkerPID s then s\<lparr>SlotSyncWorkerPID := 0\<rparr>
               else if SlotSyncWorkerPID s \<noteq> 0 \<and> take_action then sigquit_child e (SlotSyncWorkerPID s) s
               else s);
          s = (if Shutdown s \<noteq> ImmediateShutdown then s\<lparr>FatalError := True\<rparr> else s);
          s = (if pmState s = PM_RECOVERY \<or> pmState s = PM_HOT_STANDBY \<or> pmState s = PM_RUN \<or>
                  pmState s = PM_STOP_BACKENDS \<or> pmState s = PM_SHUTDOWN
               then set_pmState PM_WAIT_BACKENDS s else s);
          s = (if AbortStartTime s = 0 then s\<lparr>AbortStartTime := time_now e\<rparr> else s)
      in s)"

section \<open>Reaping children\<close>

text \<open>The first entry with the given process id, with what stands before and after it.\<close>

fun find_bgworker ::
  "int \<Rightarrow> RegisteredBgWorker list \<Rightarrow>
   (RegisteredBgWorker list \<times> RegisteredBgWorker \<times> RegisteredBgWorker list) option" where
  "find_bgworker p [] = None"
| "find_bgworker p (rw # rest) =
     (if rw_pid rw = p then Some ([], rw, rest)
      else (case find_bgworker p rest of
              None \<Rightarrow> None
            | Some (pre, x, post) \<Rightarrow> Some (rw # pre, x, post)))"

fun find_backend :: "int \<Rightarrow> Backend list \<Rightarrow> (Backend list \<times> Backend \<times> Backend list) option" where
  "find_backend p [] = None"
| "find_backend p (bp # rest) =
     (if pid bp = p then Some ([], bp, rest)
      else (case find_backend p rest of
              None \<Rightarrow> None
            | Some (pre, x, post) \<Rightarrow> Some (bp # pre, x, post)))"

text \<open>\<open>rw->rw_backend->bgworker_notify\<close>, read from the worker's \<open>BackendList\<close> entry.\<close>

fun rw_backend_bgworker_notify :: "int \<Rightarrow> Backend list \<Rightarrow> bool" where
  "rw_backend_bgworker_notify p [] = False"
| "rw_backend_bgworker_notify p (bp # rest) =
     (if pid bp = p \<and> bkend_type bp = BACKEND_TYPE_BGWORKER then bgworker_notify bp
      else rw_backend_bgworker_notify p rest)"

text \<open>
  \<open>BackgroundWorkerStopNotifications\<close> is defined in bgworker.c, which is not among
  the sources. The comments at its two calls say what it does: it cancels the
  notifications destined for the process that has gone, so no registration names that
  process as the one to notify any more.
\<close>

definition cancel_notification :: "int \<Rightarrow> RegisteredBgWorker \<Rightarrow> RegisteredBgWorker" where
  "cancel_notification p rw = (if bgw_notify_pid rw = p then rw\<lparr>bgw_notify_pid := 0\<rparr> else rw)"

definition BackgroundWorkerStopNotifications ::
  "int \<Rightarrow> RegisteredBgWorker list \<Rightarrow> RegisteredBgWorker list" where
  "BackgroundWorkerStopNotifications p bgws = map (cancel_notification p) bgws"

text \<open>
  \<open>CleanupBackgroundWorker\<close>: \<open>pre\<close> and \<open>post\<close> are the list around the entry the
  iterator stands on.
\<close>

definition CleanupBackgroundWorker :: "env \<Rightarrow> int \<Rightarrow> int \<Rightarrow> postmaster \<Rightarrow> bool \<times> postmaster" where
  "CleanupBackgroundWorker e p exitstatus s =
     (case find_bgworker p (BackgroundWorkerList s) of
        None \<Rightarrow> (False, s)
      | Some (pre, rw, post) \<Rightarrow>
          (let rw = (if \<not> EXIT_STATUS_0 exitstatus then rw\<lparr>rw_crashed_at := GetCurrentTimestamp e\<rparr>
                     else rw\<lparr>rw_crashed_at := 0, rw_terminate := True\<rparr>);
               s = s\<lparr>BackgroundWorkerList := pre @ rw # post\<rparr>
           in if \<not> EXIT_STATUS_0 exitstatus \<and> \<not> EXIT_STATUS_1 exitstatus then
                (True, HandleChildCrash e p exitstatus ''background worker'' s)
              else if \<not> ReleasePostmasterChildSlot e (rw_child_slot rw) then
                (True, HandleChildCrash e p exitstatus ''background worker'' s)
              else
                (let notify = rw_backend_bgworker_notify (rw_pid rw) (BackendList s);
                     s = s\<lparr>BackendList := dlist_delete_rw_backend (rw_pid rw) (BackendList s)\<rparr>;
                     (pre, rw, post) =
                        (if notify then
                           (BackgroundWorkerStopNotifications (rw_pid rw) pre,
                            cancel_notification (rw_pid rw) rw,
                            BackgroundWorkerStopNotifications (rw_pid rw) post)
                         else (pre, rw, post));
                     rw = rw\<lparr>rw_pid := 0, rw_child_slot := 0\<rparr>;
                     (forget, sigs) = ReportBackgroundWorkerExit e rw;
                     s = s\<lparr>BackgroundWorkerList := (if forget then pre @ post else pre @ rw # post),
                           kills := kills s @ sigs\<rparr>
                 in (True, LogChildExit (\<not> EXIT_STATUS_0 exitstatus) ''background worker'' p exitstatus s))))"

definition CleanupBackend :: "env \<Rightarrow> int \<Rightarrow> int \<Rightarrow> postmaster \<Rightarrow> postmaster" where
  "CleanupBackend e p exitstatus s =
     (if \<not> EXIT_STATUS_0 exitstatus \<and> \<not> EXIT_STATUS_1 exitstatus then
        HandleChildCrash e p exitstatus ''server process'' s
      else
        (case find_backend p (BackendList s) of
           None \<Rightarrow> s
         | Some (pre, bp, post) \<Rightarrow>
             if \<not> dead_end bp \<and> \<not> ReleasePostmasterChildSlot e (child_slot bp) then
               HandleChildCrash e p exitstatus ''server process'' s
             else
               (let s = (if bgworker_notify bp then
                           s\<lparr>BackgroundWorkerList :=
                               BackgroundWorkerStopNotifications (pid bp) (BackgroundWorkerList s)\<rparr>
                         else s)
                in s\<lparr>BackendList := pre @ post\<rparr>)))"

section \<open>The state machine\<close>

text \<open>
  \<open>PostmasterStateMachine\<close>, one definition for each \<open>if\<close> block of the source, in
  order. After \<open>ExitPostmaster\<close> nothing more runs.
\<close>

definition PostmasterStateMachine_smart :: "env \<Rightarrow> postmaster \<Rightarrow> postmaster" where
  "PostmasterStateMachine_smart e s =
     (if pmState s = PM_RUN \<or> pmState s = PM_HOT_STANDBY then
        (if \<not> connsAllowed s then
           (let (cnt, s) = CountChildren e BACKEND_TYPE_NORMAL s in
            if cnt = 0 then set_pmState PM_STOP_BACKENDS s else s)
         else s)
      else s)"

definition PostmasterStateMachine_stop_backends :: "env \<Rightarrow> postmaster \<Rightarrow> postmaster" where
  "PostmasterStateMachine_stop_backends e s =
     (if pmState s = PM_STOP_BACKENDS then
        (let (bgws, sigs) = ForgetUnstartedBackgroundWorkers e (BackgroundWorkerList s);
             s = s\<lparr>BackgroundWorkerList := bgws, kills := kills s @ sigs\<rparr>;
             s = SignalSomeChildren e SIGTERM (BACKEND_TYPE_ALL - BACKEND_TYPE_WALSND) s;
             s = (if AutoVacPID s \<noteq> 0 then signal_child e (AutoVacPID s) SIGTERM s else s);
             s = (if BgWriterPID s \<noteq> 0 then signal_child e (BgWriterPID s) SIGTERM s else s);
             s = (if WalWriterPID s \<noteq> 0 then signal_child e (WalWriterPID s) SIGTERM s else s);
             s = (if StartupPID s \<noteq> 0 then signal_child e (StartupPID s) SIGTERM s else s);
             s = (if WalReceiverPID s \<noteq> 0 then signal_child e (WalReceiverPID s) SIGTERM s else s);
             s = (if WalSummarizerPID s \<noteq> 0 then signal_child e (WalSummarizerPID s) SIGTERM s else s);
             s = (if SlotSyncWorkerPID s \<noteq> 0 then signal_child e (SlotSyncWorkerPID s) SIGTERM s else s)
         in set_pmState PM_WAIT_BACKENDS s)
      else s)"

definition PostmasterStateMachine_wait_backends :: "env \<Rightarrow> postmaster \<Rightarrow> postmaster" where
  "PostmasterStateMachine_wait_backends e s =
     (if pmState s = PM_WAIT_BACKENDS then
        (let (cnt, s) = CountChildren e (BACKEND_TYPE_ALL - BACKEND_TYPE_WALSND) s in
         if cnt = 0 \<and> StartupPID s = 0 \<and> WalReceiverPID s = 0 \<and> WalSummarizerPID s = 0 \<and>
            BgWriterPID s = 0 \<and>
            (CheckpointerPID s = 0 \<or> (\<not> FatalError s \<and> Shutdown s < ImmediateShutdown)) \<and>
            WalWriterPID s = 0 \<and> AutoVacPID s = 0 \<and> SlotSyncWorkerPID s = 0 then
           (if Shutdown s \<ge> ImmediateShutdown \<or> FatalError s then set_pmState PM_WAIT_DEAD_END s
            else
              (let s = (if CheckpointerPID s = 0 then
                          (let (p, s) = StartChildProcess e B_CHECKPOINTER s in s\<lparr>CheckpointerPID := p\<rparr>)
                        else s)
               in if CheckpointerPID s \<noteq> 0 then
                    set_pmState PM_SHUTDOWN (signal_child e (CheckpointerPID s) SIGUSR2 s)
                  else
                    (let s = set_pmState PM_WAIT_DEAD_END (s\<lparr>FatalError := True\<rparr>);
                         s = SignalChildren e SIGQUIT s
                     in if PgArchPID s \<noteq> 0 then signal_child e (PgArchPID s) SIGQUIT s else s)))
         else s)
      else s)"

definition PostmasterStateMachine_shutdown_2 :: "env \<Rightarrow> postmaster \<Rightarrow> postmaster" where
  "PostmasterStateMachine_shutdown_2 e s =
     (if pmState s = PM_SHUTDOWN_2 then
        (if PgArchPID s = 0 \<and> fst (CountChildren e BACKEND_TYPE_ALL s) = 0
         then set_pmState PM_WAIT_DEAD_END s else s)
      else s)"

definition PostmasterStateMachine_wait_dead_end :: "env \<Rightarrow> postmaster \<Rightarrow> postmaster" where
  "PostmasterStateMachine_wait_dead_end e s =
     (if pmState s = PM_WAIT_DEAD_END then
        (let s = ConfigurePostmasterWaitSet False s in
         if BackendList s = [] \<and> PgArchPID s = 0 then set_pmState PM_NO_CHILDREN s else s)
      else s)"

definition PostmasterStateMachine_exit_on_shutdown :: "env \<Rightarrow> postmaster \<Rightarrow> postmaster" where
  "PostmasterStateMachine_exit_on_shutdown e s =
     (if Shutdown s > NoShutdown \<and> pmState s = PM_NO_CHILDREN then
        (if FatalError s then ExitPostmaster 1 (ereport_LOG ''abnormal database system shutdown'' s)
         else ExitPostmaster 0 s)
      else s)"

definition PostmasterStateMachine_exit_no_restart :: "env \<Rightarrow> postmaster \<Rightarrow> postmaster" where
  "PostmasterStateMachine_exit_no_restart e s =
     (if pmState s = PM_NO_CHILDREN then
        (if StartupStatus s = STARTUP_CRASHED then
           ExitPostmaster 1 (ereport_LOG ''shutting down due to startup process failure'' s)
         else if \<not> restart_after_crash e then
           ExitPostmaster 1 (ereport_LOG ''shutting down because restart_after_crash is off'' s)
         else s)
      else s)"

definition PostmasterStateMachine_reinit :: "env \<Rightarrow> postmaster \<Rightarrow> postmaster" where
  "PostmasterStateMachine_reinit e s =
     (if FatalError s \<and> pmState s = PM_NO_CHILDREN then
        (let s = ereport_LOG ''all server processes terminated; reinitializing'' s;
             s = s\<lparr>BackgroundWorkerList := ResetBackgroundWorkerCrashTimes e (BackgroundWorkerList s)\<rparr>;
             s = CreateSharedMemoryAndSemaphores e s;
             (p, s) = StartChildProcess e B_STARTUP s
         in if exited s \<noteq> None then s
            else
              (let s = s\<lparr>StartupPID := p, StartupStatus := STARTUP_RUNNING\<rparr>;
                   s = set_pmState PM_STARTUP s;
                   s = s\<lparr>AbortStartTime := 0\<rparr>
               in ConfigurePostmasterWaitSet True s))
      else s)"

definition unless_exited :: "(postmaster \<Rightarrow> postmaster) \<Rightarrow> postmaster \<Rightarrow> postmaster" where
  "unless_exited f s = (if exited s = None then f s else s)"

definition PostmasterStateMachine :: "env \<Rightarrow> postmaster \<Rightarrow> postmaster" where
  "PostmasterStateMachine e s =
     (let s = PostmasterStateMachine_smart e s;
          s = PostmasterStateMachine_stop_backends e s;
          s = PostmasterStateMachine_wait_backends e s;
          s = PostmasterStateMachine_shutdown_2 e s;
          s = PostmasterStateMachine_wait_dead_end e s;
          s = PostmasterStateMachine_exit_on_shutdown e s;
          s = unless_exited (PostmasterStateMachine_exit_no_restart e) s;
          s = unless_exited (PostmasterStateMachine_reinit e) s
      in s)"

section \<open>Child exits\<close>

text \<open>The body of the \<open>waitpid\<close> loop of \<open>process_pm_child_exit\<close> for one dead child.\<close>

definition reap_startup :: "env \<Rightarrow> int \<Rightarrow> int \<Rightarrow> postmaster \<Rightarrow> postmaster" where
  "reap_startup e p exitstatus s =
     (let s = s\<lparr>StartupPID := 0\<rparr> in
      if Shutdown s > NoShutdown \<and> (EXIT_STATUS_0 exitstatus \<or> EXIT_STATUS_1 exitstatus) then
        set_pmState PM_WAIT_BACKENDS (s\<lparr>StartupStatus := STARTUP_NOT_RUNNING\<rparr>)
      else if EXIT_STATUS_3 exitstatus then
        (let s = ereport_LOG ''shutdown at recovery target'' s;
             s = s\<lparr>StartupStatus := STARTUP_NOT_RUNNING, Shutdown := max (Shutdown s) SmartShutdown\<rparr>;
             s = TerminateChildren e SIGTERM s
         in set_pmState PM_WAIT_BACKENDS s)
      else if pmState s = PM_STARTUP \<and> StartupStatus s \<noteq> STARTUP_SIGNALED \<and>
              \<not> EXIT_STATUS_0 exitstatus then
        ExitPostmaster 1
          (ereport_LOG ''aborting startup due to startup process failure''
             (LogChildExit True ''startup process'' p exitstatus s))
      else if \<not> EXIT_STATUS_0 exitstatus then
        (let s = (if StartupStatus s = STARTUP_SIGNALED then
                    (let s = s\<lparr>StartupStatus := STARTUP_NOT_RUNNING\<rparr> in
                     if pmState s = PM_STARTUP then set_pmState PM_WAIT_BACKENDS s else s)
                  else s\<lparr>StartupStatus := STARTUP_CRASHED\<rparr>)
         in HandleChildCrash e p exitstatus ''startup process'' s)
      else
        (let s = s\<lparr>StartupStatus := STARTUP_NOT_RUNNING, FatalError := False, AbortStartTime := 0,
                   ReachedNormalRunning := True\<rparr>;
             s = set_pmState PM_RUN s;
             s = s\<lparr>connsAllowed := True\<rparr>;
             s = (if CheckpointerPID s = 0 then
                    (let (q, s) = StartChildProcess e B_CHECKPOINTER s in s\<lparr>CheckpointerPID := q\<rparr>)
                  else s);
             s = (if BgWriterPID s = 0 then
                    (let (q, s) = StartChildProcess e B_BG_WRITER s in s\<lparr>BgWriterPID := q\<rparr>)
                  else s);
             s = (if WalWriterPID s = 0 then
                    (let (q, s) = StartChildProcess e B_WAL_WRITER s in s\<lparr>WalWriterPID := q\<rparr>)
                  else s);
             s = MaybeStartWalSummarizer e s;
             s = (if \<not> IsBinaryUpgrade e \<and> AutoVacuumingActive e \<and> AutoVacPID s = 0 then
                    (let (q, s) = StartChildProcess e B_AUTOVAC_LAUNCHER s in s\<lparr>AutoVacPID := q\<rparr>)
                  else s);
             s = (if PgArchStartupAllowed e s \<and> PgArchPID s = 0 then
                    (let (q, s) = StartChildProcess e B_ARCHIVER s in s\<lparr>PgArchPID := q\<rparr>)
                  else s);
             s = MaybeStartSlotSyncWorker e s;
             s = maybe_start_bgworkers e s
         in ereport_LOG ''database system is ready to accept connections'' s))"

definition reap_child :: "env \<Rightarrow> int \<Rightarrow> int \<Rightarrow> postmaster \<Rightarrow> postmaster" where
  "reap_child e p exitstatus s =
     (if p = StartupPID s then reap_startup e p exitstatus s
      else if p = BgWriterPID s then
        (let s = s\<lparr>BgWriterPID := 0\<rparr> in
         if \<not> EXIT_STATUS_0 exitstatus
         then HandleChildCrash e p exitstatus ''background writer process'' s else s)
      else if p = CheckpointerPID s then
        (let s = s\<lparr>CheckpointerPID := 0\<rparr> in
         if EXIT_STATUS_0 exitstatus \<and> pmState s = PM_SHUTDOWN then
           (let s = (if PgArchPID s \<noteq> 0 then signal_child e (PgArchPID s) SIGUSR2 s else s);
                s = SignalChildren e SIGUSR2 s
            in set_pmState PM_SHUTDOWN_2 s)
         else HandleChildCrash e p exitstatus ''checkpointer process'' s)
      else if p = WalWriterPID s then
        (let s = s\<lparr>WalWriterPID := 0\<rparr> in
         if \<not> EXIT_STATUS_0 exitstatus
         then HandleChildCrash e p exitstatus ''WAL writer process'' s else s)
      else if p = WalReceiverPID s then
        (let s = s\<lparr>WalReceiverPID := 0\<rparr> in
         if \<not> EXIT_STATUS_0 exitstatus \<and> \<not> EXIT_STATUS_1 exitstatus
         then HandleChildCrash e p exitstatus ''WAL receiver process'' s else s)
      else if p = WalSummarizerPID s then
        (let s = s\<lparr>WalSummarizerPID := 0\<rparr> in
         if \<not> EXIT_STATUS_0 exitstatus
         then HandleChildCrash e p exitstatus ''WAL summarizer process'' s else s)
      else if p = AutoVacPID s then
        (let s = s\<lparr>AutoVacPID := 0\<rparr> in
         if \<not> EXIT_STATUS_0 exitstatus
         then HandleChildCrash e p exitstatus ''autovacuum launcher process'' s else s)
      else if p = PgArchPID s then
        (let s = s\<lparr>PgArchPID := 0\<rparr>;
             s = (if \<not> EXIT_STATUS_0 exitstatus \<and> \<not> EXIT_STATUS_1 exitstatus
                  then HandleChildCrash e p exitstatus ''archiver process'' s else s)
         in if PgArchStartupAllowed e s then
              (let (q, s) = StartChildProcess e B_ARCHIVER s in s\<lparr>PgArchPID := q\<rparr>)
            else s)
      else if p = SysLoggerPID s then
        (let s = s\<lparr>SysLoggerPID := 0\<rparr>;
             s = (tick s)\<lparr>SysLoggerPID := SysLogger_Start e (env_calls s)\<rparr>
         in LogChildExit (\<not> EXIT_STATUS_0 exitstatus) ''system logger process'' p exitstatus s)
      else if p = SlotSyncWorkerPID s then
        (let s = s\<lparr>SlotSyncWorkerPID := 0\<rparr> in
         if \<not> EXIT_STATUS_0 exitstatus \<and> \<not> EXIT_STATUS_1 exitstatus
         then HandleChildCrash e p exitstatus ''slot sync worker process'' s else s)
      else
        (case CleanupBackgroundWorker e p exitstatus s of
           (True, s) \<Rightarrow> s\<lparr>HaveCrashedWorker := True\<rparr>
         | (False, s) \<Rightarrow> CleanupBackend e p exitstatus s))"

text \<open>
  The \<open>waitpid\<close> loop: \<open>reaped\<close> are the (pid, exit status) pairs \<open>waitpid\<close> returns in
  this call, in order; the loop ends at the first pid that is not positive.
\<close>

fun process_pm_child_exit_loop :: "env \<Rightarrow> (int \<times> int) list \<Rightarrow> postmaster \<Rightarrow> postmaster" where
  "process_pm_child_exit_loop e [] s = s"
| "process_pm_child_exit_loop e ((p, exitstatus) # rest) s =
     (if p > 0 then
        (let s = reap_child e p exitstatus s in
         if exited s \<noteq> None then s else process_pm_child_exit_loop e rest s)
      else s)"

definition process_pm_child_exit :: "env \<Rightarrow> (int \<times> int) list \<Rightarrow> postmaster \<Rightarrow> postmaster" where
  "process_pm_child_exit e reaped s =
     (let s = s\<lparr>pending_pm_child_exit := False\<rparr>;
          s = process_pm_child_exit_loop e reaped s
      in unless_exited (PostmasterStateMachine e) s)"

section \<open>Shutdown and reload requests\<close>

definition handle_pm_shutdown_request_signal :: "signal \<Rightarrow> postmaster \<Rightarrow> postmaster" where
  "handle_pm_shutdown_request_signal postgres_signal_arg s =
     (if postgres_signal_arg = SIGTERM then s\<lparr>pending_pm_shutdown_request := True\<rparr>
      else if postgres_signal_arg = SIGINT then
        s\<lparr>pending_pm_fast_shutdown_request := True, pending_pm_shutdown_request := True\<rparr>
      else if postgres_signal_arg = SIGQUIT then
        s\<lparr>pending_pm_immediate_shutdown_request := True, pending_pm_shutdown_request := True\<rparr>
      else s)"

text \<open>The first part of \<open>process_pm_shutdown_request\<close>: the mode, and the flags cleared.\<close>

definition shutdown_request_mode :: "postmaster \<Rightarrow> int \<times> postmaster" where
  "shutdown_request_mode s =
     (let s = s\<lparr>pending_pm_shutdown_request := False\<rparr> in
      if pending_pm_immediate_shutdown_request s then
        (ImmediateShutdown,
         s\<lparr>pending_pm_immediate_shutdown_request := False, pending_pm_fast_shutdown_request := False\<rparr>)
      else if pending_pm_fast_shutdown_request s then
        (FastShutdown, s\<lparr>pending_pm_fast_shutdown_request := False\<rparr>)
      else (SmartShutdown, s))"

definition process_pm_shutdown_request :: "env \<Rightarrow> postmaster \<Rightarrow> postmaster" where
  "process_pm_shutdown_request e s =
     (let (mode, s) = shutdown_request_mode s in
      if mode = SmartShutdown then
        (if Shutdown s \<ge> SmartShutdown then s
         else
           (let s = s\<lparr>Shutdown := SmartShutdown\<rparr>;
                s = ereport_LOG ''received smart shutdown request'' s;
                s = (if pmState s = PM_RUN \<or> pmState s = PM_HOT_STANDBY then s\<lparr>connsAllowed := False\<rparr>
                     else if pmState s = PM_STARTUP \<or> pmState s = PM_RECOVERY
                     then set_pmState PM_STOP_BACKENDS s
                     else s)
            in PostmasterStateMachine e s))
      else if mode = FastShutdown then
        (if Shutdown s \<ge> FastShutdown then s
         else
           (let s = s\<lparr>Shutdown := FastShutdown\<rparr>;
                s = ereport_LOG ''received fast shutdown request'' s;
                s = (if pmState s = PM_STARTUP \<or> pmState s = PM_RECOVERY
                     then set_pmState PM_STOP_BACKENDS s
                     else if pmState s = PM_RUN \<or> pmState s = PM_HOT_STANDBY then
                       set_pmState PM_STOP_BACKENDS (ereport_LOG ''aborting any active transactions'' s)
                     else s)
            in PostmasterStateMachine e s))
      else
        (if Shutdown s \<ge> ImmediateShutdown then s
         else
           (let s = s\<lparr>Shutdown := ImmediateShutdown\<rparr>;
                s = ereport_LOG ''received immediate shutdown request'' s;
                s = TerminateChildren e SIGQUIT s;
                s = set_pmState PM_WAIT_BACKENDS s;
                s = s\<lparr>AbortStartTime := time_now e\<rparr>
            in PostmasterStateMachine e s)))"

definition process_pm_reload_request :: "env \<Rightarrow> postmaster \<Rightarrow> postmaster" where
  "process_pm_reload_request e s =
     (let s = s\<lparr>pending_pm_reload_request := False\<rparr> in
      if Shutdown s \<le> SmartShutdown then
        (let s = ereport_LOG ''received SIGHUP, reloading configuration files'' s;
             s = SignalChildren e SIGHUP s;
             s = (if StartupPID s \<noteq> 0 then signal_child e (StartupPID s) SIGHUP s else s);
             s = (if BgWriterPID s \<noteq> 0 then signal_child e (BgWriterPID s) SIGHUP s else s);
             s = (if CheckpointerPID s \<noteq> 0 then signal_child e (CheckpointerPID s) SIGHUP s else s);
             s = (if WalWriterPID s \<noteq> 0 then signal_child e (WalWriterPID s) SIGHUP s else s);
             s = (if WalReceiverPID s \<noteq> 0 then signal_child e (WalReceiverPID s) SIGHUP s else s);
             s = (if WalSummarizerPID s \<noteq> 0 then signal_child e (WalSummarizerPID s) SIGHUP s else s);
             s = (if AutoVacPID s \<noteq> 0 then signal_child e (AutoVacPID s) SIGHUP s else s);
             s = (if PgArchPID s \<noteq> 0 then signal_child e (PgArchPID s) SIGHUP s else s);
             s = (if SysLoggerPID s \<noteq> 0 then signal_child e (SysLoggerPID s) SIGHUP s else s);
             s = (if SlotSyncWorkerPID s \<noteq> 0 then signal_child e (SlotSyncWorkerPID s) SIGHUP s else s)
         in s)
      else s)"

section \<open>pmsignals\<close>

definition process_pm_pmsignal :: "env \<Rightarrow> pmsignals \<Rightarrow> postmaster \<Rightarrow> postmaster" where
  "process_pm_pmsignal e sigs s =
     (let s = s\<lparr>pending_pm_pmsignal := False\<rparr>;
          s = (if PMSIGNAL_RECOVERY_STARTED sigs \<and> pmState s = PM_STARTUP \<and> Shutdown s = NoShutdown then
                 (let s = s\<lparr>FatalError := False, AbortStartTime := 0\<rparr>;
                      s = (if XLogArchivingAlways e then
                             (let (q, s) = StartChildProcess e B_ARCHIVER s in s\<lparr>PgArchPID := q\<rparr>)
                           else s)
                  in set_pmState PM_RECOVERY s)
               else s);
          s = (if PMSIGNAL_BEGIN_HOT_STANDBY sigs \<and> pmState s = PM_RECOVERY \<and> Shutdown s = NoShutdown then
                 (let s = ereport_LOG ''database system is ready to accept read-only connections'' s;
                      s = set_pmState PM_HOT_STANDBY s
                  in s\<lparr>connsAllowed := True, StartWorkerNeeded := True\<rparr>)
               else s);
          s = (if PMSIGNAL_BACKGROUND_WORKER_CHANGE sigs then
                 (let (bgws, ks) = BackgroundWorkerStateChange e
                                     (PMState_rank (pmState s) < PMState_rank PM_STOP_BACKENDS)
                                     (BackgroundWorkerList s)
                  in s\<lparr>BackgroundWorkerList := bgws, kills := kills s @ ks, StartWorkerNeeded := True\<rparr>)
               else s);
          s = (if StartWorkerNeeded s \<or> HaveCrashedWorker s then maybe_start_bgworkers e s else s);
          s = (if SysLoggerPID s \<noteq> 0 then
                 (if CheckLogrotateSignal e then signal_child e (SysLoggerPID s) SIGUSR1 s
                  else if PMSIGNAL_ROTATE_LOGFILE sigs then signal_child e (SysLoggerPID s) SIGUSR1 s
                  else s)
               else s);
          s = (if PMSIGNAL_START_AUTOVAC_LAUNCHER sigs \<and> Shutdown s \<le> SmartShutdown \<and>
                  PMState_rank (pmState s) < PMState_rank PM_STOP_BACKENDS
               then s\<lparr>start_autovac_launcher := True\<rparr> else s);
          s = (if PMSIGNAL_START_AUTOVAC_WORKER sigs \<and> Shutdown s \<le> SmartShutdown \<and>
                  PMState_rank (pmState s) < PMState_rank PM_STOP_BACKENDS
               then StartAutovacuumWorker e s else s);
          s = (if PMSIGNAL_START_WALRECEIVER sigs
               then MaybeStartWalReceiver e (s\<lparr>WalReceiverRequested := True\<rparr>) else s);
          s = (if PMSIGNAL_ADVANCE_STATE_MACHINE sigs then PostmasterStateMachine e s else s)
      in unless_exited
           (\<lambda>s. if StartupPID s \<noteq> 0 \<and>
                    (pmState s = PM_STARTUP \<or> pmState s = PM_RECOVERY \<or> pmState s = PM_HOT_STANDBY) \<and>
                    CheckPromoteSignal e
                 then signal_child e (StartupPID s) SIGUSR2 s else s) s)"

section \<open>The server loop\<close>

text \<open>
  The part of the body of \<open>ServerLoop\<close> that follows the loop over the wait events,
  from the restart of the log collector to the end of the iteration (the pid file
  recheck sends SIGQUIT to the postmaster itself, which is the shutdown signal
  handler; touching the socket files changes nothing here).
\<close>

definition ServerLoop_housekeeping :: "env \<Rightarrow> postmaster \<Rightarrow> postmaster" where
  "ServerLoop_housekeeping e s =
     (let s = (if SysLoggerPID s = 0 \<and> Logging_collector e
               then (tick s)\<lparr>SysLoggerPID := SysLogger_Start e (env_calls s)\<rparr> else s);
          s = (if pmState s = PM_RUN \<or> pmState s = PM_RECOVERY \<or> pmState s = PM_HOT_STANDBY \<or>
                  pmState s = PM_STARTUP then
                 (let s = (if CheckpointerPID s = 0 then
                             (let (q, s) = StartChildProcess e B_CHECKPOINTER s in s\<lparr>CheckpointerPID := q\<rparr>)
                           else s)
                  in if BgWriterPID s = 0 then
                       (let (q, s) = StartChildProcess e B_BG_WRITER s in s\<lparr>BgWriterPID := q\<rparr>)
                     else s)
               else s);
          s = (if WalWriterPID s = 0 \<and> pmState s = PM_RUN then
                 (let (q, s) = StartChildProcess e B_WAL_WRITER s in s\<lparr>WalWriterPID := q\<rparr>)
               else s);
          s = (if \<not> IsBinaryUpgrade e \<and> AutoVacPID s = 0 \<and>
                  (AutoVacuumingActive e \<or> start_autovac_launcher s) \<and> pmState s = PM_RUN then
                 (let (q, s) = StartChildProcess e B_AUTOVAC_LAUNCHER s; s = s\<lparr>AutoVacPID := q\<rparr> in
                  if AutoVacPID s \<noteq> 0 then s\<lparr>start_autovac_launcher := False\<rparr> else s)
               else s);
          s = (if PgArchPID s = 0 \<and> PgArchStartupAllowed e s then
                 (let (q, s) = StartChildProcess e B_ARCHIVER s in s\<lparr>PgArchPID := q\<rparr>)
               else s);
          s = MaybeStartSlotSyncWorker e s;
          s = (if avlauncher_needs_signal s then
                 (let s = s\<lparr>avlauncher_needs_signal := False\<rparr> in
                  if AutoVacPID s \<noteq> 0 then kill (AutoVacPID s) SIGUSR2 s else s)
               else s);
          s = (if WalReceiverRequested s then MaybeStartWalReceiver e s else s);
          s = MaybeStartWalSummarizer e s;
          s = (if StartWorkerNeeded s \<or> HaveCrashedWorker s then maybe_start_bgworkers e s else s);
          s = (if (Shutdown s \<ge> ImmediateShutdown \<or> FatalError s) \<and> AbortStartTime s \<noteq> 0 \<and>
                  time_now e - AbortStartTime s \<ge> SIGKILL_CHILDREN_AFTER_SECS then
                 (let s = ereport_LOG ''issuing %s to recalcitrant children'' s;
                      s = TerminateChildren e (if send_abort_for_kill e then SIGABRT else SIGKILL) s
                  in s\<lparr>AbortStartTime := 0\<rparr>)
               else s)
      in s)"

text \<open>
  What can happen between two statements of \<open>ServerLoop\<close>: a signal handler sets its
  flag; the loop over the wait events processes a pending request (each behind the
  test of its flag, as in the source) or starts a backend for an accepted
  connection; the sleep time is computed; the rest of the body runs. Every run of
  \<open>ServerLoop\<close> is a sequence of such steps.
\<close>

datatype pm_step =
    Signal_shutdown signal
  | Signal_reload
  | Signal_child_exit
  | Signal_pmsignal
  | Process_shutdown_request
  | Process_reload_request
  | Process_child_exit "(int \<times> int) list"
  | Process_pmsignal pmsignals
  | Accept_connection
  | Sleep_time
  | Housekeeping

fun ServerLoop_step :: "env \<Rightarrow> pm_step \<Rightarrow> postmaster \<Rightarrow> postmaster" where
  "ServerLoop_step e (Signal_shutdown sig) s = handle_pm_shutdown_request_signal sig s"
| "ServerLoop_step e Signal_reload s = s\<lparr>pending_pm_reload_request := True\<rparr>"
| "ServerLoop_step e Signal_child_exit s = s\<lparr>pending_pm_child_exit := True\<rparr>"
| "ServerLoop_step e Signal_pmsignal s = s\<lparr>pending_pm_pmsignal := True\<rparr>"
| "ServerLoop_step e Process_shutdown_request s =
     (if pending_pm_shutdown_request s then process_pm_shutdown_request e s else s)"
| "ServerLoop_step e Process_reload_request s =
     (if pending_pm_reload_request s then process_pm_reload_request e s else s)"
| "ServerLoop_step e (Process_child_exit reaped) s =
     (if pending_pm_child_exit s then process_pm_child_exit e reaped s else s)"
| "ServerLoop_step e (Process_pmsignal sigs) s =
     (if pending_pm_pmsignal s then process_pm_pmsignal e sigs s else s)"
| "ServerLoop_step e Accept_connection s = BackendStartup e s"
| "ServerLoop_step e Sleep_time s = snd (DetermineSleepTime e s)"
| "ServerLoop_step e Housekeeping s = ServerLoop_housekeeping e s"

text \<open>A run: the steps in order, each with the environment it meets, until the exit.\<close>

fun ServerLoop_run :: "(env \<times> pm_step) list \<Rightarrow> postmaster \<Rightarrow> postmaster" where
  "ServerLoop_run [] s = s"
| "ServerLoop_run ((e, step) # rest) s =
     (if exited s \<noteq> None then s else ServerLoop_run rest (ServerLoop_step e step s))"

text \<open>The static variables as the program text initialises them.\<close>

definition postmaster_initial :: "RegisteredBgWorker list \<Rightarrow> postmaster" where
  "postmaster_initial bgws =
     \<lparr>pmState = PM_INIT, Shutdown = NoShutdown, FatalError = False, connsAllowed = True,
      AbortStartTime = 0, StartupStatus = STARTUP_NOT_RUNNING, ReachedNormalRunning = False,
      StartupPID = 0, BgWriterPID = 0, CheckpointerPID = 0, WalWriterPID = 0, WalReceiverPID = 0,
      WalSummarizerPID = 0, AutoVacPID = 0, PgArchPID = 0, SysLoggerPID = 0, SlotSyncWorkerPID = 0,
      BackendList = [], BackgroundWorkerList = bgws,
      StartWorkerNeeded = True, HaveCrashedWorker = False,
      start_autovac_launcher = False, avlauncher_needs_signal = False, WalReceiverRequested = False,
      pending_pm_pmsignal = False, pending_pm_child_exit = False, pending_pm_reload_request = False,
      pending_pm_shutdown_request = False, pending_pm_fast_shutdown_request = False,
      pending_pm_immediate_shutdown_request = False,
      kills = [], server_log = [], shmem_creations = [], accept_connections = False,
      exited = None, pmState_log = [PM_INIT], env_calls = 0\<rparr>"

text \<open>
  \<open>PostmasterMain\<close> from the creation of shared memory to the call of \<open>ServerLoop\<close>
  (what comes before reads the configuration and may exit with status 2; it starts no
  child and does not touch \<open>pmState\<close>). \<open>bgws\<close> are the workers registered by the
  preloaded libraries.
\<close>

definition PostmasterMain :: "env \<Rightarrow> RegisteredBgWorker list \<Rightarrow> postmaster" where
  "PostmasterMain e bgws =
     (let s = postmaster_initial bgws;
          s = CreateSharedMemoryAndSemaphores e s;
          s = (tick s)\<lparr>SysLoggerPID := SysLogger_Start e (env_calls s)\<rparr>;
          s = (if CheckpointerPID s = 0 then
                 (let (q, s) = StartChildProcess e B_CHECKPOINTER s in s\<lparr>CheckpointerPID := q\<rparr>)
               else s);
          s = (if BgWriterPID s = 0 then
                 (let (q, s) = StartChildProcess e B_BG_WRITER s in s\<lparr>BgWriterPID := q\<rparr>)
               else s);
          (q, s) = StartChildProcess e B_STARTUP s
      in if exited s \<noteq> None then s
         else
           (let s = s\<lparr>StartupPID := q, StartupStatus := STARTUP_RUNNING\<rparr>;
                s = set_pmState PM_STARTUP s;
                s = maybe_start_bgworkers e s
            in ConfigurePostmasterWaitSet True s))"

section \<open>Vocabulary of the properties\<close>

text \<open>What one call of \<open>signal_child\<close> passes to \<open>kill()\<close>.\<close>

definition signal_kills :: "env \<Rightarrow> int \<Rightarrow> signal \<Rightarrow> (int \<times> signal) list" where
  "signal_kills e p sig =
     (p, sig) #
     (if HAVE_SETSID e \<and> (sig = SIGINT \<or> sig = SIGTERM \<or> sig = SIGQUIT \<or> sig = SIGKILL \<or> sig = SIGABRT)
      then [(- p, sig)] else [])"

text \<open>What \<open>sigquit_child\<close> passes to \<open>kill()\<close>: SIGQUIT, or SIGABRT when asked for.\<close>

definition quit_kills :: "env \<Rightarrow> int \<Rightarrow> (int \<times> signal) list" where
  "quit_kills e p = signal_kills e p (if send_abort_for_crash e then SIGABRT else SIGQUIT)"

text \<open>
  The children \<open>SignalSomeChildren\<close> and \<open>CountChildren\<close> select: not dead-end, and of
  a requested type once a freshly announced walsender has been relabelled.
\<close>

definition targeted :: "env \<Rightarrow> int \<Rightarrow> Backend \<Rightarrow> bool" where
  "targeted e target bp \<longleftrightarrow>
     \<not> dead_end bp \<and>
     (target = BACKEND_TYPE_ALL \<or> target AND bkend_type (relabel_walsender e bp) \<noteq> 0)"

definition relabelled :: "env \<Rightarrow> int \<Rightarrow> Backend \<Rightarrow> Backend" where
  "relabelled e target bp =
     (if dead_end bp \<or> target = BACKEND_TYPE_ALL then bp else relabel_walsender e bp)"


text \<open>
  The times at which the crashed workers of a registration list may be started again
  (microseconds), for the entries \<open>DetermineSleepTime\<close> looks at.
\<close>

definition restart_times :: "RegisteredBgWorker list \<Rightarrow> int list" where
  "restart_times bgws =
     map (\<lambda>rw. rw_crashed_at rw + 1000000 * bgw_restart_time rw)
       (filter (\<lambda>rw. rw_crashed_at rw \<noteq> 0 \<and> bgw_restart_time rw \<noteq> BGW_NEVER_RESTART \<and>
                      \<not> rw_terminate rw) bgws)"


text \<open>
  The first five blocks of \<open>PostmasterStateMachine\<close>, one for each of \<open>PM_RUN\<close> or
  \<open>PM_HOT_STANDBY\<close>, \<open>PM_STOP_BACKENDS\<close>, \<open>PM_WAIT_BACKENDS\<close>, \<open>PM_SHUTDOWN_2\<close> and
  \<open>PM_WAIT_DEAD_END\<close>: the last of them holds the only assignment of \<open>PM_NO_CHILDREN\<close>
  to \<open>pmState\<close>, so the state after them is the state in which \<open>PM_NO_CHILDREN\<close> is
  or is not reached.
\<close>

definition PostmasterStateMachine_leading :: "env \<Rightarrow> postmaster \<Rightarrow> postmaster" where
  "PostmasterStateMachine_leading e s =
     PostmasterStateMachine_wait_dead_end e
       (PostmasterStateMachine_shutdown_2 e
          (PostmasterStateMachine_wait_backends e
             (PostmasterStateMachine_stop_backends e
                (PostmasterStateMachine_smart e s))))"

text \<open>The last three blocks of \<open>PostmasterStateMachine\<close>, those for \<open>PM_NO_CHILDREN\<close>.\<close>

definition PostmasterStateMachine_no_children :: "env \<Rightarrow> postmaster \<Rightarrow> postmaster" where
  "PostmasterStateMachine_no_children e s =
     unless_exited (PostmasterStateMachine_reinit e)
       (unless_exited (PostmasterStateMachine_exit_no_restart e)
          (PostmasterStateMachine_exit_on_shutdown e s))"


text \<open>
  A crashed worker whose restart interval, in milliseconds, fits a C \<open>int\<close> and has
  not yet passed at the time the clock shows.
\<close>

definition throttled :: "env \<Rightarrow> RegisteredBgWorker \<Rightarrow> bool" where
  "throttled e rw \<longleftrightarrow>
     rw_pid rw = 0 \<and> \<not> rw_terminate rw \<and> rw_crashed_at rw \<noteq> 0 \<and>
     0 \<le> bgw_restart_time rw \<and> bgw_restart_time rw \<le> 2147483 \<and>
     GetCurrentTimestamp e < rw_crashed_at rw + bgw_restart_time rw * 1000000"


text \<open>
  The changes of \<open>pmState\<close> the code makes: from the state on the left to one of those
  on the right. A log of assignments to \<open>pmState\<close> is a path when every assignment
  either repeats the state or follows one of these edges.
\<close>

fun pm_edge :: "PMState \<Rightarrow> PMState \<Rightarrow> bool" where
  "pm_edge PM_INIT b = (b = PM_STARTUP)"
| "pm_edge PM_STARTUP b = (b = PM_RECOVERY \<or> b = PM_RUN \<or> b = PM_STOP_BACKENDS \<or> b = PM_WAIT_BACKENDS)"
| "pm_edge PM_RECOVERY b = (b = PM_HOT_STANDBY \<or> b = PM_RUN \<or> b = PM_STOP_BACKENDS \<or> b = PM_WAIT_BACKENDS)"
| "pm_edge PM_HOT_STANDBY b = (b = PM_RUN \<or> b = PM_STOP_BACKENDS \<or> b = PM_WAIT_BACKENDS)"
| "pm_edge PM_RUN b = (b = PM_STOP_BACKENDS \<or> b = PM_WAIT_BACKENDS)"
| "pm_edge PM_STOP_BACKENDS b = (b = PM_WAIT_BACKENDS)"
| "pm_edge PM_WAIT_BACKENDS b = (b = PM_RUN \<or> b = PM_SHUTDOWN \<or> b = PM_WAIT_DEAD_END)"
| "pm_edge PM_SHUTDOWN b = (b = PM_SHUTDOWN_2 \<or> b = PM_WAIT_BACKENDS)"
| "pm_edge PM_SHUTDOWN_2 b = (b = PM_WAIT_DEAD_END \<or> b = PM_WAIT_BACKENDS)"
| "pm_edge PM_WAIT_DEAD_END b = (b = PM_NO_CHILDREN \<or> b = PM_WAIT_BACKENDS)"
| "pm_edge PM_NO_CHILDREN b = (b = PM_STARTUP)"

definition pm_path :: "PMState list \<Rightarrow> bool" where
  "pm_path l = successively (\<lambda>a b. a = b \<or> pm_edge a b) l"

text \<open>
  The transitions the state-machine section of the specification enumerates, read
  generously: the crash cascade and an immediate shutdown may lead to
  \<open>PM_WAIT_BACKENDS\<close> from any state; besides that, Init to Startup; Startup to
  Recovery or Run; Recovery to HotStandby or Run; HotStandby to Run; Run and
  HotStandby to StopBackends; StopBackends to WaitBackends; WaitBackends to Shutdown
  or WaitDeadEnd; Shutdown to Shutdown2; Shutdown2 to WaitDeadEnd; WaitDeadEnd to
  NoChildren; NoChildren to Startup.
\<close>

fun spec_edge :: "PMState \<Rightarrow> PMState \<Rightarrow> bool" where
  "spec_edge a b =
     (b = PM_WAIT_BACKENDS \<or>
      (case a of
         PM_INIT \<Rightarrow> b = PM_STARTUP
       | PM_STARTUP \<Rightarrow> b = PM_RECOVERY \<or> b = PM_RUN
       | PM_RECOVERY \<Rightarrow> b = PM_HOT_STANDBY \<or> b = PM_RUN
       | PM_HOT_STANDBY \<Rightarrow> b = PM_RUN \<or> b = PM_STOP_BACKENDS
       | PM_RUN \<Rightarrow> b = PM_STOP_BACKENDS
       | PM_STOP_BACKENDS \<Rightarrow> b = PM_WAIT_BACKENDS
       | PM_WAIT_BACKENDS \<Rightarrow> b = PM_SHUTDOWN \<or> b = PM_WAIT_DEAD_END
       | PM_SHUTDOWN \<Rightarrow> b = PM_SHUTDOWN_2
       | PM_SHUTDOWN_2 \<Rightarrow> b = PM_WAIT_DEAD_END
       | PM_WAIT_DEAD_END \<Rightarrow> b = PM_NO_CHILDREN
       | PM_NO_CHILDREN \<Rightarrow> b = PM_STARTUP))"

text \<open>
  Two states agree on the lifecycle: the state and its log, the shutdown mode, the
  flags \<open>FatalError\<close> and \<open>connsAllowed\<close>, the exit status, the creations of shared
  memory, and the process ids of the special children other than the log collector.
\<close>

definition core_eq :: "postmaster \<Rightarrow> postmaster \<Rightarrow> bool" where
  "core_eq s x \<longleftrightarrow>
     pmState x = pmState s \<and> pmState_log x = pmState_log s \<and> Shutdown x = Shutdown s \<and>
     FatalError x = FatalError s \<and> connsAllowed x = connsAllowed s \<and> exited x = exited s \<and>
     shmem_creations x = shmem_creations s \<and>
     StartupPID x = StartupPID s \<and> BgWriterPID x = BgWriterPID s \<and>
     CheckpointerPID x = CheckpointerPID s \<and> WalWriterPID x = WalWriterPID s \<and>
     WalReceiverPID x = WalReceiverPID s \<and> WalSummarizerPID x = WalSummarizerPID s \<and>
     AutoVacPID x = AutoVacPID s \<and> PgArchPID x = PgArchPID s \<and>
     SlotSyncWorkerPID x = SlotSyncWorkerPID s"

text \<open>
  What holds of the postmaster between any two statements of the server loop.
  \<open>log_ok\<close>: the log ends in the current state and is a path. \<open>pids_ok\<close>: no startup
  process in \<open>PM_RUN\<close>, and from \<open>PM_SHUTDOWN\<close> on none of the special children that
  must be gone by then. \<open>conns_ok\<close>: connections are only disallowed by a shutdown.
  \<open>why_ok\<close>: the states from \<open>PM_STOP_BACKENDS\<close> on are entered for a shutdown or a
  crash. \<open>shmem_ok\<close>: shared memory was created at boot and then once for each later
  entry to \<open>PM_STARTUP\<close>, each time in \<open>PM_NO_CHILDREN\<close> after a crash with no child
  on the books (if the fork of the startup process then fails, the postmaster exits
  before the state changes). \<open>nc_ok\<close>: in \<open>PM_NO_CHILDREN\<close> the backend list is empty
  and the archiver is gone.
\<close>

definition log_ok :: "postmaster \<Rightarrow> bool" where
  "log_ok s \<longleftrightarrow> pmState_log s \<noteq> [] \<and> last (pmState_log s) = pmState s \<and> pm_path (pmState_log s)"

definition pids_ok :: "postmaster \<Rightarrow> bool" where
  "pids_ok s \<longleftrightarrow>
     pmState s \<noteq> PM_INIT \<and>
     (pmState s = PM_RUN \<longrightarrow> StartupPID s = 0) \<and>
     (pmState s = PM_SHUTDOWN \<or> pmState s = PM_SHUTDOWN_2 \<or> pmState s = PM_WAIT_DEAD_END \<or>
      pmState s = PM_NO_CHILDREN \<longrightarrow>
        StartupPID s = 0 \<and> BgWriterPID s = 0 \<and> WalWriterPID s = 0 \<and> WalReceiverPID s = 0 \<and>
        WalSummarizerPID s = 0 \<and> AutoVacPID s = 0 \<and> SlotSyncWorkerPID s = 0) \<and>
     (pmState s = PM_SHUTDOWN_2 \<or> pmState s = PM_WAIT_DEAD_END \<or> pmState s = PM_NO_CHILDREN \<longrightarrow>
        CheckpointerPID s = 0)"

definition conns_ok :: "postmaster \<Rightarrow> bool" where
  "conns_ok s \<longleftrightarrow> 0 \<le> Shutdown s \<and> (\<not> connsAllowed s \<longrightarrow> 0 < Shutdown s)"

definition why_ok :: "postmaster \<Rightarrow> bool" where
  "why_ok s \<longleftrightarrow>
     (pmState s = PM_STOP_BACKENDS \<or> pmState s = PM_WAIT_BACKENDS \<or> pmState s = PM_SHUTDOWN \<or>
      pmState s = PM_SHUTDOWN_2 \<or> pmState s = PM_WAIT_DEAD_END \<or> pmState s = PM_NO_CHILDREN \<longrightarrow>
        0 < Shutdown s \<or> FatalError s)"

definition shmem_ok :: "postmaster \<Rightarrow> bool" where
  "shmem_ok s \<longleftrightarrow>
     (case shmem_creations s of
        [] \<Rightarrow> False
      | c # cs \<Rightarrow> fst c = PM_INIT \<and> \<not> fst (snd c) \<and> snd (snd (snd c)) = [] \<and>
                 (\<forall>x\<in>set cs. x = (PM_NO_CHILDREN, True, True, []))) \<and>
     (length (shmem_creations s) = count_list (pmState_log s) PM_STARTUP \<or>
      exited s \<noteq> None \<and> length (shmem_creations s) = Suc (count_list (pmState_log s) PM_STARTUP))"

definition nc_ok :: "postmaster \<Rightarrow> bool" where
  "nc_ok s \<longleftrightarrow> (pmState s = PM_NO_CHILDREN \<longrightarrow> BackendList s = [] \<and> PgArchPID s = 0)"

text \<open>
  The states in which the server loop finds the postmaster, and what holds there:
  \<open>binv c w S\<close> with the shutdown mode at least \<open>c\<close>, \<open>why_ok\<close> if \<open>w\<close>, and the state
  in \<open>S\<close>; \<open>minv\<close> inside the state machine; \<open>run_ok\<close> between two steps of a run.
\<close>

definition loop_states :: "PMState set" where
  "loop_states = {PM_STARTUP, PM_RECOVERY, PM_HOT_STANDBY, PM_RUN, PM_WAIT_BACKENDS,
                  PM_SHUTDOWN, PM_SHUTDOWN_2, PM_WAIT_DEAD_END}"

definition binv :: "int \<Rightarrow> bool \<Rightarrow> PMState set \<Rightarrow> postmaster \<Rightarrow> bool" where
  "binv c w S s \<longleftrightarrow>
     log_ok s \<and> pids_ok s \<and> conns_ok s \<and> shmem_ok s \<and> (w \<longrightarrow> why_ok s) \<and> c \<le> Shutdown s \<and>
     pmState s \<in> S"

definition minv :: "int \<Rightarrow> postmaster \<Rightarrow> bool" where
  "minv c s \<longleftrightarrow>
     log_ok s \<and> pids_ok s \<and> conns_ok s \<and> shmem_ok s \<and> why_ok s \<and> c \<le> Shutdown s \<and> nc_ok s"

definition run_ok :: "int \<Rightarrow> postmaster \<Rightarrow> bool" where
  "run_ok c s \<longleftrightarrow>
     minv c s \<and> (exited s = None \<longrightarrow> pmState s \<in> loop_states)"


text \<open>
  The signals \<open>HandleChildCrash\<close> sends when it acts: to the running background
  workers, to the other children in the backend list, to the special children; never
  to the process \<open>p\<close> that has just died, nor to the log collector.
\<close>

definition crash_bgworker_kills :: "env \<Rightarrow> int \<Rightarrow> RegisteredBgWorker list \<Rightarrow> (int \<times> signal) list" where
  "crash_bgworker_kills e p bgws =
     concat (map (\<lambda>rw. quit_kills e (rw_pid rw)) (filter (\<lambda>rw. rw_pid rw \<noteq> 0 \<and> rw_pid rw \<noteq> p) bgws))"

definition crash_backend_kills :: "env \<Rightarrow> int \<Rightarrow> Backend list \<Rightarrow> (int \<times> signal) list" where
  "crash_backend_kills e p bl =
     concat (map (\<lambda>bp. quit_kills e (pid bp)) (filter (\<lambda>bp. pid bp \<noteq> p \<and> bkend_type bp \<noteq> BACKEND_TYPE_BGWORKER) bl))"

definition crash_special_kills :: "env \<Rightarrow> int \<Rightarrow> postmaster \<Rightarrow> (int \<times> signal) list" where
  "crash_special_kills e p s =
     concat (map (\<lambda>q. if p \<noteq> q \<and> q \<noteq> 0 then quit_kills e q else [])
       [StartupPID s, BgWriterPID s, CheckpointerPID s, WalWriterPID s, WalReceiverPID s,
        WalSummarizerPID s, AutoVacPID s, PgArchPID s, SlotSyncWorkerPID s])"

definition crash_kills :: "env \<Rightarrow> int \<Rightarrow> postmaster \<Rightarrow> (int \<times> signal) list" where
  "crash_kills e p s =
     crash_bgworker_kills e p (BackgroundWorkerList s) @ crash_backend_kills e p (BackendList s) @
     crash_special_kills e p s"

text \<open>
  The shutdown mode each signal asks for in \<open>handle_pm_shutdown_request_signal\<close>, and
  the arrival of several signals, one handler call each, before the server loop
  processes them.
\<close>

fun signal_severity :: "signal \<Rightarrow> int" where
  "signal_severity sg =
     (if sg = SIGTERM then SmartShutdown else if sg = SIGINT then FastShutdown
      else if sg = SIGQUIT then ImmediateShutdown else NoShutdown)"

definition latch_signals :: "signal list \<Rightarrow> postmaster \<Rightarrow> postmaster" where
  "latch_signals sigs s = foldl (\<lambda>s sg. handle_pm_shutdown_request_signal sg s) s sigs"

section \<open>Concrete environments and states\<close>

text \<open>
  An environment in which every fork succeeds (the k-th call answers process id
  \<open>200 + k\<close>), no log collector is configured, and the registration list is left as
  it is by bgworker.c; a second one in which every fork fails.
\<close>

definition env0 :: env where
  "env0 =
     \<lparr>restart_after_crash = True, send_abort_for_crash = False, send_abort_for_kill = False,
      MaxConnections = 100, autovacuum_max_workers = 3, max_wal_senders = 10,
      max_worker_processes = 8, Logging_collector = False, EnableHotStandby = True,
      summarize_wal = False, sync_replication_slots = False, IsBinaryUpgrade = False,
      AutoVacuumingActive = True, XLogArchivingActive = False, XLogArchivingAlways = False,
      HAVE_SETSID = True, time_now = 1000, GetCurrentTimestamp = 1000000000,
      postmaster_child_launch = (\<lambda>k. 200 + int k), SysLogger_Start = (\<lambda>k. 0),
      pg_strong_random = (\<lambda>k. Some (word_of_nat (k + 40))), palloc_extended = (\<lambda>k. True),
      AssignPostmasterChildSlot = (\<lambda>k. 1 + int k), ReleasePostmasterChildSlot = (\<lambda>slot. True),
      IsPostmasterChildWalSender = (\<lambda>slot. False), PgArchCanRestart = True,
      SlotSyncWorkerCanRestart = True, ValidateSlotSyncParams = True,
      RecheckDataDirLockFile = True, CheckLogrotateSignal = False, CheckPromoteSignal = False,
      BackgroundWorkerStateChange = (\<lambda>allow bgws. (bgws, [])),
      ForgetUnstartedBackgroundWorkers = (\<lambda>bgws. (bgws, [])),
      ResetBackgroundWorkerCrashTimes = (\<lambda>bgws. bgws),
      ReportBackgroundWorkerExit = (\<lambda>rw. (False, []))\<rparr>"

definition env_nofork :: env where
  "env_nofork = env0\<lparr>postmaster_child_launch := (\<lambda>k. - 1)\<rparr>"

text \<open>
  A running server with two sessions (process ids 101 and 102) and one dead-end
  child (103).
\<close>

definition backend_101 :: Backend where
  "backend_101 = \<lparr>pid = 101, cancel_key = 7, child_slot = 1, bkend_type = BACKEND_TYPE_NORMAL,
                   dead_end = False, bgworker_notify = False\<rparr>"

definition backend_102 :: Backend where
  "backend_102 = \<lparr>pid = 102, cancel_key = 9, child_slot = 2, bkend_type = BACKEND_TYPE_NORMAL,
                   dead_end = False, bgworker_notify = False\<rparr>"

definition backend_103 :: Backend where
  "backend_103 = \<lparr>pid = 103, cancel_key = 11, child_slot = 0, bkend_type = BACKEND_TYPE_NORMAL,
                   dead_end = True, bgworker_notify = False\<rparr>"

definition pm_running :: postmaster where
  "pm_running =
     (postmaster_initial [])\<lparr>pmState := PM_RUN, pmState_log := [PM_INIT, PM_STARTUP, PM_RUN],
       ReachedNormalRunning := True, shmem_creations := [(PM_INIT, False, True, [])], accept_connections := True,
       CheckpointerPID := 11, BgWriterPID := 12, WalWriterPID := 13, AutoVacPID := 14,
       StartWorkerNeeded := False,
       BackendList := [backend_103, backend_102, backend_101]\<rparr>"


text \<open>
  A worker that crashed one second ago and is to be restarted after five; the running
  server with that worker; the running server during a smart shutdown with a worker
  start pending; and the server two seconds into the cleanup after a crash.
\<close>

definition worker_crashed :: RegisteredBgWorker where
  "worker_crashed = \<lparr>rw_pid = 0, rw_child_slot = 0, rw_crashed_at = 999000000, rw_terminate = False,
                      bgw_restart_time = 5, bgw_notify_pid = 0,
                      bgw_start_time = BgWorkerStart_RecoveryFinished\<rparr>"

definition pm_smart_pending :: postmaster where
  "pm_smart_pending = pm_running\<lparr>Shutdown := SmartShutdown, connsAllowed := False, StartWorkerNeeded := True\<rparr>"

definition pm_crashed_worker :: postmaster where
  "pm_crashed_worker = pm_running\<lparr>HaveCrashedWorker := True, BackgroundWorkerList := [worker_crashed]\<rparr>"

definition pm_aborting :: postmaster where
  "pm_aborting = pm_running\<lparr>pmState := PM_WAIT_BACKENDS, FatalError := True, AbortStartTime := 998\<rparr>"


text \<open>
  The server after a crash in normal running, all children gone, still in
  \<open>PM_WAIT_DEAD_END\<close>.
\<close>

definition pm_all_gone :: postmaster where
  "pm_all_gone =
     (postmaster_initial [])\<lparr>pmState := PM_WAIT_DEAD_END, FatalError := True,
       pmState_log := [PM_INIT, PM_STARTUP, PM_RUN, PM_WAIT_BACKENDS, PM_WAIT_DEAD_END],
       ReachedNormalRunning := True, StartupStatus := STARTUP_NOT_RUNNING,
       shmem_creations := [(PM_INIT, False, True, [])], AbortStartTime := 998,
       StartWorkerNeeded := False\<rparr>"


text \<open>
  A server in a fast shutdown whose checkpointer and WAL senders have finished and
  whose last children are gone (\<open>PM_SHUTDOWN_2\<close>), and a crashed server that has just
  seen its last regular child exit (\<open>PM_WAIT_BACKENDS\<close>).
\<close>

definition pm_shutdown_done :: postmaster where
  "pm_shutdown_done =
     (postmaster_initial [])\<lparr>pmState := PM_SHUTDOWN_2, Shutdown := FastShutdown,
       pmState_log := [PM_INIT, PM_STARTUP, PM_RUN, PM_STOP_BACKENDS, PM_WAIT_BACKENDS,
                       PM_SHUTDOWN, PM_SHUTDOWN_2],
       ReachedNormalRunning := True, StartupStatus := STARTUP_NOT_RUNNING,
       connsAllowed := False, shmem_creations := [(PM_INIT, False, True, [])],
       StartWorkerNeeded := False\<rparr>"

definition pm_crash_drained :: postmaster where
  "pm_crash_drained =
     (postmaster_initial [])\<lparr>pmState := PM_WAIT_BACKENDS, FatalError := True,
       pmState_log := [PM_INIT, PM_STARTUP, PM_RUN, PM_WAIT_BACKENDS],
       ReachedNormalRunning := True, StartupStatus := STARTUP_NOT_RUNNING,
       shmem_creations := [(PM_INIT, False, True, [])], AbortStartTime := 998,
       StartWorkerNeeded := False\<rparr>"

text \<open>
  The same crashed worker registered with a restart interval of 2147484 seconds (a
  little under 25 days), and the running server with it.
\<close>

definition worker_long_interval :: RegisteredBgWorker where
  "worker_long_interval = worker_crashed\<lparr>bgw_restart_time := 2147484\<rparr>"

definition pm_long_interval :: postmaster where
  "pm_long_interval = pm_running\<lparr>HaveCrashedWorker := True, BackgroundWorkerList := [worker_long_interval]\<rparr>"

text \<open>
  A run of the server loop after \<open>PostmasterMain env0 []\<close>, which launches the
  checkpointer (201), the background writer (202) and the startup process (203):
  SIGINT arrives while the startup process is still running.
\<close>

definition run_fast_shutdown_in_startup :: "(env \<times> pm_step) list" where
  "run_fast_shutdown_in_startup = [(env0, Signal_shutdown SIGINT), (env0, Process_shutdown_request)]"

section \<open>Effects as record updates\<close>

text \<open>
  Each effect as an update of the state record, and rules that move a conditional
  into the fields it concerns, so that a straight-line function is computed field
  by field.
\<close>

lemma kill_nf: "kill p sig s = kills_update (\<lambda>l. l @ [(p, sig)]) s"
  by (simp add: kill_def)

lemma ereport_LOG_nf: "ereport_LOG msg s = server_log_update (\<lambda>l. l @ [msg]) s"
  by (simp add: ereport_LOG_def)

lemma LogChildExit_nf:
  "LogChildExit at_LOG procname p exitstatus s =
     server_log_update (\<lambda>l. l @ (if at_LOG then [procname @ '' (PID %d) exited''] else [])) s"
  by (simp add: LogChildExit_def ereport_LOG_def)

lemma set_pmState_nf:
  "set_pmState x s = pmState_log_update (\<lambda>l. l @ [x]) (pmState_update (\<lambda>_. x) s)"
  by (simp add: set_pmState_def)

lemma tick_nf: "tick s = env_calls_update Suc s"
  by (simp add: tick_def)

lemma ExitPostmaster_nf: "ExitPostmaster status s = exited_update (\<lambda>_. Some status) s"
  by (simp add: ExitPostmaster_def)

lemma ConfigurePostmasterWaitSet_nf:
  "ConfigurePostmasterWaitSet acc s = accept_connections_update (\<lambda>_. acc) s"
  by (simp add: ConfigurePostmasterWaitSet_def)

lemma CreateSharedMemoryAndSemaphores_nf:
  "CreateSharedMemoryAndSemaphores e s =
     shmem_creations_update
       (\<lambda>l. l @ [(pmState s, FatalError s, restart_after_crash e, tracked_children s)]) s"
  by (simp add: CreateSharedMemoryAndSemaphores_def)

lemma signal_child_nf: "signal_child e p sig s = kills_update (\<lambda>l. l @ signal_kills e p sig) s"
  by (simp add: signal_child_def kill_def signal_kills_def Let_def)

lemma sigquit_child_nf: "sigquit_child e p s = kills_update (\<lambda>l. l @ quit_kills e p) s"
  by (simp add: sigquit_child_def signal_child_nf quit_kills_def)

lemmas effects_nf = kill_nf ereport_LOG_nf LogChildExit_nf set_pmState_nf tick_nf ExitPostmaster_nf
  ConfigurePostmasterWaitSet_nf CreateSharedMemoryAndSemaphores_nf signal_child_nf sigquit_child_nf

lemma if_then_pmState:
  "(if c then pmState_update f x else y) = pmState_update (\<lambda>v. if c then f v else v) (if c then x else y)"
  by (cases c) simp_all

lemma if_else_pmState:
  "(if c then x else pmState_update g y) = pmState_update (\<lambda>v. if c then v else g v) (if c then x else y)"
  by (cases c) simp_all

lemma if_then_Shutdown:
  "(if c then Shutdown_update f x else y) = Shutdown_update (\<lambda>v. if c then f v else v) (if c then x else y)"
  by (cases c) simp_all

lemma if_else_Shutdown:
  "(if c then x else Shutdown_update g y) = Shutdown_update (\<lambda>v. if c then v else g v) (if c then x else y)"
  by (cases c) simp_all

lemma if_then_FatalError:
  "(if c then FatalError_update f x else y) = FatalError_update (\<lambda>v. if c then f v else v) (if c then x else y)"
  by (cases c) simp_all

lemma if_else_FatalError:
  "(if c then x else FatalError_update g y) = FatalError_update (\<lambda>v. if c then v else g v) (if c then x else y)"
  by (cases c) simp_all

lemma if_then_connsAllowed:
  "(if c then connsAllowed_update f x else y) = connsAllowed_update (\<lambda>v. if c then f v else v) (if c then x else y)"
  by (cases c) simp_all

lemma if_else_connsAllowed:
  "(if c then x else connsAllowed_update g y) = connsAllowed_update (\<lambda>v. if c then v else g v) (if c then x else y)"
  by (cases c) simp_all

lemma if_then_AbortStartTime:
  "(if c then AbortStartTime_update f x else y) = AbortStartTime_update (\<lambda>v. if c then f v else v) (if c then x else y)"
  by (cases c) simp_all

lemma if_else_AbortStartTime:
  "(if c then x else AbortStartTime_update g y) = AbortStartTime_update (\<lambda>v. if c then v else g v) (if c then x else y)"
  by (cases c) simp_all

lemma if_then_StartupStatus:
  "(if c then StartupStatus_update f x else y) = StartupStatus_update (\<lambda>v. if c then f v else v) (if c then x else y)"
  by (cases c) simp_all

lemma if_else_StartupStatus:
  "(if c then x else StartupStatus_update g y) = StartupStatus_update (\<lambda>v. if c then v else g v) (if c then x else y)"
  by (cases c) simp_all

lemma if_then_ReachedNormalRunning:
  "(if c then ReachedNormalRunning_update f x else y) = ReachedNormalRunning_update (\<lambda>v. if c then f v else v) (if c then x else y)"
  by (cases c) simp_all

lemma if_else_ReachedNormalRunning:
  "(if c then x else ReachedNormalRunning_update g y) = ReachedNormalRunning_update (\<lambda>v. if c then v else g v) (if c then x else y)"
  by (cases c) simp_all

lemma if_then_StartupPID:
  "(if c then StartupPID_update f x else y) = StartupPID_update (\<lambda>v. if c then f v else v) (if c then x else y)"
  by (cases c) simp_all

lemma if_else_StartupPID:
  "(if c then x else StartupPID_update g y) = StartupPID_update (\<lambda>v. if c then v else g v) (if c then x else y)"
  by (cases c) simp_all

lemma if_then_BgWriterPID:
  "(if c then BgWriterPID_update f x else y) = BgWriterPID_update (\<lambda>v. if c then f v else v) (if c then x else y)"
  by (cases c) simp_all

lemma if_else_BgWriterPID:
  "(if c then x else BgWriterPID_update g y) = BgWriterPID_update (\<lambda>v. if c then v else g v) (if c then x else y)"
  by (cases c) simp_all

lemma if_then_CheckpointerPID:
  "(if c then CheckpointerPID_update f x else y) = CheckpointerPID_update (\<lambda>v. if c then f v else v) (if c then x else y)"
  by (cases c) simp_all

lemma if_else_CheckpointerPID:
  "(if c then x else CheckpointerPID_update g y) = CheckpointerPID_update (\<lambda>v. if c then v else g v) (if c then x else y)"
  by (cases c) simp_all

lemma if_then_WalWriterPID:
  "(if c then WalWriterPID_update f x else y) = WalWriterPID_update (\<lambda>v. if c then f v else v) (if c then x else y)"
  by (cases c) simp_all

lemma if_else_WalWriterPID:
  "(if c then x else WalWriterPID_update g y) = WalWriterPID_update (\<lambda>v. if c then v else g v) (if c then x else y)"
  by (cases c) simp_all

lemma if_then_WalReceiverPID:
  "(if c then WalReceiverPID_update f x else y) = WalReceiverPID_update (\<lambda>v. if c then f v else v) (if c then x else y)"
  by (cases c) simp_all

lemma if_else_WalReceiverPID:
  "(if c then x else WalReceiverPID_update g y) = WalReceiverPID_update (\<lambda>v. if c then v else g v) (if c then x else y)"
  by (cases c) simp_all

lemma if_then_WalSummarizerPID:
  "(if c then WalSummarizerPID_update f x else y) = WalSummarizerPID_update (\<lambda>v. if c then f v else v) (if c then x else y)"
  by (cases c) simp_all

lemma if_else_WalSummarizerPID:
  "(if c then x else WalSummarizerPID_update g y) = WalSummarizerPID_update (\<lambda>v. if c then v else g v) (if c then x else y)"
  by (cases c) simp_all

lemma if_then_AutoVacPID:
  "(if c then AutoVacPID_update f x else y) = AutoVacPID_update (\<lambda>v. if c then f v else v) (if c then x else y)"
  by (cases c) simp_all

lemma if_else_AutoVacPID:
  "(if c then x else AutoVacPID_update g y) = AutoVacPID_update (\<lambda>v. if c then v else g v) (if c then x else y)"
  by (cases c) simp_all

lemma if_then_PgArchPID:
  "(if c then PgArchPID_update f x else y) = PgArchPID_update (\<lambda>v. if c then f v else v) (if c then x else y)"
  by (cases c) simp_all

lemma if_else_PgArchPID:
  "(if c then x else PgArchPID_update g y) = PgArchPID_update (\<lambda>v. if c then v else g v) (if c then x else y)"
  by (cases c) simp_all

lemma if_then_SysLoggerPID:
  "(if c then SysLoggerPID_update f x else y) = SysLoggerPID_update (\<lambda>v. if c then f v else v) (if c then x else y)"
  by (cases c) simp_all

lemma if_else_SysLoggerPID:
  "(if c then x else SysLoggerPID_update g y) = SysLoggerPID_update (\<lambda>v. if c then v else g v) (if c then x else y)"
  by (cases c) simp_all

lemma if_then_SlotSyncWorkerPID:
  "(if c then SlotSyncWorkerPID_update f x else y) = SlotSyncWorkerPID_update (\<lambda>v. if c then f v else v) (if c then x else y)"
  by (cases c) simp_all

lemma if_else_SlotSyncWorkerPID:
  "(if c then x else SlotSyncWorkerPID_update g y) = SlotSyncWorkerPID_update (\<lambda>v. if c then v else g v) (if c then x else y)"
  by (cases c) simp_all

lemma if_then_BackendList:
  "(if c then BackendList_update f x else y) = BackendList_update (\<lambda>v. if c then f v else v) (if c then x else y)"
  by (cases c) simp_all

lemma if_else_BackendList:
  "(if c then x else BackendList_update g y) = BackendList_update (\<lambda>v. if c then v else g v) (if c then x else y)"
  by (cases c) simp_all

lemma if_then_BackgroundWorkerList:
  "(if c then BackgroundWorkerList_update f x else y) = BackgroundWorkerList_update (\<lambda>v. if c then f v else v) (if c then x else y)"
  by (cases c) simp_all

lemma if_else_BackgroundWorkerList:
  "(if c then x else BackgroundWorkerList_update g y) = BackgroundWorkerList_update (\<lambda>v. if c then v else g v) (if c then x else y)"
  by (cases c) simp_all

lemma if_then_StartWorkerNeeded:
  "(if c then StartWorkerNeeded_update f x else y) = StartWorkerNeeded_update (\<lambda>v. if c then f v else v) (if c then x else y)"
  by (cases c) simp_all

lemma if_else_StartWorkerNeeded:
  "(if c then x else StartWorkerNeeded_update g y) = StartWorkerNeeded_update (\<lambda>v. if c then v else g v) (if c then x else y)"
  by (cases c) simp_all

lemma if_then_HaveCrashedWorker:
  "(if c then HaveCrashedWorker_update f x else y) = HaveCrashedWorker_update (\<lambda>v. if c then f v else v) (if c then x else y)"
  by (cases c) simp_all

lemma if_else_HaveCrashedWorker:
  "(if c then x else HaveCrashedWorker_update g y) = HaveCrashedWorker_update (\<lambda>v. if c then v else g v) (if c then x else y)"
  by (cases c) simp_all

lemma if_then_start_autovac_launcher:
  "(if c then start_autovac_launcher_update f x else y) = start_autovac_launcher_update (\<lambda>v. if c then f v else v) (if c then x else y)"
  by (cases c) simp_all

lemma if_else_start_autovac_launcher:
  "(if c then x else start_autovac_launcher_update g y) = start_autovac_launcher_update (\<lambda>v. if c then v else g v) (if c then x else y)"
  by (cases c) simp_all

lemma if_then_avlauncher_needs_signal:
  "(if c then avlauncher_needs_signal_update f x else y) = avlauncher_needs_signal_update (\<lambda>v. if c then f v else v) (if c then x else y)"
  by (cases c) simp_all

lemma if_else_avlauncher_needs_signal:
  "(if c then x else avlauncher_needs_signal_update g y) = avlauncher_needs_signal_update (\<lambda>v. if c then v else g v) (if c then x else y)"
  by (cases c) simp_all

lemma if_then_WalReceiverRequested:
  "(if c then WalReceiverRequested_update f x else y) = WalReceiverRequested_update (\<lambda>v. if c then f v else v) (if c then x else y)"
  by (cases c) simp_all

lemma if_else_WalReceiverRequested:
  "(if c then x else WalReceiverRequested_update g y) = WalReceiverRequested_update (\<lambda>v. if c then v else g v) (if c then x else y)"
  by (cases c) simp_all

lemma if_then_pending_pm_pmsignal:
  "(if c then pending_pm_pmsignal_update f x else y) = pending_pm_pmsignal_update (\<lambda>v. if c then f v else v) (if c then x else y)"
  by (cases c) simp_all

lemma if_else_pending_pm_pmsignal:
  "(if c then x else pending_pm_pmsignal_update g y) = pending_pm_pmsignal_update (\<lambda>v. if c then v else g v) (if c then x else y)"
  by (cases c) simp_all

lemma if_then_pending_pm_child_exit:
  "(if c then pending_pm_child_exit_update f x else y) = pending_pm_child_exit_update (\<lambda>v. if c then f v else v) (if c then x else y)"
  by (cases c) simp_all

lemma if_else_pending_pm_child_exit:
  "(if c then x else pending_pm_child_exit_update g y) = pending_pm_child_exit_update (\<lambda>v. if c then v else g v) (if c then x else y)"
  by (cases c) simp_all

lemma if_then_pending_pm_reload_request:
  "(if c then pending_pm_reload_request_update f x else y) = pending_pm_reload_request_update (\<lambda>v. if c then f v else v) (if c then x else y)"
  by (cases c) simp_all

lemma if_else_pending_pm_reload_request:
  "(if c then x else pending_pm_reload_request_update g y) = pending_pm_reload_request_update (\<lambda>v. if c then v else g v) (if c then x else y)"
  by (cases c) simp_all

lemma if_then_pending_pm_shutdown_request:
  "(if c then pending_pm_shutdown_request_update f x else y) = pending_pm_shutdown_request_update (\<lambda>v. if c then f v else v) (if c then x else y)"
  by (cases c) simp_all

lemma if_else_pending_pm_shutdown_request:
  "(if c then x else pending_pm_shutdown_request_update g y) = pending_pm_shutdown_request_update (\<lambda>v. if c then v else g v) (if c then x else y)"
  by (cases c) simp_all

lemma if_then_pending_pm_fast_shutdown_request:
  "(if c then pending_pm_fast_shutdown_request_update f x else y) = pending_pm_fast_shutdown_request_update (\<lambda>v. if c then f v else v) (if c then x else y)"
  by (cases c) simp_all

lemma if_else_pending_pm_fast_shutdown_request:
  "(if c then x else pending_pm_fast_shutdown_request_update g y) = pending_pm_fast_shutdown_request_update (\<lambda>v. if c then v else g v) (if c then x else y)"
  by (cases c) simp_all

lemma if_then_pending_pm_immediate_shutdown_request:
  "(if c then pending_pm_immediate_shutdown_request_update f x else y) = pending_pm_immediate_shutdown_request_update (\<lambda>v. if c then f v else v) (if c then x else y)"
  by (cases c) simp_all

lemma if_else_pending_pm_immediate_shutdown_request:
  "(if c then x else pending_pm_immediate_shutdown_request_update g y) = pending_pm_immediate_shutdown_request_update (\<lambda>v. if c then v else g v) (if c then x else y)"
  by (cases c) simp_all

lemma if_then_accept_connections:
  "(if c then accept_connections_update f x else y) = accept_connections_update (\<lambda>v. if c then f v else v) (if c then x else y)"
  by (cases c) simp_all

lemma if_else_accept_connections:
  "(if c then x else accept_connections_update g y) = accept_connections_update (\<lambda>v. if c then v else g v) (if c then x else y)"
  by (cases c) simp_all

lemma if_then_exited:
  "(if c then exited_update f x else y) = exited_update (\<lambda>v. if c then f v else v) (if c then x else y)"
  by (cases c) simp_all

lemma if_else_exited:
  "(if c then x else exited_update g y) = exited_update (\<lambda>v. if c then v else g v) (if c then x else y)"
  by (cases c) simp_all

lemma if_then_env_calls:
  "(if c then env_calls_update f x else y) = env_calls_update (\<lambda>v. if c then f v else v) (if c then x else y)"
  by (cases c) simp_all

lemma if_else_env_calls:
  "(if c then x else env_calls_update g y) = env_calls_update (\<lambda>v. if c then v else g v) (if c then x else y)"
  by (cases c) simp_all

lemma if_then_kills:
  "(if c then kills_update (\<lambda>l. l @ a) x else y) =
   kills_update (\<lambda>l. l @ (if c then a else [])) (if c then x else y)"
  by (cases c) simp_all

lemma if_else_kills:
  "(if c then x else kills_update (\<lambda>l. l @ a) y) =
   kills_update (\<lambda>l. l @ (if c then [] else a)) (if c then x else y)"
  by (cases c) simp_all

lemma if_then_server_log:
  "(if c then server_log_update (\<lambda>l. l @ a) x else y) =
   server_log_update (\<lambda>l. l @ (if c then a else [])) (if c then x else y)"
  by (cases c) simp_all

lemma if_else_server_log:
  "(if c then x else server_log_update (\<lambda>l. l @ a) y) =
   server_log_update (\<lambda>l. l @ (if c then [] else a)) (if c then x else y)"
  by (cases c) simp_all

lemma if_then_shmem_creations:
  "(if c then shmem_creations_update (\<lambda>l. l @ a) x else y) =
   shmem_creations_update (\<lambda>l. l @ (if c then a else [])) (if c then x else y)"
  by (cases c) simp_all

lemma if_else_shmem_creations:
  "(if c then x else shmem_creations_update (\<lambda>l. l @ a) y) =
   shmem_creations_update (\<lambda>l. l @ (if c then [] else a)) (if c then x else y)"
  by (cases c) simp_all

lemma if_then_pmState_log:
  "(if c then pmState_log_update (\<lambda>l. l @ a) x else y) =
   pmState_log_update (\<lambda>l. l @ (if c then a else [])) (if c then x else y)"
  by (cases c) simp_all

lemma if_else_pmState_log:
  "(if c then x else pmState_log_update (\<lambda>l. l @ a) y) =
   pmState_log_update (\<lambda>l. l @ (if c then [] else a)) (if c then x else y)"
  by (cases c) simp_all

lemmas if_into_record =
  if_then_pmState
  if_else_pmState
  if_then_Shutdown
  if_else_Shutdown
  if_then_FatalError
  if_else_FatalError
  if_then_connsAllowed
  if_else_connsAllowed
  if_then_AbortStartTime
  if_else_AbortStartTime
  if_then_StartupStatus
  if_else_StartupStatus
  if_then_ReachedNormalRunning
  if_else_ReachedNormalRunning
  if_then_StartupPID
  if_else_StartupPID
  if_then_BgWriterPID
  if_else_BgWriterPID
  if_then_CheckpointerPID
  if_else_CheckpointerPID
  if_then_WalWriterPID
  if_else_WalWriterPID
  if_then_WalReceiverPID
  if_else_WalReceiverPID
  if_then_WalSummarizerPID
  if_else_WalSummarizerPID
  if_then_AutoVacPID
  if_else_AutoVacPID
  if_then_PgArchPID
  if_else_PgArchPID
  if_then_SysLoggerPID
  if_else_SysLoggerPID
  if_then_SlotSyncWorkerPID
  if_else_SlotSyncWorkerPID
  if_then_BackendList
  if_else_BackendList
  if_then_BackgroundWorkerList
  if_else_BackgroundWorkerList
  if_then_StartWorkerNeeded
  if_else_StartWorkerNeeded
  if_then_HaveCrashedWorker
  if_else_HaveCrashedWorker
  if_then_start_autovac_launcher
  if_else_start_autovac_launcher
  if_then_avlauncher_needs_signal
  if_else_avlauncher_needs_signal
  if_then_WalReceiverRequested
  if_else_WalReceiverRequested
  if_then_pending_pm_pmsignal
  if_else_pending_pm_pmsignal
  if_then_pending_pm_child_exit
  if_else_pending_pm_child_exit
  if_then_pending_pm_reload_request
  if_else_pending_pm_reload_request
  if_then_pending_pm_shutdown_request
  if_else_pending_pm_shutdown_request
  if_then_pending_pm_fast_shutdown_request
  if_else_pending_pm_fast_shutdown_request
  if_then_pending_pm_immediate_shutdown_request
  if_else_pending_pm_immediate_shutdown_request
  if_then_accept_connections
  if_else_accept_connections
  if_then_exited
  if_else_exited
  if_then_env_calls
  if_else_env_calls
  if_then_kills
  if_else_kills
  if_then_server_log
  if_else_server_log
  if_then_shmem_creations
  if_else_shmem_creations
  if_then_pmState_log
  if_else_pmState_log

section \<open>Admission of connections\<close>

lemma CountChildren_loop_ALL:
  "CountChildren_loop e BACKEND_TYPE_ALL bl = (bl, int (length (filter (\<lambda>bp. \<not> dead_end bp) bl)))"
  by (induction bl) (auto simp: Let_def)

lemma CountChildren_ALL:
  "fst (CountChildren e BACKEND_TYPE_ALL s) = int (length (filter (\<lambda>bp. \<not> dead_end bp) (BackendList s)))"
  by (simp add: CountChildren_def CountChildren_loop_ALL)

text \<open>
  C3. \<open>canAcceptConnections\<close> decides, in this order: outside Run and HotStandby a
  request that is not a background worker's is rejected with the reason of the state
  (shutdown when a shutdown is pending, startup in Startup without FatalError,
  not-consistent in Recovery without FatalError, recovery otherwise); a normal
  session while connections are disallowed is rejected as shutdown; when the children
  that are not dead-end number at least
  \<open>2 * (MaxConnections + autovacuum_max_workers + max_wal_senders + max_worker_processes + 1)\<close>
  the answer is too-many; in every other case it is OK.
\<close>

theorem canAcceptConnections_admission:
  "canAcceptConnections e backend_type s =
     (if pmState s \<noteq> PM_RUN \<and> pmState s \<noteq> PM_HOT_STANDBY \<and> backend_type \<noteq> BACKEND_TYPE_BGWORKER then
        (if Shutdown s > NoShutdown then CAC_SHUTDOWN
         else if pmState s = PM_STARTUP \<and> \<not> FatalError s then CAC_STARTUP
         else if pmState s = PM_RECOVERY \<and> \<not> FatalError s then CAC_NOTCONSISTENT
         else CAC_RECOVERY)
      else if backend_type = BACKEND_TYPE_NORMAL \<and> \<not> connsAllowed s then CAC_SHUTDOWN
      else if int (length (filter (\<lambda>bp. \<not> dead_end bp) (BackendList s)))
                \<ge> 2 * (MaxConnections e + autovacuum_max_workers e + max_wal_senders e +
                        max_worker_processes e + 1)
      then CAC_TOOMANY
      else CAC_OK)"
  by (simp add: canAcceptConnections_def CountChildren_ALL MaxLivePostmasterChildren_def)

theorem canAcceptConnections_admission_witness:
  "canAcceptConnections env0 BACKEND_TYPE_NORMAL pm_running = CAC_OK \<and>
   canAcceptConnections env0 BACKEND_TYPE_NORMAL (pm_running\<lparr>connsAllowed := False\<rparr>) = CAC_SHUTDOWN \<and>
   canAcceptConnections (env0\<lparr>MaxConnections := - 21\<rparr>) BACKEND_TYPE_NORMAL pm_running = CAC_TOOMANY \<and>
   canAcceptConnections env0 BACKEND_TYPE_AUTOVAC (pm_running\<lparr>pmState := PM_RECOVERY\<rparr>) = CAC_NOTCONSISTENT"
  using canAcceptConnections_admission [of env0 BACKEND_TYPE_NORMAL pm_running]
    canAcceptConnections_admission [of env0 BACKEND_TYPE_NORMAL "pm_running\<lparr>connsAllowed := False\<rparr>"]
    canAcceptConnections_admission [of "env0\<lparr>MaxConnections := - 21\<rparr>" BACKEND_TYPE_NORMAL pm_running]
    canAcceptConnections_admission [of env0 BACKEND_TYPE_AUTOVAC "pm_running\<lparr>pmState := PM_RECOVERY\<rparr>"]
  by (simp add: env0_def pm_running_def postmaster_initial_def backend_101_def backend_102_def
      backend_103_def)

section \<open>Cancel requests reach the right backend\<close>

lemma kills_signal_child:
  "kills (signal_child e p sig s) =
     kills s @ (p, sig) #
       (if HAVE_SETSID e \<and> (sig = SIGINT \<or> sig = SIGTERM \<or> sig = SIGQUIT \<or> sig = SIGKILL \<or> sig = SIGABRT)
        then [(- p, sig)] else [])"
  by (simp add: signal_child_def kill_def Let_def)

lemma server_log_signal_child: "server_log (signal_child e p sig s) = server_log s"
  by (simp add: signal_child_def kill_def Let_def)

lemma processCancelRequest_loop_found:
  "bp \<in> set bl \<Longrightarrow> distinct (map pid bl) \<Longrightarrow> pid bp = P \<Longrightarrow>
   processCancelRequest_loop e P K bl s =
     (if cancel_key bp = K then signal_child e P SIGINT s
      else ereport_LOG ''wrong key in cancel request for process %d'' s)"
proof (induction bl)
  case Nil
  then show ?case by simp
next
  case (Cons a bl)
  show ?case
  proof (cases "pid a = P")
    case True
    with Cons.prems have "a = bp" by (auto simp: image_iff)
    with True show ?thesis by simp
  next
    case False
    with Cons show ?thesis by auto
  qed
qed

lemma processCancelRequest_loop_absent:
  "\<forall>bp \<in> set bl. pid bp \<noteq> P \<Longrightarrow>
   processCancelRequest_loop e P K bl s =
     ereport_LOG ''PID %d in cancel request did not match any process'' s"
  by (induction bl) auto

text \<open>
  With \<open>setsid\<close> a cancel request that matches makes two calls of \<open>kill\<close>: the
  interrupt goes to the backend and once more to its process group, of which the
  backend is the leader.
\<close>

theorem processCancelRequest_signals_group_too:
  "HAVE_SETSID env0 \<and> backend_101 \<in> set (BackendList pm_running) \<and> pid backend_101 = 101 \<and>
   cancel_key backend_101 = 7 \<and> kills pm_running = [] \<and>
   kills (processCancelRequest env0 101 7 pm_running) = [(101, SIGINT), (- 101, SIGINT)] \<and>
   length (kills (processCancelRequest env0 101 7 pm_running)) = 2"
  by code_simp

text \<open>
  C5. The scan of \<open>BackendList\<close> (the build without \<open>EXEC_BACKEND\<close>), in a registry
  whose process ids are distinct, for every cancel request, whatever process id \<open>P\<close>
  and token \<open>K\<close> the client sent: when a backend has that pid and that key, the calls
  made are \<open>kill(P, SIGINT)\<close>, once, followed where the build has \<open>setsid\<close> by
  \<open>kill(-P, SIGINT)\<close>, once, for the process group, no other signal is sent and
  nothing is logged; when the pid matches and the key differs, no signal is sent and
  the wrong key is logged; when no backend has that pid, no signal is sent and the
  unmatched request is logged.
\<close>

theorem processCancelRequest_delivers:
  assumes "distinct (map pid (BackendList s))"
  shows "((\<exists>bp \<in> set (BackendList s). pid bp = P \<and> cancel_key bp = K) \<longrightarrow>
            kills (processCancelRequest e P K s) =
              kills s @ (P, SIGINT) # (if HAVE_SETSID e then [(- P, SIGINT)] else []) \<and>
            server_log (processCancelRequest e P K s) = server_log s) \<and>
         ((\<exists>bp \<in> set (BackendList s). pid bp = P \<and> cancel_key bp \<noteq> K) \<longrightarrow>
            kills (processCancelRequest e P K s) = kills s \<and>
            server_log (processCancelRequest e P K s) =
              server_log s @ [''wrong key in cancel request for process %d'']) \<and>
         ((\<forall>bp \<in> set (BackendList s). pid bp \<noteq> P) \<longrightarrow>
            kills (processCancelRequest e P K s) = kills s \<and>
            server_log (processCancelRequest e P K s) =
              server_log s @ [''PID %d in cancel request did not match any process''])"
proof (intro conjI impI)
  assume "\<exists>bp \<in> set (BackendList s). pid bp = P \<and> cancel_key bp = K"
  then obtain bp where bp: "bp \<in> set (BackendList s)" "pid bp = P" "cancel_key bp = K" by blast
  have eq: "processCancelRequest e P K s = signal_child e P SIGINT s"
    using processCancelRequest_loop_found [OF bp(1) assms(1) bp(2)] bp(3)
    by (simp add: processCancelRequest_def)
  show "kills (processCancelRequest e P K s) =
          kills s @ (P, SIGINT) # (if HAVE_SETSID e then [(- P, SIGINT)] else [])"
    by (simp add: eq kills_signal_child)
  show "server_log (processCancelRequest e P K s) = server_log s"
    by (simp add: eq server_log_signal_child)
next
  assume "\<exists>bp \<in> set (BackendList s). pid bp = P \<and> cancel_key bp \<noteq> K"
  then obtain bp where bp: "bp \<in> set (BackendList s)" "pid bp = P" "cancel_key bp \<noteq> K" by blast
  have eq: "processCancelRequest e P K s =
              ereport_LOG ''wrong key in cancel request for process %d'' s"
    using processCancelRequest_loop_found [OF bp(1) assms(1) bp(2)] bp(3)
    by (simp add: processCancelRequest_def)
  show "kills (processCancelRequest e P K s) = kills s"
    by (simp add: eq ereport_LOG_def)
  show "server_log (processCancelRequest e P K s) =
          server_log s @ [''wrong key in cancel request for process %d'']"
    by (simp add: eq ereport_LOG_def)
next
  assume a: "\<forall>bp \<in> set (BackendList s). pid bp \<noteq> P"
  have eq: "processCancelRequest e P K s =
              ereport_LOG ''PID %d in cancel request did not match any process'' s"
    using processCancelRequest_loop_absent [OF a] by (simp add: processCancelRequest_def)
  show "kills (processCancelRequest e P K s) = kills s"
    by (simp add: eq ereport_LOG_def)
  show "server_log (processCancelRequest e P K s) =
          server_log s @ [''PID %d in cancel request did not match any process'']"
    by (simp add: eq ereport_LOG_def)
qed

theorem processCancelRequest_delivers_witness:
  "distinct (map pid (BackendList pm_running)) \<and>
   kills (processCancelRequest env0 101 7 pm_running) = [(101, SIGINT), (- 101, SIGINT)] \<and>
   kills (processCancelRequest (env0\<lparr>HAVE_SETSID := False\<rparr>) 101 7 pm_running) = [(101, SIGINT)] \<and>
   server_log (processCancelRequest env0 101 7 pm_running) = [] \<and>
   kills (processCancelRequest env0 102 7 pm_running) = [] \<and>
   server_log (processCancelRequest env0 102 7 pm_running) =
     [''wrong key in cancel request for process %d''] \<and>
   kills (processCancelRequest env0 555 7 pm_running) = [] \<and>
   server_log (processCancelRequest env0 555 7 pm_running) =
     [''PID %d in cancel request did not match any process''] \<and>
   kills (processCancelRequest env0 0 0 pm_running) = [] \<and>
   server_log (processCancelRequest env0 0 0 pm_running) =
     [''PID %d in cancel request did not match any process''] \<and>
   kills (processCancelRequest env0 (- 101) 7 pm_running) = [] \<and>
   server_log (processCancelRequest env0 (- 101) 7 pm_running) =
     [''PID %d in cancel request did not match any process'']"
proof -
  have d: "distinct (map pid (BackendList pm_running))"
    by (simp add: pm_running_def postmaster_initial_def backend_101_def backend_102_def
        backend_103_def)
  have k: "kills pm_running = []" "server_log pm_running = []" "HAVE_SETSID env0"
    by (simp_all add: pm_running_def postmaster_initial_def env0_def)
  have m1: "\<exists>bp \<in> set (BackendList pm_running). pid bp = 101 \<and> cancel_key bp = 7"
    by (simp add: pm_running_def postmaster_initial_def backend_101_def backend_102_def
        backend_103_def)
  have m2: "\<exists>bp \<in> set (BackendList pm_running). pid bp = 102 \<and> cancel_key bp \<noteq> 7"
    by (simp add: pm_running_def postmaster_initial_def backend_101_def backend_102_def
        backend_103_def)
  have m3: "\<forall>bp \<in> set (BackendList pm_running). pid bp \<noteq> 555"
           "\<forall>bp \<in> set (BackendList pm_running). pid bp \<noteq> 0"
           "\<forall>bp \<in> set (BackendList pm_running). pid bp \<noteq> - 101"
    by (simp_all add: pm_running_def postmaster_initial_def backend_101_def backend_102_def
        backend_103_def)
  show ?thesis
    using processCancelRequest_delivers [OF d, of 101 7 env0]
      processCancelRequest_delivers [OF d, of 101 7 "env0\<lparr>HAVE_SETSID := False\<rparr>"]
      processCancelRequest_delivers [OF d, of 102 7 env0]
      processCancelRequest_delivers [OF d, of 555 7 env0]
      processCancelRequest_delivers [OF d, of 0 0 env0]
      processCancelRequest_delivers [OF d, of "- 101" 7 env0] d m1 m2 m3 k
    by simp
qed

section \<open>Signalling and counting, computed\<close>

lemma pid_relabel_walsender [simp]: "pid (relabel_walsender e bp) = pid bp"
  by (simp add: relabel_walsender_def)

lemma dead_end_relabel_walsender [simp]: "dead_end (relabel_walsender e bp) = dead_end bp"
  by (simp add: relabel_walsender_def)

lemma SignalSomeChildren_loop_nf:
  "SignalSomeChildren_loop e sig target bl s =
     (map (relabelled e target) bl,
      kills_update (\<lambda>l. l @ concat (map (\<lambda>bp. signal_kills e (pid bp) sig) (filter (targeted e target) bl))) s)"
proof (induction bl arbitrary: s)
  case Nil
  show ?case by simp
next
  case (Cons bp bl)
  show ?case
    using Cons.IH
    by (cases "target = BACKEND_TYPE_ALL")
      (simp_all add: Let_def signal_child_nf targeted_def relabelled_def)
qed

lemma SignalSomeChildren_nf:
  "SignalSomeChildren e sig target s =
     BackendList_update (map (relabelled e target))
       (kills_update (\<lambda>l. l @ concat (map (\<lambda>bp. signal_kills e (pid bp) sig)
                                    (filter (targeted e target) (BackendList s)))) s)"
  by (simp add: SignalSomeChildren_def SignalSomeChildren_loop_nf)

lemma relabelled_ALL [simp]: "relabelled e BACKEND_TYPE_ALL = (\<lambda>bp. bp)"
  by (rule ext) (simp add: relabelled_def)


lemma CountChildren_loop_nf:
  "CountChildren_loop e target bl =
     (map (relabelled e target) bl, int (length (filter (targeted e target) bl)))"
  by (induction bl) (simp_all add: Let_def targeted_def relabelled_def)

lemma CountChildren_nf:
  "CountChildren e target s =
     (int (length (filter (targeted e target) (BackendList s))),
      BackendList_update (map (relabelled e target)) s)"
  by (simp add: CountChildren_def CountChildren_loop_nf)


section \<open>The blocks of the state machine\<close>

lemma PostmasterStateMachine_smart_other:
  "pmState s \<noteq> PM_RUN \<Longrightarrow> pmState s \<noteq> PM_HOT_STANDBY \<Longrightarrow> PostmasterStateMachine_smart e s = s"
  by (simp add: PostmasterStateMachine_smart_def)

lemma PostmasterStateMachine_stop_backends_other:
  "pmState s \<noteq> PM_STOP_BACKENDS \<Longrightarrow> PostmasterStateMachine_stop_backends e s = s"
  by (simp add: PostmasterStateMachine_stop_backends_def)

lemma PostmasterStateMachine_wait_backends_other:
  "pmState s \<noteq> PM_WAIT_BACKENDS \<Longrightarrow> PostmasterStateMachine_wait_backends e s = s"
  by (simp add: PostmasterStateMachine_wait_backends_def)

lemma PostmasterStateMachine_shutdown_2_other:
  "pmState s \<noteq> PM_SHUTDOWN_2 \<Longrightarrow> PostmasterStateMachine_shutdown_2 e s = s"
  by (simp add: PostmasterStateMachine_shutdown_2_def)

lemma PostmasterStateMachine_wait_dead_end_other:
  "pmState s \<noteq> PM_WAIT_DEAD_END \<Longrightarrow> PostmasterStateMachine_wait_dead_end e s = s"
  by (simp add: PostmasterStateMachine_wait_dead_end_def)

lemma PostmasterStateMachine_wait_dead_end_done:
  "pmState s = PM_WAIT_DEAD_END \<Longrightarrow> BackendList s = [] \<Longrightarrow> PgArchPID s = 0 \<Longrightarrow>
   PostmasterStateMachine_wait_dead_end e s =
     set_pmState PM_NO_CHILDREN (ConfigurePostmasterWaitSet False s)"
  by (simp add: PostmasterStateMachine_wait_dead_end_def Let_def ConfigurePostmasterWaitSet_def)

lemma PostmasterStateMachine_at_no_children:
  "pmState s = PM_NO_CHILDREN \<Longrightarrow>
   PostmasterStateMachine e s = PostmasterStateMachine_no_children e s"
  by (simp add: PostmasterStateMachine_def PostmasterStateMachine_no_children_def Let_def
        PostmasterStateMachine_smart_other PostmasterStateMachine_stop_backends_other
        PostmasterStateMachine_wait_backends_other PostmasterStateMachine_shutdown_2_other
        PostmasterStateMachine_wait_dead_end_other)

lemma PostmasterStateMachine_reaching_no_children:
  "pmState s = PM_WAIT_DEAD_END \<Longrightarrow> BackendList s = [] \<Longrightarrow> PgArchPID s = 0 \<Longrightarrow>
   PostmasterStateMachine e s =
     PostmasterStateMachine_no_children e (set_pmState PM_NO_CHILDREN (ConfigurePostmasterWaitSet False s))"
  by (simp add: PostmasterStateMachine_def PostmasterStateMachine_no_children_def Let_def
        PostmasterStateMachine_smart_other PostmasterStateMachine_stop_backends_other
        PostmasterStateMachine_wait_backends_other PostmasterStateMachine_shutdown_2_other
        PostmasterStateMachine_wait_dead_end_done)

lemma no_children_outcome:
  assumes "pmState s = PM_NO_CHILDREN" and "exited s = None"
  shows "(exited (PostmasterStateMachine_no_children e s), pmState (PostmasterStateMachine_no_children e s),
          StartupPID (PostmasterStateMachine_no_children e s),
          shmem_creations (PostmasterStateMachine_no_children e s),
          env_calls (PostmasterStateMachine_no_children e s)) =
         (if Shutdown s > NoShutdown then
            (Some (if FatalError s then 1 else 0), PM_NO_CHILDREN, StartupPID s, shmem_creations s,
             env_calls s)
          else if StartupStatus s = STARTUP_CRASHED \<or> \<not> restart_after_crash e then
            (Some 1, PM_NO_CHILDREN, StartupPID s, shmem_creations s, env_calls s)
          else if FatalError s then
            (if postmaster_child_launch e (env_calls s) < 0 then
               (Some 1, PM_NO_CHILDREN, StartupPID s,
                shmem_creations s @ [(PM_NO_CHILDREN, True, True, tracked_children s)],
                Suc (env_calls s))
             else
               (None, PM_STARTUP, postmaster_child_launch e (env_calls s),
                shmem_creations s @ [(PM_NO_CHILDREN, True, True, tracked_children s)],
                Suc (env_calls s)))
          else (None, PM_NO_CHILDREN, StartupPID s, shmem_creations s, env_calls s))"
  using assms
  by (simp add: PostmasterStateMachine_no_children_def PostmasterStateMachine_exit_on_shutdown_def
        PostmasterStateMachine_exit_no_restart_def PostmasterStateMachine_reinit_def
        StartChildProcess_def CreateSharedMemoryAndSemaphores_def tick_def set_pmState_def
        ConfigurePostmasterWaitSet_def tracked_children_def
        unless_exited_def ExitPostmaster_def ereport_LOG_def Let_def)

section \<open>What leaves the lifecycle alone\<close>

lemma core_eq_refl [simp]: "core_eq s s" by (simp add: core_eq_def)

lemma core_eq_trans: "core_eq s x \<Longrightarrow> core_eq x y \<Longrightarrow> core_eq s y" by (simp add: core_eq_def)

lemma core_eq_Let: "core_eq s a \<Longrightarrow> (\<And>x. core_eq s x \<Longrightarrow> core_eq s (b x)) \<Longrightarrow> core_eq s (Let a b)"
  by simp

lemma core_eq_Let_val: "core_eq s (b a) \<Longrightarrow> core_eq s (Let a b)"
  by simp

lemma core_eq_if: "(c \<Longrightarrow> core_eq s a) \<Longrightarrow> (\<not> c \<Longrightarrow> core_eq s b) \<Longrightarrow> core_eq s (if c then a else b)"
  by simp

lemma core_eq_case_prod:
  "core_eq s (snd p) \<Longrightarrow> (\<And>q x. core_eq s x \<Longrightarrow> core_eq s (b q x)) \<Longrightarrow>
   core_eq s (case p of (q, x) \<Rightarrow> b q x)"
  by (cases p) simp

lemma core_eq_case_option:
  "(v = None \<Longrightarrow> core_eq s a) \<Longrightarrow> (\<And>y. v = Some y \<Longrightarrow> core_eq s (b y)) \<Longrightarrow>
   core_eq s (case v of None \<Rightarrow> a | Some y \<Rightarrow> b y)"
  by (cases v) simp_all

lemma core_eq_kill: "core_eq s x \<Longrightarrow> core_eq s (kill p sig x)"
  by (simp add: core_eq_def kill_def)

lemma core_eq_ereport_LOG: "core_eq s x \<Longrightarrow> core_eq s (ereport_LOG m x)"
  by (simp add: core_eq_def ereport_LOG_def)

lemma core_eq_LogChildExit: "core_eq s x \<Longrightarrow> core_eq s (LogChildExit b n p st x)"
  by (simp add: LogChildExit_def core_eq_ereport_LOG)

lemma core_eq_tick: "core_eq s x \<Longrightarrow> core_eq s (tick x)"
  by (simp add: core_eq_def tick_def)

lemma core_eq_ConfigurePostmasterWaitSet: "core_eq s x \<Longrightarrow> core_eq s (ConfigurePostmasterWaitSet b x)"
  by (simp add: core_eq_def ConfigurePostmasterWaitSet_def)

lemma core_eq_signal_child: "core_eq s x \<Longrightarrow> core_eq s (signal_child e p sig x)"
  by (simp add: core_eq_def signal_child_nf)

lemma core_eq_sigquit_child: "core_eq s x \<Longrightarrow> core_eq s (sigquit_child e p x)"
  by (simp add: sigquit_child_def core_eq_signal_child)

lemma core_eq_SignalSomeChildren: "core_eq s x \<Longrightarrow> core_eq s (SignalSomeChildren e sig target x)"
  by (simp add: core_eq_def SignalSomeChildren_nf)

lemma core_eq_SignalChildren: "core_eq s x \<Longrightarrow> core_eq s (SignalChildren e sig x)"
  by (simp add: SignalChildren_def core_eq_SignalSomeChildren)

lemma core_eq_CountChildren: "core_eq s x \<Longrightarrow> core_eq s (snd (CountChildren e target x))"
  by (simp add: core_eq_def CountChildren_nf)

lemmas core_eq_updates =
  core_eq_kill core_eq_ereport_LOG core_eq_LogChildExit core_eq_tick
  core_eq_ConfigurePostmasterWaitSet core_eq_signal_child core_eq_sigquit_child
  core_eq_SignalSomeChildren core_eq_SignalChildren core_eq_CountChildren

lemmas core_eq_struct = core_eq_Let core_eq_Let_val core_eq_if core_eq_case_prod core_eq_case_option

lemma core_eq_other_update:
  "core_eq s x \<Longrightarrow> core_eq s (x\<lparr>StartupStatus := v1\<rparr>)"
  "core_eq s x \<Longrightarrow> core_eq s (x\<lparr>AbortStartTime := v2\<rparr>)"
  "core_eq s x \<Longrightarrow> core_eq s (x\<lparr>ReachedNormalRunning := v3\<rparr>)"
  "core_eq s x \<Longrightarrow> core_eq s (x\<lparr>SysLoggerPID := v4\<rparr>)"
  "core_eq s x \<Longrightarrow> core_eq s (x\<lparr>BackendList := v5\<rparr>)"
  "core_eq s x \<Longrightarrow> core_eq s (x\<lparr>BackgroundWorkerList := v6\<rparr>)"
  "core_eq s x \<Longrightarrow> core_eq s (x\<lparr>StartWorkerNeeded := v7\<rparr>)"
  "core_eq s x \<Longrightarrow> core_eq s (x\<lparr>HaveCrashedWorker := v8\<rparr>)"
  "core_eq s x \<Longrightarrow> core_eq s (x\<lparr>start_autovac_launcher := v9\<rparr>)"
  "core_eq s x \<Longrightarrow> core_eq s (x\<lparr>avlauncher_needs_signal := v10\<rparr>)"
  "core_eq s x \<Longrightarrow> core_eq s (x\<lparr>WalReceiverRequested := v11\<rparr>)"
  "core_eq s x \<Longrightarrow> core_eq s (x\<lparr>pending_pm_pmsignal := v12\<rparr>)"
  "core_eq s x \<Longrightarrow> core_eq s (x\<lparr>pending_pm_child_exit := v13\<rparr>)"
  "core_eq s x \<Longrightarrow> core_eq s (x\<lparr>pending_pm_reload_request := v14\<rparr>)"
  "core_eq s x \<Longrightarrow> core_eq s (x\<lparr>pending_pm_shutdown_request := v15\<rparr>)"
  "core_eq s x \<Longrightarrow> core_eq s (x\<lparr>pending_pm_fast_shutdown_request := v16\<rparr>)"
  "core_eq s x \<Longrightarrow> core_eq s (x\<lparr>pending_pm_immediate_shutdown_request := v17\<rparr>)"
  "core_eq s x \<Longrightarrow> core_eq s (x\<lparr>kills := v18\<rparr>)"
  "core_eq s x \<Longrightarrow> core_eq s (x\<lparr>server_log := v19\<rparr>)"
  "core_eq s x \<Longrightarrow> core_eq s (x\<lparr>accept_connections := v20\<rparr>)"
  "core_eq s x \<Longrightarrow> core_eq s (x\<lparr>env_calls := v21\<rparr>)"
  by (simp_all add: core_eq_def)

lemma core_eq_TerminateChildren: "core_eq s x \<Longrightarrow> core_eq s (TerminateChildren e sig x)"
  unfolding TerminateChildren_def
  by (intro core_eq_struct core_eq_updates core_eq_other_update)

lemma core_eq_processCancelRequest_loop:
  "core_eq s x \<Longrightarrow> core_eq s (processCancelRequest_loop e p k bl x)"
  by (induction bl) (simp_all add: core_eq_updates)

lemma core_eq_processCancelRequest: "core_eq s x \<Longrightarrow> core_eq s (processCancelRequest e p k x)"
  by (simp add: processCancelRequest_def core_eq_processCancelRequest_loop)

lemma core_eq_StartChildProcess:
  "ty \<noteq> B_STARTUP \<Longrightarrow> core_eq s x \<Longrightarrow> core_eq s (snd (StartChildProcess e ty x))"
  by (simp add: StartChildProcess_def Let_def core_eq_updates)

lemma core_eq_BackendStartup: "core_eq s x \<Longrightarrow> core_eq s (BackendStartup e x)"
  unfolding BackendStartup_def
  by (intro core_eq_struct core_eq_updates core_eq_other_update)

lemma core_eq_StartAutovacuumWorker: "core_eq s x \<Longrightarrow> core_eq s (StartAutovacuumWorker e x)"
  unfolding StartAutovacuumWorker_def
  by (intro core_eq_struct core_eq_updates core_eq_other_update core_eq_StartChildProcess) simp_all


lemma core_eq_assign_backendlist_entry:
  "core_eq s x \<Longrightarrow> core_eq s (snd (assign_backendlist_entry e rw x))"
  by (simp add: assign_backendlist_entry_def Let_def core_eq_def ereport_LOG_def tick_def
        split: option.split)

lemma core_eq_do_start_bgworker:
  "core_eq s x \<Longrightarrow> core_eq s (snd (snd (do_start_bgworker e rw x)))"
  using core_eq_assign_backendlist_entry [of s x e rw]
  by (cases "assign_backendlist_entry e rw x")
     (auto simp add: do_start_bgworker_def Let_def core_eq_def ereport_LOG_def tick_def
        split: option.split)

lemma core_eq_maybe_start_bgworkers_loop:
  "core_eq s x \<Longrightarrow> core_eq s (maybe_start_bgworkers_loop e n now done bgws x)"
proof (induction bgws arbitrary: n now "done" x)
  case Nil
  then show ?case by (simp add: core_eq_def)
next
  case (Cons rw rest)
  have k: "core_eq s (kill p sig x)" for p sig using Cons.prems by (rule core_eq_kill)
  have h: "core_eq s (x\<lparr>HaveCrashedWorker := True\<rparr>)" using Cons.prems by (simp add: core_eq_def)
  obtain started rw' x' where r: "do_start_bgworker e (rw\<lparr>rw_crashed_at := 0\<rparr>) x = (started, rw', x')"
    by (cases "do_start_bgworker e (rw\<lparr>rw_crashed_at := 0\<rparr>) x") auto
  have d: "core_eq s x'"
    using core_eq_do_start_bgworker [OF Cons.prems, of e "rw\<lparr>rw_crashed_at := 0\<rparr>"] r by simp
  have u: "core_eq s (x'\<lparr>StartWorkerNeeded := True, BackgroundWorkerList := l\<rparr>)" for l
    using d by (simp add: core_eq_def)
  show ?case
    using Cons.IH [OF Cons.prems] Cons.IH [OF k] Cons.IH [OF h] Cons.IH [OF d] u
    by (simp add: Let_def r)
qed

lemma core_eq_maybe_start_bgworkers: "core_eq s x \<Longrightarrow> core_eq s (maybe_start_bgworkers e x)"
  by (simp add: maybe_start_bgworkers_def core_eq_maybe_start_bgworkers_loop core_eq_other_update)

lemma core_eq_DetermineSleepTime: "core_eq s x \<Longrightarrow> core_eq s (snd (DetermineSleepTime e x))"
  by (simp add: DetermineSleepTime_def Let_def split_beta core_eq_other_update)

lemma core_eq_process_pm_reload_request: "core_eq s x \<Longrightarrow> core_eq s (process_pm_reload_request e x)"
  unfolding process_pm_reload_request_def
  by (intro core_eq_struct core_eq_updates core_eq_other_update)

lemma core_eq_handle_pm_shutdown_request_signal:
  "core_eq s x \<Longrightarrow> core_eq s (handle_pm_shutdown_request_signal sig x)"
  by (simp add: handle_pm_shutdown_request_signal_def core_eq_def)

lemma core_eq_shutdown_request_mode: "core_eq s x \<Longrightarrow> core_eq s (snd (shutdown_request_mode x))"
  by (simp add: shutdown_request_mode_def core_eq_def Let_def)

lemma core_eq_HandleChildCrash_bgworkers:
  "core_eq s x \<Longrightarrow> core_eq s (snd (HandleChildCrash_bgworkers e p ta bgws x))"
proof (induction bgws arbitrary: x)
  case Nil
  then show ?case by simp
next
  case (Cons rw rest)
  have a: "core_eq s (x\<lparr>BackendList := l\<rparr>)" for l using Cons.prems by (simp add: core_eq_def)
  have b: "core_eq s (sigquit_child e q x)" for q using Cons.prems by (rule core_eq_sigquit_child)
  show ?case
    using Cons.IH [OF Cons.prems] Cons.IH [OF a] Cons.IH [OF b]
    by (cases ta) (simp_all add: split_beta)
qed

lemma core_eq_HandleChildCrash_backends:
  "core_eq s x \<Longrightarrow> core_eq s (snd (HandleChildCrash_backends e p ta bl x))"
proof (induction bl arbitrary: x)
  case Nil
  then show ?case by simp
next
  case (Cons bp rest)
  have b: "core_eq s (sigquit_child e q x)" for q using Cons.prems by (rule core_eq_sigquit_child)
  show ?case
    using Cons.IH [OF Cons.prems] Cons.IH [OF b]
    by (cases ta) (simp_all add: split_beta)
qed


lemmas inv_defs = log_ok_def pids_ok_def conns_ok_def why_ok_def shmem_ok_def nc_ok_def

lemma binv_core_eq: "core_eq x y \<Longrightarrow> binv c w S x \<Longrightarrow> binv c w S y"
  by (simp add: binv_def core_eq_def inv_defs)

lemma binv_minv: "binv c True loop_states s \<Longrightarrow> minv c s"
  by (auto simp add: binv_def minv_def nc_ok_def loop_states_def)

lemma binv_run_ok: "binv c True loop_states s \<Longrightarrow> run_ok c s"
  by (simp add: run_ok_def binv_minv) (simp add: binv_def)

lemma run_ok_binv: "run_ok c s \<Longrightarrow> exited s = None \<Longrightarrow> binv c True loop_states s"
  by (simp add: run_ok_def binv_def minv_def)

lemma binv_subset: "binv c w S s \<Longrightarrow> S \<subseteq> T \<Longrightarrow> binv c w T s"
  by (auto simp add: binv_def)

lemma binv_Let: "binv c w S a \<Longrightarrow> (\<And>x. binv c w S x \<Longrightarrow> binv c w S (b x)) \<Longrightarrow> binv c w S (Let a b)"
  by simp

lemma binv_Let_val: "binv c w S (b a) \<Longrightarrow> binv c w S (Let a b)"
  by simp

lemma binv_if: "(q \<Longrightarrow> binv c w S a) \<Longrightarrow> (\<not> q \<Longrightarrow> binv c w S b) \<Longrightarrow> binv c w S (if q then a else b)"
  by simp

lemma binv_case_prod:
  "binv c w S (snd p) \<Longrightarrow> (\<And>q x. binv c w S x \<Longrightarrow> binv c w S (b q x)) \<Longrightarrow>
   binv c w S (case p of (q, x) \<Rightarrow> b q x)"
  by (cases p) simp

lemmas binv_struct = binv_Let binv_Let_val binv_if binv_case_prod

lemmas binv_frame =
  binv_core_eq [OF core_eq_kill [OF core_eq_refl]]
  binv_core_eq [OF core_eq_ereport_LOG [OF core_eq_refl]]
  binv_core_eq [OF core_eq_LogChildExit [OF core_eq_refl]]
  binv_core_eq [OF core_eq_tick [OF core_eq_refl]]
  binv_core_eq [OF core_eq_ConfigurePostmasterWaitSet [OF core_eq_refl]]
  binv_core_eq [OF core_eq_signal_child [OF core_eq_refl]]
  binv_core_eq [OF core_eq_sigquit_child [OF core_eq_refl]]
  binv_core_eq [OF core_eq_SignalSomeChildren [OF core_eq_refl]]
  binv_core_eq [OF core_eq_SignalChildren [OF core_eq_refl]]
  binv_core_eq [OF core_eq_CountChildren [OF core_eq_refl]]
  binv_core_eq [OF core_eq_TerminateChildren [OF core_eq_refl]]
  binv_core_eq [OF core_eq_processCancelRequest [OF core_eq_refl]]
  binv_core_eq [OF core_eq_StartChildProcess [OF _ core_eq_refl]]
  binv_core_eq [OF core_eq_BackendStartup [OF core_eq_refl]]
  binv_core_eq [OF core_eq_StartAutovacuumWorker [OF core_eq_refl]]
  binv_core_eq [OF core_eq_maybe_start_bgworkers [OF core_eq_refl]]
  binv_core_eq [OF core_eq_DetermineSleepTime [OF core_eq_refl]]
  binv_core_eq [OF core_eq_process_pm_reload_request [OF core_eq_refl]]
  binv_core_eq [OF core_eq_handle_pm_shutdown_request_signal [OF core_eq_refl]]
  binv_core_eq [OF core_eq_shutdown_request_mode [OF core_eq_refl]]
  binv_core_eq [OF core_eq_HandleChildCrash_bgworkers [OF core_eq_refl]]
  binv_core_eq [OF core_eq_HandleChildCrash_backends [OF core_eq_refl]]
  binv_core_eq [OF core_eq_other_update(1) [OF core_eq_refl]]
  binv_core_eq [OF core_eq_other_update(2) [OF core_eq_refl]]
  binv_core_eq [OF core_eq_other_update(3) [OF core_eq_refl]]
  binv_core_eq [OF core_eq_other_update(4) [OF core_eq_refl]]
  binv_core_eq [OF core_eq_other_update(5) [OF core_eq_refl]]
  binv_core_eq [OF core_eq_other_update(6) [OF core_eq_refl]]
  binv_core_eq [OF core_eq_other_update(7) [OF core_eq_refl]]
  binv_core_eq [OF core_eq_other_update(8) [OF core_eq_refl]]
  binv_core_eq [OF core_eq_other_update(9) [OF core_eq_refl]]
  binv_core_eq [OF core_eq_other_update(10) [OF core_eq_refl]]
  binv_core_eq [OF core_eq_other_update(11) [OF core_eq_refl]]
  binv_core_eq [OF core_eq_other_update(12) [OF core_eq_refl]]
  binv_core_eq [OF core_eq_other_update(13) [OF core_eq_refl]]
  binv_core_eq [OF core_eq_other_update(14) [OF core_eq_refl]]
  binv_core_eq [OF core_eq_other_update(15) [OF core_eq_refl]]
  binv_core_eq [OF core_eq_other_update(16) [OF core_eq_refl]]
  binv_core_eq [OF core_eq_other_update(17) [OF core_eq_refl]]
  binv_core_eq [OF core_eq_other_update(18) [OF core_eq_refl]]
  binv_core_eq [OF core_eq_other_update(19) [OF core_eq_refl]]
  binv_core_eq [OF core_eq_other_update(20) [OF core_eq_refl]]
  binv_core_eq [OF core_eq_other_update(21) [OF core_eq_refl]]

section \<open>The crash cascade, computed\<close>

lemma HandleChildCrash_bgworkers_nf:
  "HandleChildCrash_bgworkers e p ta bgws s =
     (map (\<lambda>rw. if rw_pid rw \<noteq> 0 \<and> rw_pid rw = p then rw\<lparr>rw_pid := 0, rw_child_slot := 0\<rparr> else rw) bgws,
      kills_update (\<lambda>l. l @ (if ta then crash_bgworker_kills e p bgws else []))
        (BackendList_update ((dlist_delete_rw_backend p) ^^ length (filter (\<lambda>rw. rw_pid rw \<noteq> 0 \<and> rw_pid rw = p) bgws)) s))"
proof (induction bgws arbitrary: s)
  case Nil
  show ?case by (simp add: crash_bgworker_kills_def)
next
  case (Cons rw bgws)
  show ?case
    by (simp add: Cons.IH sigquit_child_nf crash_bgworker_kills_def funpow_swap1 Let_def)
qed

lemma HandleChildCrash_backends_nf:
  "HandleChildCrash_backends e p ta bl s =
     (filter (\<lambda>bp. pid bp \<noteq> p) bl,
      kills_update (\<lambda>l. l @ (if ta then crash_backend_kills e p bl else [])) s)"
proof (induction bl arbitrary: s)
  case Nil
  show ?case by (simp add: crash_backend_kills_def)
next
  case (Cons bp bl)
  show ?case
    by (simp add: Cons.IH sigquit_child_nf crash_backend_kills_def Let_def)
qed

lemma append_comp: "(\<lambda>l. l @ a) \<circ> (\<lambda>l. l @ b) = (\<lambda>l. l @ (b @ a))"
  by (simp add: fun_eq_iff)

lemma filter_dlist_delete_rw_backend:
  "filter (\<lambda>bp. pid bp \<noteq> p) (dlist_delete_rw_backend p bl) = filter (\<lambda>bp. pid bp \<noteq> p) bl"
  by (induction bl) auto

lemma filter_dlist_delete_rw_backend_pow:
  "filter (\<lambda>bp. pid bp \<noteq> p) ((dlist_delete_rw_backend p ^^ n) bl) = filter (\<lambda>bp. pid bp \<noteq> p) bl"
  by (induction n) (auto simp: filter_dlist_delete_rw_backend)

lemma crash_backend_kills_filter:
  "crash_backend_kills e p bl = crash_backend_kills e p (filter (\<lambda>bp. pid bp \<noteq> p) bl)"
  by (simp add: crash_backend_kills_def conj_commute)

lemma crash_backend_kills_delete_pow [simp]:
  "crash_backend_kills e p ((dlist_delete_rw_backend p ^^ n) bl) = crash_backend_kills e p bl"
  using crash_backend_kills_filter [of e p "(dlist_delete_rw_backend p ^^ n) bl"]
    crash_backend_kills_filter [of e p bl]
  by (simp add: filter_dlist_delete_rw_backend_pow)

lemmas HandleChildCrash_simps =
  Let_def effects_nf HandleChildCrash_bgworkers_nf HandleChildCrash_backends_nf append_comp if_into_record

lemma HandleChildCrash_core:
  "pmState (HandleChildCrash e p st n s) =
     (if pmState s = PM_RECOVERY \<or> pmState s = PM_HOT_STANDBY \<or> pmState s = PM_RUN \<or>
         pmState s = PM_STOP_BACKENDS \<or> pmState s = PM_SHUTDOWN
      then PM_WAIT_BACKENDS else pmState s)"
  "pmState_log (HandleChildCrash e p st n s) =
     pmState_log s @
     (if pmState s = PM_RECOVERY \<or> pmState s = PM_HOT_STANDBY \<or> pmState s = PM_RUN \<or>
         pmState s = PM_STOP_BACKENDS \<or> pmState s = PM_SHUTDOWN
      then [PM_WAIT_BACKENDS] else [])"
  "Shutdown (HandleChildCrash e p st n s) = Shutdown s"
  "FatalError (HandleChildCrash e p st n s) = (Shutdown s \<noteq> ImmediateShutdown \<or> FatalError s)"
  "connsAllowed (HandleChildCrash e p st n s) = connsAllowed s"
  "exited (HandleChildCrash e p st n s) = exited s"
  "shmem_creations (HandleChildCrash e p st n s) = shmem_creations s"
  "StartupPID (HandleChildCrash e p st n s) = (if p = StartupPID s then 0 else StartupPID s)"
  "BgWriterPID (HandleChildCrash e p st n s) = (if p = BgWriterPID s then 0 else BgWriterPID s)"
  "CheckpointerPID (HandleChildCrash e p st n s) = (if p = CheckpointerPID s then 0 else CheckpointerPID s)"
  "WalWriterPID (HandleChildCrash e p st n s) = (if p = WalWriterPID s then 0 else WalWriterPID s)"
  "WalReceiverPID (HandleChildCrash e p st n s) = (if p = WalReceiverPID s then 0 else WalReceiverPID s)"
  "WalSummarizerPID (HandleChildCrash e p st n s) = (if p = WalSummarizerPID s then 0 else WalSummarizerPID s)"
  "AutoVacPID (HandleChildCrash e p st n s) = (if p = AutoVacPID s then 0 else AutoVacPID s)"
  "PgArchPID (HandleChildCrash e p st n s) = (if p = PgArchPID s then 0 else PgArchPID s)"
  "SlotSyncWorkerPID (HandleChildCrash e p st n s) = (if p = SlotSyncWorkerPID s then 0 else SlotSyncWorkerPID s)"
  unfolding HandleChildCrash_def
  by (simp_all add: HandleChildCrash_simps cong del: if_weak_cong split del: if_split) auto

lemma HandleChildCrash_AbortStartTime:
  "AbortStartTime (HandleChildCrash e p st n s) =
     (if AbortStartTime s = 0 then time_now e else AbortStartTime s)"
  unfolding HandleChildCrash_def
  by (simp add: HandleChildCrash_simps cong del: if_weak_cong split del: if_split)

lemma HandleChildCrash_kills:
  "kills (HandleChildCrash e p st n s) =
     kills s @ (if \<not> FatalError s \<and> Shutdown s \<noteq> ImmediateShutdown then crash_kills e p s else [])"
proof -
  have c: "(if a then [] else if b \<and> t then q else []) = (if t then (if \<not> a \<and> b then q else []) else [])"
    for a b t and q :: "(int \<times> signal) list"
    by simp
  have d: "(if t then x else []) @ (if t then y else []) = (if t then x @ y else [])"
    for t and x y :: "(int \<times> signal) list"
    by simp
  show ?thesis
    unfolding HandleChildCrash_def
    by (simp add: HandleChildCrash_simps crash_kills_def crash_special_kills_def
          cong del: if_weak_cong split del: if_split)
       (simp add: c d split del: if_split)
qed

section \<open>Dead-end children\<close>

lemma targeted_ALL: "targeted e BACKEND_TYPE_ALL = (\<lambda>bp. \<not> dead_end bp)"
  by (rule ext) (simp add: targeted_def)

lemma canAcceptConnections_fields:
  "pmState s' = pmState s \<Longrightarrow> Shutdown s' = Shutdown s \<Longrightarrow> FatalError s' = FatalError s \<Longrightarrow>
   connsAllowed s' = connsAllowed s \<Longrightarrow>
   filter (\<lambda>bp. \<not> dead_end bp) (BackendList s') = filter (\<lambda>bp. \<not> dead_end bp) (BackendList s) \<Longrightarrow>
   canAcceptConnections e ty s' = canAcceptConnections e ty s"
  by (simp add: canAcceptConnections_def CountChildren_nf targeted_ALL)

lemma canAcceptConnections_env_calls [simp]:
  "canAcceptConnections e ty (env_calls_update f s) = canAcceptConnections e ty s"
  by (rule canAcceptConnections_fields) simp_all




section \<open>The sleep budget\<close>

lemma wrap_int32_id: "- 2147483648 \<le> x \<Longrightarrow> x \<le> 2147483647 \<Longrightarrow> wrap_int32 x = x"
  by (simp add: wrap_int32_def)

lemma TimestampDifferenceMilliseconds_range:
  "0 \<le> TimestampDifferenceMilliseconds a b \<and> TimestampDifferenceMilliseconds a b \<le> INT_MAX"
  by (auto simp add: TimestampDifferenceMilliseconds_def)

lemma snd_DetermineSleepTime_loop:
  "0 \<notin> set (restart_times bgws) \<Longrightarrow>
   snd (DetermineSleepTime_loop w bgws) =
     (if restart_times bgws = [] then w
      else if w = 0 then Min (set (restart_times bgws))
      else min w (Min (set (restart_times bgws))))"
proof (induction bgws arbitrary: w)
  case Nil
  then show ?case by (simp add: restart_times_def)
next
  case (Cons rw rest)
  have r: "0 \<notin> set (restart_times rest)"
    using Cons.prems by (auto simp add: restart_times_def)
  note IH = Cons.IH [OF r]
  show ?case
  proof (cases "rw_crashed_at rw \<noteq> 0 \<and> bgw_restart_time rw \<noteq> BGW_NEVER_RESTART \<and> \<not> rw_terminate rw")
    case False
    then have "restart_times (rw # rest) = restart_times rest"
      by (auto simp add: restart_times_def)
    then show ?thesis using False IH [of w]
      by (auto simp add: split_beta)
  next
    case True
    define t where "t = rw_crashed_at rw + 1000000 * bgw_restart_time rw"
    have rt: "restart_times (rw # rest) = t # restart_times rest"
      using True by (simp add: restart_times_def t_def)
    have t0: "t \<noteq> 0" using Cons.prems rt by auto
    have tw: "TimestampTzPlusMilliseconds (rw_crashed_at rw) (1000 * bgw_restart_time rw) = t"
      by (simp add: TimestampTzPlusMilliseconds_def t_def)
    show ?thesis
      using True t0 IH [of t] IH [of w]
      by (auto simp add: split_beta Let_def tw rt min_def)
  qed
qed


text \<open>
  C9, where it fails: during a smart shutdown a pending worker start does not bring the
  budget of \<open>DetermineSleepTime\<close> to 0; the answer is the 60 seconds of the shutdown
  case.
\<close>

theorem DetermineSleepTime_ignores_pending_starts_in_shutdown:
  "StartWorkerNeeded pm_smart_pending \<and> fst (DetermineSleepTime env0 pm_smart_pending) = 60000"
  by code_simp

text \<open>
  C9, amended. As long as the clock is not behind the abort deadline and no restart
  time is the timestamp 0, \<open>DetermineSleepTime\<close> answers between 0 and 60000
  milliseconds, by these cases in this order: during a shutdown, or when no worker
  start is pending and no crashed worker waits, the time left until the 5-second
  escalation (at least 0) if the abort deadline is set and 60 seconds otherwise; else
  0 when worker starts are pending; else the lesser of 60 seconds and the time from now
  to the earliest restart time of a crashed worker (at least 0), or 60 seconds when no
  crashed worker is to be restarted.
\<close>

theorem DetermineSleepTime_budget:
  assumes clock: "AbortStartTime s \<noteq> 0 \<longrightarrow>
                  AbortStartTime s \<le> time_now e \<and> time_now e - AbortStartTime s \<le> 2147483"
      and known: "0 \<notin> set (restart_times (BackgroundWorkerList s))"
  shows "fst (DetermineSleepTime e s) =
           (if Shutdown s > NoShutdown \<or> (\<not> StartWorkerNeeded s \<and> \<not> HaveCrashedWorker s) then
              (if AbortStartTime s \<noteq> 0
               then max ((SIGKILL_CHILDREN_AFTER_SECS - (time_now e - AbortStartTime s)) * 1000) 0
               else 60000)
            else if StartWorkerNeeded s then 0
            else if restart_times (BackgroundWorkerList s) = [] then 60000
            else min 60000 (TimestampDifferenceMilliseconds (GetCurrentTimestamp e)
                              (Min (set (restart_times (BackgroundWorkerList s)))))) \<and>
         0 \<le> fst (DetermineSleepTime e s) \<and> fst (DetermineSleepTime e s) \<le> 60000"
proof -
  let ?el = "time_now e - AbortStartTime s"
  have sec: "AbortStartTime s \<noteq> 0 \<Longrightarrow>
             wrap_int32 (wrap_int32 (5 - ?el) * 1000) = (5 - ?el) * 1000"
    using clock by (simp add: wrap_int32_id)
  have ms: "wrap_int32 (TimestampDifferenceMilliseconds a b) = TimestampDifferenceMilliseconds a b" for a b
    using TimestampDifferenceMilliseconds_range [of a b] by (simp add: wrap_int32_id)
  have loop: "snd (DetermineSleepTime_loop 0 (BackgroundWorkerList s)) =
                (if restart_times (BackgroundWorkerList s) = [] then 0
                 else Min (set (restart_times (BackgroundWorkerList s))))"
    using snd_DetermineSleepTime_loop [OF known, of 0] by simp
  have nz: "restart_times (BackgroundWorkerList s) \<noteq> [] \<Longrightarrow>
            Min (set (restart_times (BackgroundWorkerList s))) \<noteq> 0"
  proof
    assume ne: "restart_times (BackgroundWorkerList s) \<noteq> []"
       and z: "Min (set (restart_times (BackgroundWorkerList s))) = 0"
    have "Min (set (restart_times (BackgroundWorkerList s))) \<in> set (restart_times (BackgroundWorkerList s))"
      using ne by (intro Min_in) simp_all
    then show False using known z by simp
  qed
  have eq: "fst (DetermineSleepTime e s) =
           (if Shutdown s > NoShutdown \<or> (\<not> StartWorkerNeeded s \<and> \<not> HaveCrashedWorker s) then
              (if AbortStartTime s \<noteq> 0
               then max ((SIGKILL_CHILDREN_AFTER_SECS - (time_now e - AbortStartTime s)) * 1000) 0
               else 60000)
            else if StartWorkerNeeded s then 0
            else if restart_times (BackgroundWorkerList s) = [] then 60000
            else min 60000 (TimestampDifferenceMilliseconds (GetCurrentTimestamp e)
                              (Min (set (restart_times (BackgroundWorkerList s))))))"
    using sec loop nz by (auto simp add: DetermineSleepTime_def Let_def split_beta ms)
  have rng: "0 \<le> TimestampDifferenceMilliseconds a b" for a b
    using TimestampDifferenceMilliseconds_range [of a b] by simp
  show ?thesis
    unfolding eq using clock rng by auto
qed

theorem DetermineSleepTime_budget_witness:
  "fst (DetermineSleepTime env0 pm_aborting) = 3000 \<and>
   fst (DetermineSleepTime env0 pm_crashed_worker) = 4000 \<and>
   fst (DetermineSleepTime env0 (pm_running\<lparr>StartWorkerNeeded := True\<rparr>)) = 0 \<and>
   fst (DetermineSleepTime env0 pm_running) = 60000"
proof -
  have a: "AbortStartTime pm_aborting = 998" "time_now env0 = 1000" "Shutdown pm_aborting = 0"
          "\<not> StartWorkerNeeded pm_aborting" "\<not> HaveCrashedWorker pm_aborting"
          "restart_times (BackgroundWorkerList pm_aborting) = []"
    by code_simp+
  have b: "AbortStartTime pm_crashed_worker = 0" "Shutdown pm_crashed_worker = 0"
          "\<not> StartWorkerNeeded pm_crashed_worker" "HaveCrashedWorker pm_crashed_worker"
          "restart_times (BackgroundWorkerList pm_crashed_worker) = [1004000000]"
          "GetCurrentTimestamp env0 = 1000000000"
          "TimestampDifferenceMilliseconds 1000000000 1004000000 = 4000"
    by code_simp+
  have c: "AbortStartTime (pm_running\<lparr>StartWorkerNeeded := True\<rparr>) = 0"
          "Shutdown (pm_running\<lparr>StartWorkerNeeded := True\<rparr>) = 0"
          "restart_times (BackgroundWorkerList (pm_running\<lparr>StartWorkerNeeded := True\<rparr>)) = []"
    by code_simp+
  have d: "AbortStartTime pm_running = 0" "Shutdown pm_running = 0"
          "\<not> StartWorkerNeeded pm_running" "\<not> HaveCrashedWorker pm_running"
          "restart_times (BackgroundWorkerList pm_running) = []"
    by code_simp+
  show ?thesis
    using DetermineSleepTime_budget [of pm_aborting env0]
          DetermineSleepTime_budget [of pm_crashed_worker env0]
          DetermineSleepTime_budget [of "pm_running\<lparr>StartWorkerNeeded := True\<rparr>" env0]
          DetermineSleepTime_budget [of pm_running env0]
    by (simp add: a b c d)
qed

section \<open>Restarting crashed workers\<close>

text \<open>
  A scheduling pass keeps a throttled worker as it is, not started; and it drops a
  crashed worker that is never to be restarted, telling the process that registered
  it.
\<close>

lemma throttled_kept:
  "throttled e rw \<Longrightarrow> rw \<in> set done \<or> rw \<in> set bgws \<Longrightarrow>
   now = 0 \<or> now = GetCurrentTimestamp e \<Longrightarrow>
   rw \<in> set (BackgroundWorkerList (maybe_start_bgworkers_loop e n now done bgws s))"
proof (induction bgws arbitrary: n now "done" s)
  case Nil
  then show ?case by simp
next
  case (Cons a rest)
  show ?case
  proof (cases "a = rw")
    case True
    have w: "wrap_int32 (bgw_restart_time rw * 1000) = bgw_restart_time rw * 1000"
      using Cons.prems(1) by (simp add: throttled_def wrap_int32_def)
    have "maybe_start_bgworkers_loop e n now done (a # rest) s =
          maybe_start_bgworkers_loop e n (GetCurrentTimestamp e) (done @ [rw]) rest
            (s\<lparr>HaveCrashedWorker := True\<rparr>)"
      using Cons.prems(1,3) True
      by (auto simp add: throttled_def w TimestampDifferenceExceeds_def Let_def)
    then show ?thesis
      using Cons.IH [of "done @ [rw]" "GetCurrentTimestamp e" n "s\<lparr>HaveCrashedWorker := True\<rparr>"] Cons.prems(1)
      by simp
  next
    case False
    then have m: "rw \<in> set done \<or> rw \<in> set rest" using Cons.prems(2) by auto
    have now': "(if rw_crashed_at a \<noteq> 0 \<and> now = 0 then GetCurrentTimestamp e else now) = 0 \<or>
                (if rw_crashed_at a \<noteq> 0 \<and> now = 0 then GetCurrentTimestamp e else now) = GetCurrentTimestamp e"
      using Cons.prems(3) by auto
    show ?thesis
      using Cons.IH [OF Cons.prems(1)] m now' Cons.prems(3)
      by (auto simp add: Let_def split: prod.splits)
  qed
qed


lemma maybe_start_bgworkers_throttles:
  "throttled e rw \<Longrightarrow> rw \<in> set (BackgroundWorkerList s) \<Longrightarrow>
   rw \<in> set (BackgroundWorkerList (maybe_start_bgworkers e s))"
  using throttled_kept [of e rw "[]" "BackgroundWorkerList s" 0 0]
  by (simp add: maybe_start_bgworkers_def)

lemma maybe_start_bgworkers_loop_never_restart:
  "rw_pid rw = 0 \<Longrightarrow> \<not> rw_terminate rw \<Longrightarrow> rw_crashed_at rw \<noteq> 0 \<Longrightarrow>
   bgw_restart_time rw = BGW_NEVER_RESTART \<Longrightarrow>
   maybe_start_bgworkers_loop e n now done (rw # rest) s =
     maybe_start_bgworkers_loop e n now done rest
       (if bgw_notify_pid rw \<noteq> 0 then kill (bgw_notify_pid rw) SIGUSR1 s else s)"
  by simp

text \<open>
  C8. A worker registered with a restart interval of 2147484 seconds crashed one
  second ago. The interval in milliseconds does not fit the C \<open>int\<close> in which
  \<open>maybe_start_bgworkers\<close> computes it, the comparison sees a negative limit, and the
  pass starts the worker at once (process 203); \<open>DetermineSleepTime\<close>, which computes
  the same product in a \<open>long\<close>, still plans to sleep the full minute. The same worker
  with an interval of 5 seconds is left alone.
\<close>

theorem maybe_start_bgworkers_long_interval:
  "BackgroundWorkerList pm_long_interval = [worker_long_interval] \<and>
   rw_crashed_at worker_long_interval = 999000000 \<and>
   bgw_restart_time worker_long_interval = 2147484 \<and>
   GetCurrentTimestamp env0 = 1000000000 \<and>
   wrap_int32 (bgw_restart_time worker_long_interval * 1000) = - 2147483296 \<and>
   map rw_pid (BackgroundWorkerList (maybe_start_bgworkers env0 pm_long_interval)) = [203] \<and>
   map pid (BackendList (maybe_start_bgworkers env0 pm_long_interval)) = [203, 103, 102, 101] \<and>
   fst (DetermineSleepTime env0 pm_long_interval) = 60000 \<and>
   map rw_pid (BackgroundWorkerList (maybe_start_bgworkers env0 pm_crashed_worker)) = [0]"
  by code_simp

section \<open>The invariant, function by function\<close>

lemma pm_path_snoc:
  "pm_path (l @ [t]) \<longleftrightarrow> pm_path l \<and> (l = [] \<or> last l = t \<or> pm_edge (last l) t)"
  by (auto simp add: pm_path_def successively_append_iff)

lemma count_list_snoc: "count_list (l @ [t]) x = count_list l x + (if t = x then 1 else 0)"
  by (induction l) simp_all

lemma binv_HandleChildCrash:
  "binv c False loop_states x \<Longrightarrow> binv c True loop_states (HandleChildCrash e p st n x)"
  by (auto simp add: binv_def inv_defs loop_states_def HandleChildCrash_core pm_path_snoc count_list_snoc)

lemma binv_weaken: "binv c w S x \<Longrightarrow> binv c False S x"
  by (simp add: binv_def)

lemma binv_HandleChildCrash':
  "binv c w loop_states x \<Longrightarrow> binv c True loop_states (HandleChildCrash e p st n x)"
  by (rule binv_HandleChildCrash) (rule binv_weaken)

lemma binv_set_pmState:
  "binv c w S x \<Longrightarrow> t \<in> S' \<Longrightarrow> t \<noteq> PM_STARTUP \<Longrightarrow> t \<noteq> PM_INIT \<Longrightarrow>
   pmState x = t \<or> pm_edge (pmState x) t \<Longrightarrow>
   pids_ok (x\<lparr>pmState := t\<rparr>) \<Longrightarrow> (w' \<Longrightarrow> why_ok (x\<lparr>pmState := t\<rparr>)) \<Longrightarrow>
   binv c w' S' (set_pmState t x)"
  by (auto simp add: binv_def inv_defs set_pmState_def pm_path_snoc count_list_snoc)

lemma binv_zero:
  "binv c w S x \<Longrightarrow> binv c w S (x\<lparr>StartupPID := 0\<rparr>)"
  "binv c w S x \<Longrightarrow> binv c w S (x\<lparr>BgWriterPID := 0\<rparr>)"
  "binv c w S x \<Longrightarrow> binv c w S (x\<lparr>CheckpointerPID := 0\<rparr>)"
  "binv c w S x \<Longrightarrow> binv c w S (x\<lparr>WalWriterPID := 0\<rparr>)"
  "binv c w S x \<Longrightarrow> binv c w S (x\<lparr>WalReceiverPID := 0\<rparr>)"
  "binv c w S x \<Longrightarrow> binv c w S (x\<lparr>WalSummarizerPID := 0\<rparr>)"
  "binv c w S x \<Longrightarrow> binv c w S (x\<lparr>AutoVacPID := 0\<rparr>)"
  "binv c w S x \<Longrightarrow> binv c w S (x\<lparr>PgArchPID := v\<rparr>)"
  "binv c w S x \<Longrightarrow> binv c w S (x\<lparr>SlotSyncWorkerPID := 0\<rparr>)"
  by (simp_all add: binv_def inv_defs)

lemma binv_ExitPostmaster: "binv c w S x \<Longrightarrow> binv c w S (ExitPostmaster st x)"
  by (auto simp add: binv_def inv_defs ExitPostmaster_def)

lemma binv_launch:
  assumes "binv c w S x"
      and "pmState x \<noteq> PM_SHUTDOWN" "pmState x \<noteq> PM_SHUTDOWN_2" "pmState x \<noteq> PM_WAIT_DEAD_END"
          "pmState x \<noteq> PM_NO_CHILDREN"
  shows "binv c w S (x\<lparr>BgWriterPID := q\<rparr>)"
    and "binv c w S (x\<lparr>CheckpointerPID := q\<rparr>)"
    and "binv c w S (x\<lparr>WalWriterPID := q\<rparr>)"
    and "binv c w S (x\<lparr>WalReceiverPID := q\<rparr>)"
    and "binv c w S (x\<lparr>WalSummarizerPID := q\<rparr>)"
    and "binv c w S (x\<lparr>AutoVacPID := q\<rparr>)"
    and "binv c w S (x\<lparr>SlotSyncWorkerPID := q\<rparr>)"
  using assms by (simp_all add: binv_def inv_defs)

lemma binv_narrow: "binv c w S x \<Longrightarrow> pmState x \<in> T \<Longrightarrow> binv c w (S \<inter> T) x"
  by (simp add: binv_def)



lemma CleanupBackend_cases:
  "CleanupBackend e p st x = HandleChildCrash e p st ''server process'' x \<or>
   core_eq x (CleanupBackend e p st x)"
  by (simp add: CleanupBackend_def core_eq_def Let_def split: option.split)

lemma binv_CleanupBackend:
  "binv c True loop_states x \<Longrightarrow> binv c True loop_states (CleanupBackend e p st x)"
  using CleanupBackend_cases [of e p st x]
proof
  assume "CleanupBackend e p st x = HandleChildCrash e p st ''server process'' x"
  then show "binv c True loop_states x \<Longrightarrow> ?thesis" by (simp add: binv_HandleChildCrash')
next
  assume "core_eq x (CleanupBackend e p st x)"
  then show "binv c True loop_states x \<Longrightarrow> ?thesis" by (rule binv_core_eq)
qed

lemma CleanupBackgroundWorker_cases:
  "(\<exists>y. core_eq x y \<and>
        snd (CleanupBackgroundWorker e p st x) = HandleChildCrash e p st ''background worker'' y) \<or>
   core_eq x (snd (CleanupBackgroundWorker e p st x))"
proof (cases "find_bgworker p (BackgroundWorkerList x)")
  case None
  then show ?thesis by (simp add: CleanupBackgroundWorker_def)
next
  case (Some r)
  obtain pre rw post where r: "r = (pre, rw, post)" by (cases r) auto
  define rw' where "rw' = (if \<not> EXIT_STATUS_0 st then rw\<lparr>rw_crashed_at := GetCurrentTimestamp e\<rparr>
                     else rw\<lparr>rw_crashed_at := 0, rw_terminate := True\<rparr>)"
  define y where "y = x\<lparr>BackgroundWorkerList := pre @ rw' # post\<rparr>"
  have u: "core_eq x y" by (simp add: core_eq_def y_def)
  show ?thesis
  proof (cases "(\<not> EXIT_STATUS_0 st \<and> \<not> EXIT_STATUS_1 st) \<or> \<not> ReleasePostmasterChildSlot e (rw_child_slot rw)")
    case True
    then have "snd (CleanupBackgroundWorker e p st x) = HandleChildCrash e p st ''background worker'' y"
      using Some r
      by (cases "EXIT_STATUS_0 st")
         (auto simp add: CleanupBackgroundWorker_def Let_def rw'_def y_def)
    then show ?thesis using u by blast
  next
    case False
    then have "core_eq x (snd (CleanupBackgroundWorker e p st x))"
      using Some r
      by (cases "EXIT_STATUS_0 st")
         (simp_all add: CleanupBackgroundWorker_def Let_def split_beta core_eq_def LogChildExit_def
            ereport_LOG_def)
    then show ?thesis by blast
  qed
qed

lemma binv_CleanupBackgroundWorker:
  assumes "binv c True loop_states x"
  shows "binv c True loop_states (snd (CleanupBackgroundWorker e p st x))"
  using CleanupBackgroundWorker_cases [of x e p st]
proof
  assume "\<exists>y. core_eq x y \<and>
        snd (CleanupBackgroundWorker e p st x) = HandleChildCrash e p st ''background worker'' y"
  then obtain y where y: "core_eq x y"
    "snd (CleanupBackgroundWorker e p st x) = HandleChildCrash e p st ''background worker'' y"
    by blast
  have "binv c True loop_states y" using y(1) assms by (rule binv_core_eq)
  then show ?thesis unfolding y(2) by (rule binv_HandleChildCrash')
next
  assume "core_eq x (snd (CleanupBackgroundWorker e p st x))"
  then show ?thesis using assms by (rule binv_core_eq)
qed


lemma binv_Shutdown_raise:
  assumes "binv c w S x" and "Shutdown x \<le> m"
  shows "binv c w S (x\<lparr>Shutdown := m\<rparr>)"
proof -
  have "log_ok (x\<lparr>Shutdown := m\<rparr>)" "pids_ok (x\<lparr>Shutdown := m\<rparr>)" "shmem_ok (x\<lparr>Shutdown := m\<rparr>)"
    using assms(1) by (simp_all add: binv_def log_ok_def pids_ok_def shmem_ok_def)
  moreover have "conns_ok (x\<lparr>Shutdown := m\<rparr>)"
    using assms by (simp add: binv_def conns_ok_def) linarith
  moreover have "w \<longrightarrow> why_ok (x\<lparr>Shutdown := m\<rparr>)"
    using assms by (simp add: binv_def why_ok_def) linarith
  moreover have "c \<le> m" "pmState x \<in> S" using assms by (simp_all add: binv_def)
  ultimately show ?thesis by (simp add: binv_def)
qed

lemma binv_connsAllowed_True: "binv c w S x \<Longrightarrow> binv c w S (x\<lparr>connsAllowed := True\<rparr>)"
  by (simp add: binv_def inv_defs)

lemma binv_FatalError_True: "binv c w S x \<Longrightarrow> binv c w S (x\<lparr>FatalError := True\<rparr>)"
  by (simp add: binv_def inv_defs)

lemma binv_start:
  assumes "ty \<noteq> B_STARTUP" and "binv c w S x"
      and "pmState x \<noteq> PM_SHUTDOWN" "pmState x \<noteq> PM_SHUTDOWN_2" "pmState x \<noteq> PM_WAIT_DEAD_END"
          "pmState x \<noteq> PM_NO_CHILDREN"
  shows "binv c w S (case StartChildProcess e ty x of (q, s) \<Rightarrow> s\<lparr>BgWriterPID := q\<rparr>)"
    and "binv c w S (case StartChildProcess e ty x of (q, s) \<Rightarrow> s\<lparr>CheckpointerPID := q\<rparr>)"
    and "binv c w S (case StartChildProcess e ty x of (q, s) \<Rightarrow> s\<lparr>WalWriterPID := q\<rparr>)"
    and "binv c w S (case StartChildProcess e ty x of (q, s) \<Rightarrow> s\<lparr>WalReceiverPID := q\<rparr>)"
    and "binv c w S (case StartChildProcess e ty x of (q, s) \<Rightarrow> s\<lparr>WalSummarizerPID := q\<rparr>)"
    and "binv c w S (case StartChildProcess e ty x of (q, s) \<Rightarrow> s\<lparr>AutoVacPID := q\<rparr>)"
    and "binv c w S (case StartChildProcess e ty x of (q, s) \<Rightarrow> s\<lparr>SlotSyncWorkerPID := q\<rparr>)"
proof -
  obtain q y where r: "StartChildProcess e ty x = (q, y)" by (cases "StartChildProcess e ty x") auto
  have ce: "core_eq x y" using core_eq_StartChildProcess [OF assms(1) core_eq_refl, of x e] r by simp
  have b: "binv c w S y" using ce assms(2) by (rule binv_core_eq)
  have p: "pmState y \<noteq> PM_SHUTDOWN" "pmState y \<noteq> PM_SHUTDOWN_2" "pmState y \<noteq> PM_WAIT_DEAD_END"
          "pmState y \<noteq> PM_NO_CHILDREN"
    using ce assms(3-6) by (simp_all add: core_eq_def)
  show "binv c w S (case StartChildProcess e ty x of (q, s) \<Rightarrow> s\<lparr>BgWriterPID := q\<rparr>)"
    and "binv c w S (case StartChildProcess e ty x of (q, s) \<Rightarrow> s\<lparr>CheckpointerPID := q\<rparr>)"
    and "binv c w S (case StartChildProcess e ty x of (q, s) \<Rightarrow> s\<lparr>WalWriterPID := q\<rparr>)"
    and "binv c w S (case StartChildProcess e ty x of (q, s) \<Rightarrow> s\<lparr>WalReceiverPID := q\<rparr>)"
    and "binv c w S (case StartChildProcess e ty x of (q, s) \<Rightarrow> s\<lparr>WalSummarizerPID := q\<rparr>)"
    and "binv c w S (case StartChildProcess e ty x of (q, s) \<Rightarrow> s\<lparr>AutoVacPID := q\<rparr>)"
    and "binv c w S (case StartChildProcess e ty x of (q, s) \<Rightarrow> s\<lparr>SlotSyncWorkerPID := q\<rparr>)"
    using binv_launch [OF b p] by (simp_all add: r)
qed

lemma binv_start_PgArch:
  assumes "ty \<noteq> B_STARTUP" and "binv c w S x"
  shows "binv c w S (case StartChildProcess e ty x of (q, s) \<Rightarrow> s\<lparr>PgArchPID := q\<rparr>)"
proof -
  obtain q y where r: "StartChildProcess e ty x = (q, y)" by (cases "StartChildProcess e ty x") auto
  have ce: "core_eq x y" using core_eq_StartChildProcess [OF assms(1) core_eq_refl, of x e] r by simp
  have b: "binv c w S y" using ce assms(2) by (rule binv_core_eq)
  show ?thesis using binv_zero(8) [OF b] by (simp add: r)
qed

lemma binv_MaybeStartWalReceiver: "binv c w S x \<Longrightarrow> binv c w S (MaybeStartWalReceiver e x)"
  unfolding MaybeStartWalReceiver_def Let_def split_beta
  apply (intro binv_if binv_frame)
  subgoal using binv_start(4) [of B_WAL_RECEIVER c w S x e] by (auto simp add: split_beta)
  subgoal using binv_start(4) [of B_WAL_RECEIVER c w S x e] by (auto simp add: split_beta)
  subgoal by assumption
  done

lemma binv_MaybeStartWalSummarizer: "binv c w S x \<Longrightarrow> binv c w S (MaybeStartWalSummarizer e x)"
  unfolding MaybeStartWalSummarizer_def
  by (auto intro!: binv_start(5))

lemma binv_MaybeStartSlotSyncWorker: "binv c w S x \<Longrightarrow> binv c w S (MaybeStartSlotSyncWorker e x)"
  unfolding MaybeStartSlotSyncWorker_def
  by (auto intro!: binv_start(7))


lemma hoare_Let: "P a \<Longrightarrow> (\<And>x. P x \<Longrightarrow> Q (b x)) \<Longrightarrow> Q (Let a b)"
  by simp

lemma loop_edge_WAIT_BACKENDS:
  "s \<in> loop_states \<Longrightarrow> s = PM_WAIT_BACKENDS \<or> pm_edge s PM_WAIT_BACKENDS"
  by (cases s) (simp_all add: loop_states_def)

lemma binv_to_WAIT_BACKENDS:
  assumes "binv c w loop_states x" and "w' \<Longrightarrow> 0 < Shutdown x \<or> FatalError x"
  shows "binv c w' loop_states (set_pmState PM_WAIT_BACKENDS x)"
proof (rule binv_set_pmState [OF assms(1)])
  show "PM_WAIT_BACKENDS \<in> loop_states" by (simp add: loop_states_def)
  show "pmState x = PM_WAIT_BACKENDS \<or> pm_edge (pmState x) PM_WAIT_BACKENDS"
    using assms(1) loop_edge_WAIT_BACKENDS [of "pmState x"] by (simp add: binv_def)
  show "pids_ok (x\<lparr>pmState := PM_WAIT_BACKENDS\<rparr>)" by (simp add: pids_ok_def)
  show "why_ok (x\<lparr>pmState := PM_WAIT_BACKENDS\<rparr>)" if "w'" using assms(2) that by (simp add: why_ok_def)
qed simp_all

lemma binv_to_RUN:
  assumes "binv c w loop_states x" and "StartupPID x = 0"
      and "pmState x = PM_STARTUP \<or> pmState x = PM_RECOVERY \<or> pmState x = PM_HOT_STANDBY \<or>
           pmState x = PM_WAIT_BACKENDS"
  shows "binv c True {PM_RUN} (set_pmState PM_RUN (x\<lparr>StartupStatus := a, FatalError := False,
           AbortStartTime := b, ReachedNormalRunning := d\<rparr>))"
proof (rule binv_set_pmState [where w = False and S = loop_states])
  show "binv c False loop_states (x\<lparr>StartupStatus := a, FatalError := False,
           AbortStartTime := b, ReachedNormalRunning := d\<rparr>)"
    using assms(1) by (simp add: binv_def log_ok_def pids_ok_def conns_ok_def shmem_ok_def)
  show "pmState (x\<lparr>StartupStatus := a, FatalError := False, AbortStartTime := b,
          ReachedNormalRunning := d\<rparr>) = PM_RUN \<or>
        pm_edge (pmState (x\<lparr>StartupStatus := a, FatalError := False, AbortStartTime := b,
          ReachedNormalRunning := d\<rparr>)) PM_RUN"
    using assms(3) by auto
  show "pids_ok (x\<lparr>StartupStatus := a, FatalError := False, AbortStartTime := b,
          ReachedNormalRunning := d, pmState := PM_RUN\<rparr>)"
    using assms(2) by (simp add: pids_ok_def)
  show "why_ok (x\<lparr>StartupStatus := a, FatalError := False, AbortStartTime := b,
          ReachedNormalRunning := d, pmState := PM_RUN\<rparr>)"
    by (simp add: why_ok_def)
qed simp_all

lemma binv_RUN_start:
  assumes "binv c w {PM_RUN} x" and "ty \<noteq> B_STARTUP"
  shows "binv c w {PM_RUN} (case StartChildProcess e ty x of (q, s) \<Rightarrow> s\<lparr>BgWriterPID := q\<rparr>)"
    and "binv c w {PM_RUN} (case StartChildProcess e ty x of (q, s) \<Rightarrow> s\<lparr>CheckpointerPID := q\<rparr>)"
    and "binv c w {PM_RUN} (case StartChildProcess e ty x of (q, s) \<Rightarrow> s\<lparr>WalWriterPID := q\<rparr>)"
    and "binv c w {PM_RUN} (case StartChildProcess e ty x of (q, s) \<Rightarrow> s\<lparr>AutoVacPID := q\<rparr>)"
proof -
  have p: "pmState x \<noteq> PM_SHUTDOWN" "pmState x \<noteq> PM_SHUTDOWN_2" "pmState x \<noteq> PM_WAIT_DEAD_END"
          "pmState x \<noteq> PM_NO_CHILDREN"
    using assms(1) by (simp_all add: binv_def)
  note r = binv_start [OF assms(2) assms(1) p]
  show "binv c w {PM_RUN} (case StartChildProcess e ty x of (q, s) \<Rightarrow> s\<lparr>BgWriterPID := q\<rparr>)"
    and "binv c w {PM_RUN} (case StartChildProcess e ty x of (q, s) \<Rightarrow> s\<lparr>CheckpointerPID := q\<rparr>)"
    and "binv c w {PM_RUN} (case StartChildProcess e ty x of (q, s) \<Rightarrow> s\<lparr>WalWriterPID := q\<rparr>)"
    and "binv c w {PM_RUN} (case StartChildProcess e ty x of (q, s) \<Rightarrow> s\<lparr>AutoVacPID := q\<rparr>)"
    by (rule r)+
qed

lemma binv_reap_startup_success:
  assumes "binv c True {PM_RUN} x"
  shows "binv c True {PM_RUN}
     (let s = x\<lparr>connsAllowed := True\<rparr>;
             s = (if CheckpointerPID s = 0 then
                    (let (q, s) = StartChildProcess e B_CHECKPOINTER s in s\<lparr>CheckpointerPID := q\<rparr>)
                  else s);
             s = (if BgWriterPID s = 0 then
                    (let (q, s) = StartChildProcess e B_BG_WRITER s in s\<lparr>BgWriterPID := q\<rparr>)
                  else s);
             s = (if WalWriterPID s = 0 then
                    (let (q, s) = StartChildProcess e B_WAL_WRITER s in s\<lparr>WalWriterPID := q\<rparr>)
                  else s);
             s = MaybeStartWalSummarizer e s;
             s = (if \<not> IsBinaryUpgrade e \<and> AutoVacuumingActive e \<and> AutoVacPID s = 0 then
                    (let (q, s) = StartChildProcess e B_AUTOVAC_LAUNCHER s in s\<lparr>AutoVacPID := q\<rparr>)
                  else s);
             s = (if PgArchStartupAllowed e s \<and> PgArchPID s = 0 then
                    (let (q, s) = StartChildProcess e B_ARCHIVER s in s\<lparr>PgArchPID := q\<rparr>)
                  else s);
             s = MaybeStartSlotSyncWorker e s;
             s = maybe_start_bgworkers e s
         in ereport_LOG ''database system is ready to accept connections'' s)"
  using assms
  unfolding Let_def [of "StartChildProcess e ty z" for ty z]
  by (intro binv_Let binv_if binv_frame binv_connsAllowed_True binv_RUN_start
        binv_start_PgArch binv_MaybeStartWalSummarizer binv_MaybeStartSlotSyncWorker) simp_all


lemmas class_a_fields =
  core_eq_kill [OF core_eq_refl, unfolded core_eq_def]
  core_eq_ereport_LOG [OF core_eq_refl, unfolded core_eq_def]
  core_eq_LogChildExit [OF core_eq_refl, unfolded core_eq_def]
  core_eq_tick [OF core_eq_refl, unfolded core_eq_def]
  core_eq_ConfigurePostmasterWaitSet [OF core_eq_refl, unfolded core_eq_def]
  core_eq_signal_child [OF core_eq_refl, unfolded core_eq_def]
  core_eq_sigquit_child [OF core_eq_refl, unfolded core_eq_def]
  core_eq_SignalSomeChildren [OF core_eq_refl, unfolded core_eq_def]
  core_eq_SignalChildren [OF core_eq_refl, unfolded core_eq_def]
  core_eq_CountChildren [OF core_eq_refl, unfolded core_eq_def]
  core_eq_TerminateChildren [OF core_eq_refl, unfolded core_eq_def]
  core_eq_maybe_start_bgworkers [OF core_eq_refl, unfolded core_eq_def]
  core_eq_StartAutovacuumWorker [OF core_eq_refl, unfolded core_eq_def]
  core_eq_shutdown_request_mode [OF core_eq_refl, unfolded core_eq_def]

lemma binv_lower: "binv c w S x \<Longrightarrow> c' \<le> c \<Longrightarrow> binv c' w S x"
  by (simp add: binv_def)

lemma binv_reap_startup:
  assumes "binv c True loop_states x" and "StartupPID x \<noteq> 0"
  shows "binv c True loop_states (reap_startup e p st x)"
proof -
  have st: "pmState x = PM_STARTUP \<or> pmState x = PM_RECOVERY \<or> pmState x = PM_HOT_STANDBY \<or>
            pmState x = PM_WAIT_BACKENDS"
    using assms by (simp add: binv_def pids_ok_def loop_states_def) blast
  let ?P = "\<lambda>y. binv c True loop_states y \<and> StartupPID y = 0 \<and>
                (pmState y = PM_STARTUP \<or> pmState y = PM_RECOVERY \<or> pmState y = PM_HOT_STANDBY \<or>
                 pmState y = PM_WAIT_BACKENDS)"
  show ?thesis
    unfolding reap_startup_def
  proof (rule hoare_Let [where P = ?P])
    show "?P (x\<lparr>StartupPID := 0\<rparr>)" using assms(1) st by (simp add: binv_zero)
  next
    fix y
    assume y: "?P y"
    then have yb: "binv c True loop_states y" by simp
    have a: "binv c True loop_states (set_pmState PM_WAIT_BACKENDS (y\<lparr>StartupStatus := STARTUP_NOT_RUNNING\<rparr>))"
      if "0 < Shutdown y"
      by (rule binv_to_WAIT_BACKENDS [where w = True]) (use yb that in \<open>simp_all add: binv_frame\<close>)
    have b: "binv c True loop_states
               (let s = ereport_LOG ''shutdown at recovery target'' y;
                    s = s\<lparr>StartupStatus := STARTUP_NOT_RUNNING, Shutdown := max (Shutdown s) SmartShutdown\<rparr>;
                    s = TerminateChildren e SIGTERM s
                in set_pmState PM_WAIT_BACKENDS s)"
    proof -
      let ?z = "(ereport_LOG ''shutdown at recovery target'' y)\<lparr>StartupStatus := STARTUP_NOT_RUNNING,
                  Shutdown := max (Shutdown y) SmartShutdown\<rparr>"
      have "binv c True loop_states (ereport_LOG ''shutdown at recovery target'' y)"
        using yb by (rule binv_frame)
      then have "binv c True loop_states ((ereport_LOG ''shutdown at recovery target'' y)\<lparr>StartupStatus := STARTUP_NOT_RUNNING\<rparr>)"
        by (rule binv_frame)
      then have "binv c True loop_states ?z"
        using binv_Shutdown_raise [of c True loop_states
                "(ereport_LOG ''shutdown at recovery target'' y)\<lparr>StartupStatus := STARTUP_NOT_RUNNING\<rparr>"
                "max (Shutdown y) SmartShutdown"]
        by (simp add: class_a_fields)
      then have "binv c True loop_states (TerminateChildren e SIGTERM ?z)" by (rule binv_frame)
      then have "binv c True loop_states (set_pmState PM_WAIT_BACKENDS (TerminateChildren e SIGTERM ?z))"
        by (rule binv_to_WAIT_BACKENDS [where w = True]) (simp add: class_a_fields max_def)
      then show ?thesis by (simp add: Let_def class_a_fields)
    qed
    have c: "binv c True loop_states
               (ExitPostmaster 1 (ereport_LOG ''aborting startup due to startup process failure''
                  (LogChildExit True ''startup process'' p st y)))"
      by (intro binv_ExitPostmaster binv_frame yb)
    have d: "binv c True loop_states
               (let s = (if StartupStatus y = STARTUP_SIGNALED then
                    (let s = y\<lparr>StartupStatus := STARTUP_NOT_RUNNING\<rparr> in
                     if pmState s = PM_STARTUP then set_pmState PM_WAIT_BACKENDS s else s)
                  else y\<lparr>StartupStatus := STARTUP_CRASHED\<rparr>)
                in HandleChildCrash e p st ''startup process'' s)"
    proof (rule hoare_Let [where P = "binv c False loop_states"])
      show "binv c False loop_states
              (if StartupStatus y = STARTUP_SIGNALED then
                    (let s = y\<lparr>StartupStatus := STARTUP_NOT_RUNNING\<rparr> in
                     if pmState s = PM_STARTUP then set_pmState PM_WAIT_BACKENDS s else s)
                  else y\<lparr>StartupStatus := STARTUP_CRASHED\<rparr>)"
        using yb
        by (auto simp add: Let_def intro!: binv_to_WAIT_BACKENDS [where w = True and w' = False] binv_frame binv_weaken)
    next
      fix z assume "binv c False loop_states z"
      then show "binv c True loop_states (HandleChildCrash e p st ''startup process'' z)"
        by (rule binv_HandleChildCrash)
    qed
    have f: "binv c True loop_states
         (let s = y\<lparr>StartupStatus := STARTUP_NOT_RUNNING, FatalError := False, AbortStartTime := 0,
                   ReachedNormalRunning := True\<rparr>;
             s = set_pmState PM_RUN s;
             s = s\<lparr>connsAllowed := True\<rparr>;
             s = (if CheckpointerPID s = 0 then
                    (let (q, s) = StartChildProcess e B_CHECKPOINTER s in s\<lparr>CheckpointerPID := q\<rparr>)
                  else s);
             s = (if BgWriterPID s = 0 then
                    (let (q, s) = StartChildProcess e B_BG_WRITER s in s\<lparr>BgWriterPID := q\<rparr>)
                  else s);
             s = (if WalWriterPID s = 0 then
                    (let (q, s) = StartChildProcess e B_WAL_WRITER s in s\<lparr>WalWriterPID := q\<rparr>)
                  else s);
             s = MaybeStartWalSummarizer e s;
             s = (if \<not> IsBinaryUpgrade e \<and> AutoVacuumingActive e \<and> AutoVacPID s = 0 then
                    (let (q, s) = StartChildProcess e B_AUTOVAC_LAUNCHER s in s\<lparr>AutoVacPID := q\<rparr>)
                  else s);
             s = (if PgArchStartupAllowed e s \<and> PgArchPID s = 0 then
                    (let (q, s) = StartChildProcess e B_ARCHIVER s in s\<lparr>PgArchPID := q\<rparr>)
                  else s);
             s = MaybeStartSlotSyncWorker e s;
             s = maybe_start_bgworkers e s
         in ereport_LOG ''database system is ready to accept connections'' s)"
    proof (rule hoare_Let [where P = "\<lambda>z. z = y\<lparr>StartupStatus := STARTUP_NOT_RUNNING, FatalError := False,
              AbortStartTime := 0, ReachedNormalRunning := True\<rparr>"], simp,
           rule hoare_Let [where P = "binv c True {PM_RUN}"])
      fix z assume z: "z = y\<lparr>StartupStatus := STARTUP_NOT_RUNNING, FatalError := False,
              AbortStartTime := 0, ReachedNormalRunning := True\<rparr>"
      show "binv c True {PM_RUN} (set_pmState PM_RUN z)"
        unfolding z using y by (intro binv_to_RUN [where w = True]) simp_all
    next
      fix z z' :: postmaster
      assume "binv c True {PM_RUN} z'"
      then have "binv c True {PM_RUN}
         (let s = z'\<lparr>connsAllowed := True\<rparr>;
             s = (if CheckpointerPID s = 0 then
                    (let (q, s) = StartChildProcess e B_CHECKPOINTER s in s\<lparr>CheckpointerPID := q\<rparr>)
                  else s);
             s = (if BgWriterPID s = 0 then
                    (let (q, s) = StartChildProcess e B_BG_WRITER s in s\<lparr>BgWriterPID := q\<rparr>)
                  else s);
             s = (if WalWriterPID s = 0 then
                    (let (q, s) = StartChildProcess e B_WAL_WRITER s in s\<lparr>WalWriterPID := q\<rparr>)
                  else s);
             s = MaybeStartWalSummarizer e s;
             s = (if \<not> IsBinaryUpgrade e \<and> AutoVacuumingActive e \<and> AutoVacPID s = 0 then
                    (let (q, s) = StartChildProcess e B_AUTOVAC_LAUNCHER s in s\<lparr>AutoVacPID := q\<rparr>)
                  else s);
             s = (if PgArchStartupAllowed e s \<and> PgArchPID s = 0 then
                    (let (q, s) = StartChildProcess e B_ARCHIVER s in s\<lparr>PgArchPID := q\<rparr>)
                  else s);
             s = MaybeStartSlotSyncWorker e s;
             s = maybe_start_bgworkers e s
         in ereport_LOG ''database system is ready to accept connections'' s)"
        by (rule binv_reap_startup_success)
      then show "binv c True loop_states
         (let s = z'\<lparr>connsAllowed := True\<rparr>;
             s = (if CheckpointerPID s = 0 then
                    (let (q, s) = StartChildProcess e B_CHECKPOINTER s in s\<lparr>CheckpointerPID := q\<rparr>)
                  else s);
             s = (if BgWriterPID s = 0 then
                    (let (q, s) = StartChildProcess e B_BG_WRITER s in s\<lparr>BgWriterPID := q\<rparr>)
                  else s);
             s = (if WalWriterPID s = 0 then
                    (let (q, s) = StartChildProcess e B_WAL_WRITER s in s\<lparr>WalWriterPID := q\<rparr>)
                  else s);
             s = MaybeStartWalSummarizer e s;
             s = (if \<not> IsBinaryUpgrade e \<and> AutoVacuumingActive e \<and> AutoVacPID s = 0 then
                    (let (q, s) = StartChildProcess e B_AUTOVAC_LAUNCHER s in s\<lparr>AutoVacPID := q\<rparr>)
                  else s);
             s = (if PgArchStartupAllowed e s \<and> PgArchPID s = 0 then
                    (let (q, s) = StartChildProcess e B_ARCHIVER s in s\<lparr>PgArchPID := q\<rparr>)
                  else s);
             s = MaybeStartSlotSyncWorker e s;
             s = maybe_start_bgworkers e s
         in ereport_LOG ''database system is ready to accept connections'' s)"
        by (rule binv_subset) (simp add: loop_states_def)
    qed
    show "binv c True loop_states
           (if NoShutdown < Shutdown y \<and> (EXIT_STATUS_0 st \<or> EXIT_STATUS_1 st) then
              set_pmState PM_WAIT_BACKENDS (y\<lparr>StartupStatus := STARTUP_NOT_RUNNING\<rparr>)
            else if EXIT_STATUS_3 st then
              (let s = ereport_LOG ''shutdown at recovery target'' y;
                   s = s\<lparr>StartupStatus := STARTUP_NOT_RUNNING, Shutdown := max (Shutdown s) SmartShutdown\<rparr>;
                   s = TerminateChildren e SIGTERM s
               in set_pmState PM_WAIT_BACKENDS s)
            else if pmState y = PM_STARTUP \<and> StartupStatus y \<noteq> STARTUP_SIGNALED \<and>
                    \<not> EXIT_STATUS_0 st then
              ExitPostmaster 1
                (ereport_LOG ''aborting startup due to startup process failure''
                   (LogChildExit True ''startup process'' p st y))
            else if \<not> EXIT_STATUS_0 st then
              (let s = (if StartupStatus y = STARTUP_SIGNALED then
                          (let s = y\<lparr>StartupStatus := STARTUP_NOT_RUNNING\<rparr> in
                           if pmState s = PM_STARTUP then set_pmState PM_WAIT_BACKENDS s else s)
                        else y\<lparr>StartupStatus := STARTUP_CRASHED\<rparr>)
               in HandleChildCrash e p st ''startup process'' s)
            else
         (let s = y\<lparr>StartupStatus := STARTUP_NOT_RUNNING, FatalError := False, AbortStartTime := 0,
                   ReachedNormalRunning := True\<rparr>;
             s = set_pmState PM_RUN s;
             s = s\<lparr>connsAllowed := True\<rparr>;
             s = (if CheckpointerPID s = 0 then
                    (let (q, s) = StartChildProcess e B_CHECKPOINTER s in s\<lparr>CheckpointerPID := q\<rparr>)
                  else s);
             s = (if BgWriterPID s = 0 then
                    (let (q, s) = StartChildProcess e B_BG_WRITER s in s\<lparr>BgWriterPID := q\<rparr>)
                  else s);
             s = (if WalWriterPID s = 0 then
                    (let (q, s) = StartChildProcess e B_WAL_WRITER s in s\<lparr>WalWriterPID := q\<rparr>)
                  else s);
             s = MaybeStartWalSummarizer e s;
             s = (if \<not> IsBinaryUpgrade e \<and> AutoVacuumingActive e \<and> AutoVacPID s = 0 then
                    (let (q, s) = StartChildProcess e B_AUTOVAC_LAUNCHER s in s\<lparr>AutoVacPID := q\<rparr>)
                  else s);
             s = (if PgArchStartupAllowed e s \<and> PgArchPID s = 0 then
                    (let (q, s) = StartChildProcess e B_ARCHIVER s in s\<lparr>PgArchPID := q\<rparr>)
                  else s);
             s = MaybeStartSlotSyncWorker e s;
             s = maybe_start_bgworkers e s
         in ereport_LOG ''database system is ready to accept connections'' s))"
      using a b c d f by (intro binv_if) simp_all
  qed
qed


lemma binv_to_SHUTDOWN_2:
  assumes "binv c True loop_states x" and "pmState x = PM_SHUTDOWN" and "CheckpointerPID x = 0"
  shows "binv c True loop_states (set_pmState PM_SHUTDOWN_2 x)"
proof (rule binv_set_pmState [OF assms(1)])
  show "pids_ok (x\<lparr>pmState := PM_SHUTDOWN_2\<rparr>)"
    using assms by (simp add: binv_def pids_ok_def)
  show "why_ok (x\<lparr>pmState := PM_SHUTDOWN_2\<rparr>)"
    using assms by (simp add: binv_def why_ok_def)
qed (simp_all add: assms(2) loop_states_def)

lemma binv_reap_checkpointer:
  assumes "binv c True loop_states y" and "CheckpointerPID y = 0"
  shows "binv c True loop_states
           (if EXIT_STATUS_0 st \<and> pmState y = PM_SHUTDOWN then
              (let s = (if PgArchPID y \<noteq> 0 then signal_child e (PgArchPID y) SIGUSR2 y else y);
                   s = SignalChildren e SIGUSR2 s
               in set_pmState PM_SHUTDOWN_2 s)
            else HandleChildCrash e p st ''checkpointer process'' y)"
proof (cases "EXIT_STATUS_0 st \<and> pmState y = PM_SHUTDOWN")
  case False
  show ?thesis
    by (subst if_not_P [OF False]) (rule binv_HandleChildCrash' [OF assms(1)])
next
  case True
  let ?z = "SignalChildren e SIGUSR2 (if PgArchPID y \<noteq> 0 then signal_child e (PgArchPID y) SIGUSR2 y else y)"
  have ce: "core_eq y ?z"
    by (intro core_eq_SignalChildren core_eq_if core_eq_signal_child core_eq_refl)
  have "binv c True loop_states ?z" using ce assms(1) by (rule binv_core_eq)
  moreover have "pmState ?z = PM_SHUTDOWN" "CheckpointerPID ?z = 0"
    using ce True assms(2) by (simp_all add: core_eq_def)
  ultimately have "binv c True loop_states (set_pmState PM_SHUTDOWN_2 ?z)"
    by (rule binv_to_SHUTDOWN_2)
  then show ?thesis using True by (simp add: Let_def)
qed

lemma binv_reap_other:
  assumes "binv c True loop_states x"
  shows "binv c True loop_states
           (case CleanupBackgroundWorker e p st x of
              (True, s) \<Rightarrow> s\<lparr>HaveCrashedWorker := True\<rparr>
            | (False, s) \<Rightarrow> CleanupBackend e p st s)"
proof -
  obtain b y where r: "CleanupBackgroundWorker e p st x = (b, y)"
    by (cases "CleanupBackgroundWorker e p st x") auto
  have "binv c True loop_states y"
    using binv_CleanupBackgroundWorker [OF assms, of e p st] r by simp
  then show ?thesis
    by (cases b) (simp_all add: r binv_frame binv_CleanupBackend)
qed

lemma binv_reap_child:
  assumes "binv c True loop_states x" and "p \<noteq> 0"
  shows "binv c True loop_states (reap_child e p st x)"
  unfolding reap_child_def
  apply (intro binv_if)
  subgoal using assms by (simp add: binv_reap_startup)
  subgoal using assms(1) by (intro binv_Let binv_if binv_zero binv_HandleChildCrash') simp_all
  subgoal
    apply (rule hoare_Let [where P = "\<lambda>y. binv c True loop_states y \<and> CheckpointerPID y = 0"])
    subgoal using assms(1) by (simp add: binv_zero)
    subgoal for y by (simp add: binv_reap_checkpointer)
    done
  subgoal using assms(1) by (intro binv_Let binv_if binv_zero binv_HandleChildCrash') simp_all
  subgoal using assms(1) by (intro binv_Let binv_if binv_zero binv_HandleChildCrash') simp_all
  subgoal using assms(1) by (intro binv_Let binv_if binv_zero binv_HandleChildCrash') simp_all
  subgoal using assms(1) by (intro binv_Let binv_if binv_zero binv_HandleChildCrash') simp_all
  subgoal using assms(1)
    unfolding Let_def [of "StartChildProcess e ty z" for ty z]
    by (intro binv_Let binv_if binv_zero binv_HandleChildCrash' binv_start_PgArch) simp_all
  subgoal using assms(1) by (intro binv_Let binv_frame) simp_all
  subgoal using assms(1) by (intro binv_Let binv_if binv_zero binv_HandleChildCrash') simp_all
  subgoal using assms(1) by (rule binv_reap_other)
  done

lemma binv_process_pm_child_exit_loop:
  "binv c True loop_states x \<Longrightarrow> binv c True loop_states (process_pm_child_exit_loop e reaped x)"
proof (induction reaped arbitrary: x)
  case Nil
  then show ?case by simp
next
  case (Cons r rest)
  obtain p st where r: "r = (p, st)" by (cases r) auto
  show ?case
    using Cons.prems Cons.IH [of "reap_child e p st x"] binv_reap_child [of c x p e st]
    by (auto simp add: r Let_def)
qed

section \<open>The invariant through the state machine\<close>

lemma minv_core_eq:
  "core_eq x y \<Longrightarrow> minv c x \<Longrightarrow> pmState x \<noteq> PM_NO_CHILDREN \<or> BackendList y = [] \<Longrightarrow> minv c y"
  by (auto simp add: minv_def core_eq_def inv_defs)

lemma minv_set_pmState:
  "minv c x \<Longrightarrow> t \<noteq> PM_STARTUP \<Longrightarrow> t \<noteq> PM_INIT \<Longrightarrow>
   pmState x = t \<or> pm_edge (pmState x) t \<Longrightarrow>
   pids_ok (x\<lparr>pmState := t\<rparr>) \<Longrightarrow> why_ok (x\<lparr>pmState := t\<rparr>) \<Longrightarrow> nc_ok (x\<lparr>pmState := t\<rparr>) \<Longrightarrow>
   minv c (set_pmState t x)"
  by (auto simp add: minv_def inv_defs set_pmState_def pm_path_snoc count_list_snoc)

lemma minv_PostmasterStateMachine_smart:
  assumes "minv c x"
  shows "minv c (PostmasterStateMachine_smart e x)"
proof (cases "(pmState x = PM_RUN \<or> pmState x = PM_HOT_STANDBY) \<and> \<not> connsAllowed x \<and>
              fst (CountChildren e BACKEND_TYPE_NORMAL x) = 0")
  case True
  let ?y = "snd (CountChildren e BACKEND_TYPE_NORMAL x)"
  have ce: "core_eq x ?y" by (intro core_eq_CountChildren core_eq_refl)
  have my: "minv c ?y" using ce assms True by (auto intro: minv_core_eq)
  have f: "pmState ?y = pmState x" "Shutdown ?y = Shutdown x" "connsAllowed ?y = connsAllowed x"
    using ce by (simp_all add: core_eq_def)
  have "minv c (set_pmState PM_STOP_BACKENDS ?y)"
  proof (rule minv_set_pmState [OF my])
    show "pmState ?y = PM_STOP_BACKENDS \<or> pm_edge (pmState ?y) PM_STOP_BACKENDS"
      using True f by auto
    show "pids_ok (?y\<lparr>pmState := PM_STOP_BACKENDS\<rparr>)" by (simp add: pids_ok_def)
    show "why_ok (?y\<lparr>pmState := PM_STOP_BACKENDS\<rparr>)"
      using my True f by (simp add: why_ok_def minv_def conns_ok_def)
    show "nc_ok (?y\<lparr>pmState := PM_STOP_BACKENDS\<rparr>)" by (simp add: nc_ok_def)
  qed simp_all
  then show ?thesis using True by (auto simp add: PostmasterStateMachine_smart_def split_beta)
next
  case False
  let ?y = "snd (CountChildren e BACKEND_TYPE_NORMAL x)"
  have ce: "core_eq x ?y" by (intro core_eq_CountChildren core_eq_refl)
  have "pmState x \<noteq> PM_NO_CHILDREN \<Longrightarrow> minv c ?y" using ce assms by (auto intro: minv_core_eq)
  then show ?thesis using False assms
    by (auto simp add: PostmasterStateMachine_smart_def split_beta)
qed


lemma minv_binv: "minv c x \<Longrightarrow> pmState x \<in> S \<Longrightarrow> binv c True S x"
  by (simp add: minv_def binv_def)

lemma binv_minv': "binv c True S x \<Longrightarrow> PM_NO_CHILDREN \<notin> S \<Longrightarrow> minv c x"
  by (auto simp add: minv_def binv_def nc_ok_def)

lemma minv_PostmasterStateMachine_stop_backends:
  assumes "minv c x"
  shows "minv c (PostmasterStateMachine_stop_backends e x)"
proof (cases "pmState x = PM_STOP_BACKENDS")
  case False
  then show ?thesis using assms by (simp add: PostmasterStateMachine_stop_backends_def)
next
  case True
  let ?S = "{PM_STOP_BACKENDS, PM_WAIT_BACKENDS}"
  have b: "binv c True ?S x" using assms True by (simp add: minv_binv)
  have s: "binv c True ?S (set_pmState PM_WAIT_BACKENDS y)" if "binv c True ?S y" for y
  proof (rule binv_set_pmState [OF that])
    show "pmState y = PM_WAIT_BACKENDS \<or> pm_edge (pmState y) PM_WAIT_BACKENDS"
      using that by (auto simp add: binv_def)
    show "pids_ok (y\<lparr>pmState := PM_WAIT_BACKENDS\<rparr>)" by (simp add: pids_ok_def)
    show "why_ok (y\<lparr>pmState := PM_WAIT_BACKENDS\<rparr>)"
      using that by (auto simp add: binv_def why_ok_def)
  qed simp_all
  have "binv c True ?S (PostmasterStateMachine_stop_backends e x)"
    unfolding PostmasterStateMachine_stop_backends_def split_beta
    using b True
    by (simp only: if_True) (intro binv_Let binv_Let_val binv_if binv_frame s; assumption)
  then show ?thesis by (rule binv_minv') simp
qed


lemma minv_moved:
  assumes "minv c x"
      and "pmState_log y = pmState_log x @ [t]" and "pmState y = t"
      and "pmState x = t \<or> pm_edge (pmState x) t" and "t \<noteq> PM_STARTUP"
      and "Shutdown y = Shutdown x" and "connsAllowed y = connsAllowed x"
      and "exited y = exited x" and "shmem_creations y = shmem_creations x"
      and "pids_ok y" and "why_ok y" and "nc_ok y"
  shows "minv c y"
  using assms
  by (simp add: minv_def log_ok_def conns_ok_def shmem_ok_def pm_path_snoc count_list_snoc)

lemma minv_PostmasterStateMachine_wait_backends:
  assumes "minv c x"
  shows "minv c (PostmasterStateMachine_wait_backends e x)"
proof (cases "pmState x = PM_WAIT_BACKENDS")
  case False
  then show ?thesis using assms by (simp add: PostmasterStateMachine_wait_backends_def)
next
  case wb: True
  define y where "y = snd (CountChildren e (BACKEND_TYPE_ALL - BACKEND_TYPE_WALSND) x)"
  define G where "G \<longleftrightarrow> fst (CountChildren e (BACKEND_TYPE_ALL - BACKEND_TYPE_WALSND) x) = 0 \<and>
            StartupPID y = 0 \<and> WalReceiverPID y = 0 \<and> WalSummarizerPID y = 0 \<and>
            BgWriterPID y = 0 \<and>
            (CheckpointerPID y = 0 \<or> (\<not> FatalError y \<and> Shutdown y < ImmediateShutdown)) \<and>
            WalWriterPID y = 0 \<and> AutoVacPID y = 0 \<and> SlotSyncWorkerPID y = 0"
  have ce: "core_eq x y" unfolding y_def by (intro core_eq_CountChildren core_eq_refl)
  have my: "minv c y" using ce assms wb by (auto intro: minv_core_eq)
  have py: "pmState y = PM_WAIT_BACKENDS" using ce wb by (simp add: core_eq_def)
  have wy: "0 < Shutdown y \<or> FatalError y" using my py by (simp add: minv_def why_ok_def)
  have eq: "PostmasterStateMachine_wait_backends e x =
     (if G then
           (if Shutdown y \<ge> ImmediateShutdown \<or> FatalError y then set_pmState PM_WAIT_DEAD_END y
            else
              (let s = (if CheckpointerPID y = 0 then
                          (let (p, s) = StartChildProcess e B_CHECKPOINTER y in s\<lparr>CheckpointerPID := p\<rparr>)
                        else y)
               in if CheckpointerPID s \<noteq> 0 then
                    set_pmState PM_SHUTDOWN (signal_child e (CheckpointerPID s) SIGUSR2 s)
                  else
                    (let s = set_pmState PM_WAIT_DEAD_END (s\<lparr>FatalError := True\<rparr>);
                         s = SignalChildren e SIGQUIT s
                     in if PgArchPID s \<noteq> 0 then signal_child e (PgArchPID s) SIGQUIT s else s)))
         else y)"
    unfolding PostmasterStateMachine_wait_backends_def G_def y_def using wb
    by (simp add: split_beta Let_def)
  show ?thesis
  proof (cases G)
    case False
    then have "PostmasterStateMachine_wait_backends e x = y"
      by (simp add: eq)
    then show ?thesis using my by simp
  next
    case g: True
    then have z7: "StartupPID y = 0" "WalReceiverPID y = 0" "WalSummarizerPID y = 0" "BgWriterPID y = 0"
      "WalWriterPID y = 0" "AutoVacPID y = 0" "SlotSyncWorkerPID y = 0"
      and ck: "CheckpointerPID y = 0 \<or> (\<not> FatalError y \<and> Shutdown y < ImmediateShutdown)"
      by (simp_all add: G_def)
    show ?thesis
    proof (cases "Shutdown y \<ge> ImmediateShutdown \<or> FatalError y")
      case True
      then have r: "PostmasterStateMachine_wait_backends e x = set_pmState PM_WAIT_DEAD_END y"
        using g by (simp add: eq)
      have "CheckpointerPID y = 0" using ck True by auto
      then have "minv c (set_pmState PM_WAIT_DEAD_END y)"
        using z7 True py
        by (intro minv_moved [OF my, where t = PM_WAIT_DEAD_END])
           (auto simp add: set_pmState_def pids_ok_def why_ok_def nc_ok_def)
      then show ?thesis by (simp add: r)
    next
      case no: False
      obtain q z where scp: "StartChildProcess e B_CHECKPOINTER y = (q, z)"
        by (cases "StartChildProcess e B_CHECKPOINTER y") auto
      have cz: "core_eq y z"
        using core_eq_StartChildProcess [of B_CHECKPOINTER y y e] scp by simp
      define y' where "y' = (if CheckpointerPID y = 0 then z\<lparr>CheckpointerPID := q\<rparr> else y)"
      have f: "pmState y' = PM_WAIT_BACKENDS" "pmState_log y' = pmState_log y" "Shutdown y' = Shutdown y"
        "FatalError y' = FatalError y" "connsAllowed y' = connsAllowed y" "exited y' = exited y"
        "shmem_creations y' = shmem_creations y"
        "StartupPID y' = 0" "WalReceiverPID y' = 0" "WalSummarizerPID y' = 0" "BgWriterPID y' = 0"
        "WalWriterPID y' = 0" "AutoVacPID y' = 0" "SlotSyncWorkerPID y' = 0"
        using cz py z7 by (simp_all add: y'_def core_eq_def)
      have sd: "0 < Shutdown y" using wy no by auto
      define s2 where "s2 = SignalChildren e SIGQUIT (set_pmState PM_WAIT_DEAD_END (y'\<lparr>FatalError := True\<rparr>))"
      define R where "R = (if PgArchPID s2 \<noteq> 0 then signal_child e (PgArchPID s2) SIGQUIT s2 else s2)"
      have eq2: "PostmasterStateMachine_wait_backends e x =
                   (if CheckpointerPID y' \<noteq> 0
                    then set_pmState PM_SHUTDOWN (signal_child e (CheckpointerPID y') SIGUSR2 y')
                    else R)"
        using g no unfolding y'_def R_def s2_def by (simp add: eq Let_def scp)
      show ?thesis
      proof (cases "CheckpointerPID y' \<noteq> 0")
        case True
        have "minv c (set_pmState PM_SHUTDOWN (signal_child e (CheckpointerPID y') SIGUSR2 y'))"
          using f sd py
          by (intro minv_moved [OF my, where t = PM_SHUTDOWN])
             (simp_all add: set_pmState_def class_a_fields pids_ok_def why_ok_def nc_ok_def)
        then show ?thesis using True by (simp add: eq2)
      next
        case False
        have "minv c R"
          using f False py
          by (intro minv_moved [OF my, where t = PM_WAIT_DEAD_END])
             (simp_all add: R_def s2_def set_pmState_def class_a_fields pids_ok_def why_ok_def nc_ok_def)
        then show ?thesis using False by (simp add: eq2)
      qed
    qed
  qed
qed


lemma minv_PostmasterStateMachine_shutdown_2:
  assumes "minv c x"
  shows "minv c (PostmasterStateMachine_shutdown_2 e x)"
proof (cases "pmState x = PM_SHUTDOWN_2 \<and> PgArchPID x = 0 \<and> fst (CountChildren e BACKEND_TYPE_ALL x) = 0")
  case False
  then show ?thesis using assms by (auto simp add: PostmasterStateMachine_shutdown_2_def)
next
  case True
  have "minv c (set_pmState PM_WAIT_DEAD_END x)"
    using assms True
    by (intro minv_moved [OF assms, where t = PM_WAIT_DEAD_END])
       (simp_all add: set_pmState_def minv_def pids_ok_def why_ok_def nc_ok_def)
  then show ?thesis using True by (simp add: PostmasterStateMachine_shutdown_2_def)
qed

lemma minv_PostmasterStateMachine_wait_dead_end:
  assumes "minv c x"
  shows "minv c (PostmasterStateMachine_wait_dead_end e x)"
proof (cases "pmState x = PM_WAIT_DEAD_END")
  case False
  then show ?thesis using assms by (simp add: PostmasterStateMachine_wait_dead_end_def)
next
  case wd: True
  let ?y = "ConfigurePostmasterWaitSet False x"
  have my: "minv c ?y"
    using assms wd by (auto intro: minv_core_eq [OF core_eq_ConfigurePostmasterWaitSet [OF core_eq_refl]])
  show ?thesis
  proof (cases "BackendList x = [] \<and> PgArchPID x = 0")
    case False
    then show ?thesis using wd my
      by (auto simp add: PostmasterStateMachine_wait_dead_end_def Let_def ConfigurePostmasterWaitSet_def)
  next
    case True
    have "minv c (set_pmState PM_NO_CHILDREN ?y)"
      using assms True wd
      by (intro minv_moved [OF my, where t = PM_NO_CHILDREN])
         (simp_all add: set_pmState_def ConfigurePostmasterWaitSet_def minv_def pids_ok_def why_ok_def
            nc_ok_def)
    then show ?thesis using True wd
      by (simp add: PostmasterStateMachine_wait_dead_end_def Let_def ConfigurePostmasterWaitSet_def)
  qed
qed

lemmas StartChildProcess_fields =
  core_eq_StartChildProcess [OF _ core_eq_refl, unfolded core_eq_def]

lemma pmState_Let: "(\<And>x. pmState (b x) = t) \<Longrightarrow> pmState (Let a b) = t"
  by simp

lemma pmState_PostmasterStateMachine_stop_backends:
  "pmState (PostmasterStateMachine_stop_backends e x) \<noteq> PM_STOP_BACKENDS"
proof (cases "pmState x = PM_STOP_BACKENDS")
  case False
  then show ?thesis by (simp add: PostmasterStateMachine_stop_backends_def)
next
  case True
  have "pmState (PostmasterStateMachine_stop_backends e x) = PM_WAIT_BACKENDS"
    unfolding PostmasterStateMachine_stop_backends_def split_beta
    by (subst if_P [OF True]) (intro pmState_Let, simp add: set_pmState_def)
  then show ?thesis by simp
qed

lemma pmState_PostmasterStateMachine_blocks:
  "pmState x \<noteq> PM_STOP_BACKENDS \<Longrightarrow> pmState (PostmasterStateMachine_wait_backends e x) \<noteq> PM_STOP_BACKENDS"
  "pmState x \<noteq> PM_STOP_BACKENDS \<Longrightarrow> pmState (PostmasterStateMachine_shutdown_2 e x) \<noteq> PM_STOP_BACKENDS"
  "pmState x \<noteq> PM_STOP_BACKENDS \<Longrightarrow> pmState (PostmasterStateMachine_wait_dead_end e x) \<noteq> PM_STOP_BACKENDS"
  by (simp_all add: PostmasterStateMachine_wait_backends_def PostmasterStateMachine_shutdown_2_def
        PostmasterStateMachine_wait_dead_end_def Let_def split_beta set_pmState_def class_a_fields
        StartChildProcess_fields)

lemma tracked_children_none:
  "pids_ok x \<Longrightarrow> nc_ok x \<Longrightarrow> pmState x = PM_NO_CHILDREN \<Longrightarrow> tracked_children x = []"
  by (simp add: pids_ok_def nc_ok_def tracked_children_def)

lemma minv_exit: "minv c x \<Longrightarrow> minv c (ExitPostmaster k x)"
  by (simp add: minv_def inv_defs ExitPostmaster_def) blast

lemma minv_ereport_LOG: "minv c x \<Longrightarrow> minv c (ereport_LOG m x)"
  by (simp add: minv_def inv_defs ereport_LOG_def)

lemma run_ok_exited: "minv c x \<Longrightarrow> exited x \<noteq> None \<Longrightarrow> run_ok c x"
  by (auto simp add: run_ok_def)

lemma exited_ExitPostmaster [simp]: "exited (ExitPostmaster k x) = Some k"
  by (simp add: ExitPostmaster_def)

lemma minv_reinit:
  assumes "minv c x" and "pmState x = PM_NO_CHILDREN" and "FatalError x" and "exited x = None"
      and "restart_after_crash e"
  shows "run_ok c (PostmasterStateMachine_reinit e x)"
proof -
  have tc: "tracked_children x = []"
    using assms(1,2) by (simp add: minv_def tracked_children_none)
  define z where "z = CreateSharedMemoryAndSemaphores e
     ((ereport_LOG ''all server processes terminated; reinitializing'' x)
        \<lparr>BackgroundWorkerList := ResetBackgroundWorkerCrashTimes e
           (BackgroundWorkerList (ereport_LOG ''all server processes terminated; reinitializing'' x))\<rparr>)"
  have zf: "pmState z = PM_NO_CHILDREN" "pmState_log z = pmState_log x" "Shutdown z = Shutdown x"
    "FatalError z" "connsAllowed z = connsAllowed x" "exited z = None"
    "shmem_creations z = shmem_creations x @ [(PM_NO_CHILDREN, True, True, [])]"
    "StartupPID z = 0" "BgWriterPID z = 0" "WalWriterPID z = 0" "WalReceiverPID z = 0"
    "WalSummarizerPID z = 0" "AutoVacPID z = 0" "SlotSyncWorkerPID z = 0" "CheckpointerPID z = 0"
    "BackendList z = []" "PgArchPID z = 0"
    using assms tc
    by (simp_all add: z_def CreateSharedMemoryAndSemaphores_def ereport_LOG_def tracked_children_def
          minv_def pids_ok_def nc_ok_def)
  have sx: "shmem_creations x \<noteq> []" "length (shmem_creations x) = count_list (pmState_log x) PM_STARTUP"
    "case shmem_creations x of [] \<Rightarrow> False
      | c # cs \<Rightarrow> fst c = PM_INIT \<and> \<not> fst (snd c) \<and> snd (snd (snd c)) = [] \<and>
                 (\<forall>x\<in>set cs. x = (PM_NO_CHILDREN, True, True, []))"
    using assms(1,4) by (auto simp add: minv_def shmem_ok_def split: list.splits)
  have sz: "case shmem_creations z of [] \<Rightarrow> False
      | c # cs \<Rightarrow> fst c = PM_INIT \<and> \<not> fst (snd c) \<and> snd (snd (snd c)) = [] \<and>
                 (\<forall>x\<in>set cs. x = (PM_NO_CHILDREN, True, True, []))"
    using sx by (auto simp add: zf split: list.splits)
  have lx: "pmState_log x \<noteq> []" "last (pmState_log x) = PM_NO_CHILDREN" "pm_path (pmState_log x)"
    "0 \<le> Shutdown x" "\<not> connsAllowed x \<longrightarrow> 0 < Shutdown x" "c \<le> Shutdown x"
    using assms(1,2) by (simp_all add: minv_def log_ok_def conns_ok_def)
  show ?thesis
  proof (cases "postmaster_child_launch e (env_calls z) < 0")
    case True
    then have r: "PostmasterStateMachine_reinit e x =
                    ExitPostmaster 1 (ereport_LOG ''could not fork process: %m'' (tick z))"
      using assms(2,3)
      by (simp add: PostmasterStateMachine_reinit_def Let_def split_beta StartChildProcess_def
            z_def [symmetric])
    have "minv c (ExitPostmaster 1 (ereport_LOG ''could not fork process: %m'' (tick z)))"
      using zf sz sx lx
      by (simp add: minv_def inv_defs ExitPostmaster_def ereport_LOG_def tick_def)
    then show ?thesis unfolding r by (rule run_ok_exited) simp
  next
    case False
    define q where "q = postmaster_child_launch e (env_calls z)"
    define R where "R = ConfigurePostmasterWaitSet True
       ((set_pmState PM_STARTUP ((tick z)\<lparr>StartupPID := q, StartupStatus := STARTUP_RUNNING\<rparr>))
          \<lparr>AbortStartTime := 0\<rparr>)"
    have r: "PostmasterStateMachine_reinit e x = R"
      using assms(2,3) False zf(6)
      by (simp add: PostmasterStateMachine_reinit_def Let_def split_beta StartChildProcess_def
            z_def [symmetric] R_def q_def tick_def)
    have "minv c R"
      using zf sz sx lx
      by (simp add: R_def minv_def inv_defs ConfigurePostmasterWaitSet_def set_pmState_def tick_def
            pm_path_snoc count_list_snoc)
    moreover have "pmState R \<in> loop_states"
      by (simp add: R_def ConfigurePostmasterWaitSet_def set_pmState_def loop_states_def)
    ultimately show ?thesis by (simp add: r run_ok_def)
  qed
qed

lemma run_ok_PostmasterStateMachine_no_children:
  assumes "minv c x" and "pmState x \<noteq> PM_STOP_BACKENDS"
  shows "run_ok c (PostmasterStateMachine_no_children e x)"
proof (cases "pmState x = PM_NO_CHILDREN")
  case False
  then have "PostmasterStateMachine_no_children e x = x"
    by (simp add: PostmasterStateMachine_no_children_def PostmasterStateMachine_exit_on_shutdown_def
          PostmasterStateMachine_exit_no_restart_def PostmasterStateMachine_reinit_def unless_exited_def)
  moreover have "pmState x \<in> loop_states"
    using False assms by (cases "pmState x") (simp_all add: loop_states_def minv_def pids_ok_def)
  ultimately show ?thesis using assms(1) by (simp add: run_ok_def)
next
  case nc: True
  have wf: "0 < Shutdown x \<or> FatalError x" using assms(1) nc by (simp add: minv_def why_ok_def)
  note defs = PostmasterStateMachine_no_children_def PostmasterStateMachine_exit_on_shutdown_def
    PostmasterStateMachine_exit_no_restart_def unless_exited_def
  show ?thesis
  proof (cases "0 < Shutdown x")
    case True
    have "run_ok c (ExitPostmaster k y)" if "minv c y" for k y
      using that by (intro run_ok_exited minv_exit) simp_all
    then show ?thesis using True nc assms(1)
      by (simp add: defs minv_ereport_LOG)
  next
    case ns: False
    then have fe: "FatalError x" using wf by simp
    show ?thesis
    proof (cases "exited x")
      case (Some k)
      then show ?thesis using assms(1) nc ns
        by (simp add: defs run_ok_exited)
    next
      case ex: None
      show ?thesis
      proof (cases "StartupStatus x = STARTUP_CRASHED \<or> \<not> restart_after_crash e")
        case True
        have "run_ok c (ExitPostmaster k y)" if "minv c y" for k y
          using that by (intro run_ok_exited minv_exit) simp_all
        then show ?thesis using True nc ns ex assms(1)
          by (auto simp add: defs minv_ereport_LOG)
      next
        case False
        then have "PostmasterStateMachine_no_children e x = PostmasterStateMachine_reinit e x"
          using nc ns ex by (simp add: defs)
        then show ?thesis
          using minv_reinit [OF assms(1) nc fe ex, of e] False by simp
      qed
    qed
  qed
qed


lemma PostmasterStateMachine_blocks:
  "PostmasterStateMachine e x =
     PostmasterStateMachine_no_children e
       (PostmasterStateMachine_wait_dead_end e
          (PostmasterStateMachine_shutdown_2 e
             (PostmasterStateMachine_wait_backends e
                (PostmasterStateMachine_stop_backends e
                   (PostmasterStateMachine_smart e x)))))"
  by (simp add: PostmasterStateMachine_def PostmasterStateMachine_no_children_def Let_def)

lemma run_ok_PostmasterStateMachine:
  assumes "minv c x"
  shows "run_ok c (PostmasterStateMachine e x)"
  unfolding PostmasterStateMachine_blocks
  by (intro run_ok_PostmasterStateMachine_no_children minv_PostmasterStateMachine_wait_dead_end
        minv_PostmasterStateMachine_shutdown_2 minv_PostmasterStateMachine_wait_backends
        minv_PostmasterStateMachine_stop_backends minv_PostmasterStateMachine_smart assms
        pmState_PostmasterStateMachine_blocks pmState_PostmasterStateMachine_stop_backends)

lemma run_ok_process_pm_child_exit:
  assumes "binv c True loop_states x"
  shows "run_ok c (process_pm_child_exit e reaped x)"
proof -
  let ?y = "process_pm_child_exit_loop e reaped (x\<lparr>pending_pm_child_exit := False\<rparr>)"
  have b: "binv c True loop_states ?y"
    by (intro binv_process_pm_child_exit_loop binv_frame assms)
  show ?thesis
    using b run_ok_PostmasterStateMachine [OF binv_minv [OF b], of e] binv_run_ok [OF b]
    by (simp add: process_pm_child_exit_def Let_def unless_exited_def)
qed

section \<open>The handlers of the server loop keep the invariant\<close>

lemma binv_pos: "binv c w S x \<Longrightarrow> 0 < c \<Longrightarrow> 0 < Shutdown x"
  by (simp add: binv_def)

lemma minv_lower: "minv c x \<Longrightarrow> c' \<le> c \<Longrightarrow> minv c' x"
  by (simp add: minv_def)

lemma run_ok_lower: "run_ok c x \<Longrightarrow> c' \<le> c \<Longrightarrow> run_ok c' x"
  using minv_lower [of c x c'] by (simp add: run_ok_def)

lemma binv_connsAllowed_False:
  "binv c w S x \<Longrightarrow> 0 < Shutdown x \<Longrightarrow> binv c w S (x\<lparr>connsAllowed := False\<rparr>)"
  by (simp add: binv_def inv_defs)

lemma binv_Shutdown_set:
  assumes "binv c True loop_states x" and "Shutdown x < m"
  shows "binv m True loop_states (x\<lparr>Shutdown := m\<rparr>)"
proof -
  have "binv c True loop_states (x\<lparr>Shutdown := m\<rparr>)"
    using assms by (intro binv_Shutdown_raise) simp_all
  then show ?thesis by (simp add: binv_def)
qed

lemma minv_to_STOP_BACKENDS:
  assumes "binv c True loop_states x" and "0 < Shutdown x"
      and "pmState x = PM_STARTUP \<or> pmState x = PM_RECOVERY \<or> pmState x = PM_RUN \<or>
           pmState x = PM_HOT_STANDBY"
  shows "minv c (set_pmState PM_STOP_BACKENDS x)"
proof (rule minv_set_pmState [OF binv_minv [OF assms(1)]])
  show "pmState x = PM_STOP_BACKENDS \<or> pm_edge (pmState x) PM_STOP_BACKENDS"
    using assms(3) by auto
  show "pids_ok (x\<lparr>pmState := PM_STOP_BACKENDS\<rparr>)" by (simp add: pids_ok_def)
  show "why_ok (x\<lparr>pmState := PM_STOP_BACKENDS\<rparr>)" using assms(2) by (simp add: why_ok_def)
  show "nc_ok (x\<lparr>pmState := PM_STOP_BACKENDS\<rparr>)" by (simp add: nc_ok_def)
qed simp_all

lemma run_ok_process_pm_shutdown_request:
  assumes "binv c True loop_states x"
  shows "run_ok c (process_pm_shutdown_request e x)"
proof -
  obtain m y where r: "shutdown_request_mode x = (m, y)" by (cases "shutdown_request_mode x") auto
  have ce: "core_eq x y" using core_eq_shutdown_request_mode [OF core_eq_refl, of x] r by simp
  have yb: "binv c True loop_states y" using ce assms by (rule binv_core_eq)
  have m: "m = SmartShutdown \<or> m = FastShutdown \<or> m = ImmediateShutdown"
    using r by (auto simp add: shutdown_request_mode_def Let_def split: if_splits)
  show ?thesis
  proof (cases "Shutdown y \<ge> m")
    case True
    then have "process_pm_shutdown_request e x = y"
      using m by (auto simp add: process_pm_shutdown_request_def r)
    then show ?thesis using yb by (simp add: binv_run_ok)
  next
    case False
    then have lt: "Shutdown y < m" by simp
    have cm: "c \<le> m" using yb lt by (simp add: binv_def)
    have m0: "0 < m" using m by auto
    define y2 where "y2 msg = ereport_LOG msg (y\<lparr>Shutdown := m\<rparr>)" for msg
    have y2: "binv m True loop_states (y2 msg)" for msg
      unfolding y2_def by (intro binv_frame binv_Shutdown_set [OF yb lt])
    have p2: "0 < Shutdown (y2 msg)" for msg using y2 m0 by (rule binv_pos)
    have "run_ok m (process_pm_shutdown_request e x)"
    proof -
      consider (smart) "m = SmartShutdown" | (fast) "m = FastShutdown" | (imm) "m = ImmediateShutdown"
        using m by blast
      then show ?thesis
      proof cases
        case smart
        define z where "z = (let s = y2 ''received smart shutdown request'' in
                     if pmState s = PM_RUN \<or> pmState s = PM_HOT_STANDBY then s\<lparr>connsAllowed := False\<rparr>
                     else if pmState s = PM_STARTUP \<or> pmState s = PM_RECOVERY
                     then set_pmState PM_STOP_BACKENDS s
                     else s)"
        have eq: "process_pm_shutdown_request e x = PostmasterStateMachine e z"
          using smart lt by (simp add: process_pm_shutdown_request_def r z_def y2_def Let_def)
        have "minv m z"
          unfolding z_def Let_def
          using y2 [of "''received smart shutdown request''"] p2 [of "''received smart shutdown request''"]
          by (auto intro: binv_minv binv_connsAllowed_False minv_to_STOP_BACKENDS)
        then show ?thesis unfolding eq by (rule run_ok_PostmasterStateMachine)
      next
        case fast
        define z where "z = (let s = y2 ''received fast shutdown request'' in
                     if pmState s = PM_STARTUP \<or> pmState s = PM_RECOVERY
                     then set_pmState PM_STOP_BACKENDS s
                     else if pmState s = PM_RUN \<or> pmState s = PM_HOT_STANDBY then
                       set_pmState PM_STOP_BACKENDS (ereport_LOG ''aborting any active transactions'' s)
                     else s)"
        have eq: "process_pm_shutdown_request e x = PostmasterStateMachine e z"
          using fast lt by (simp add: process_pm_shutdown_request_def r z_def y2_def Let_def)
        have a: "minv m (set_pmState PM_STOP_BACKENDS (ereport_LOG ''aborting any active transactions'' s))"
          if "binv m True loop_states s" and "0 < Shutdown s"
             and "pmState s = PM_RUN \<or> pmState s = PM_HOT_STANDBY" for s
          using that by (intro minv_to_STOP_BACKENDS binv_frame) (simp_all add: class_a_fields)
        have "minv m z"
          unfolding z_def Let_def
          using y2 [of "''received fast shutdown request''"] p2 [of "''received fast shutdown request''"]
          by (auto intro: binv_minv a minv_to_STOP_BACKENDS)
        then show ?thesis unfolding eq by (rule run_ok_PostmasterStateMachine)
      next
        case imm
        define z where "z = (set_pmState PM_WAIT_BACKENDS
             (TerminateChildren e SIGQUIT (y2 ''received immediate shutdown request'')))
             \<lparr>AbortStartTime := time_now e\<rparr>"
        have eq: "process_pm_shutdown_request e x = PostmasterStateMachine e z"
          using imm lt by (simp add: process_pm_shutdown_request_def r z_def y2_def Let_def)
        have "binv m True loop_states (TerminateChildren e SIGQUIT (y2 ''received immediate shutdown request''))"
          by (intro binv_frame y2)
        then have "binv m True loop_states (set_pmState PM_WAIT_BACKENDS
             (TerminateChildren e SIGQUIT (y2 ''received immediate shutdown request'')))"
          by (rule binv_to_WAIT_BACKENDS) (simp add: class_a_fields p2)
        then have "binv m True loop_states z" unfolding z_def by (rule binv_frame)
        then have "minv m z" by (rule binv_minv)
        then show ?thesis unfolding eq by (rule run_ok_PostmasterStateMachine)
      qed
    qed
    then show ?thesis using cm by (rule run_ok_lower)
  qed
qed


lemma binv_start_two:
  assumes "binv c w S x"
      and "pmState x = PM_RUN \<or> pmState x = PM_RECOVERY \<or> pmState x = PM_HOT_STANDBY \<or>
           pmState x = PM_STARTUP"
  shows "binv c w S
           (let s = (if CheckpointerPID x = 0 then
                       (let (q, s) = StartChildProcess e B_CHECKPOINTER x in s\<lparr>CheckpointerPID := q\<rparr>)
                     else x)
            in if BgWriterPID s = 0 then
                 (let (q, s) = StartChildProcess e B_BG_WRITER s in s\<lparr>BgWriterPID := q\<rparr>)
               else s)"
proof -
  let ?T = "{PM_RUN, PM_RECOVERY, PM_HOT_STANDBY, PM_STARTUP}"
  have n: "binv c w (S \<inter> ?T) x" using assms by (intro binv_narrow) auto
  have st: "binv c w (S \<inter> ?T) (case StartChildProcess e ty y of (q, s) \<Rightarrow> s\<lparr>BgWriterPID := q\<rparr>)"
           "binv c w (S \<inter> ?T) (case StartChildProcess e ty y of (q, s) \<Rightarrow> s\<lparr>CheckpointerPID := q\<rparr>)"
    if "binv c w (S \<inter> ?T) y" and "ty \<noteq> B_STARTUP" for y ty
  proof -
    have p: "pmState y \<noteq> PM_SHUTDOWN" "pmState y \<noteq> PM_SHUTDOWN_2" "pmState y \<noteq> PM_WAIT_DEAD_END"
          "pmState y \<noteq> PM_NO_CHILDREN"
      using that(1) by (auto simp add: binv_def)
    show "binv c w (S \<inter> ?T) (case StartChildProcess e ty y of (q, s) \<Rightarrow> s\<lparr>BgWriterPID := q\<rparr>)"
      "binv c w (S \<inter> ?T) (case StartChildProcess e ty y of (q, s) \<Rightarrow> s\<lparr>CheckpointerPID := q\<rparr>)"
      by (rule binv_start [OF that(2) that(1) p])+
  qed
  have "binv c w (S \<inter> ?T)
           (let s = (if CheckpointerPID x = 0 then
                       (let (q, s) = StartChildProcess e B_CHECKPOINTER x in s\<lparr>CheckpointerPID := q\<rparr>)
                     else x)
            in if BgWriterPID s = 0 then
                 (let (q, s) = StartChildProcess e B_BG_WRITER s in s\<lparr>BgWriterPID := q\<rparr>)
               else s)"
    unfolding Let_def [of "StartChildProcess e ty z" for ty z]
    using n by (intro binv_Let binv_if st) simp_all
  then show ?thesis by (rule binv_subset) simp
qed

lemma binv_start_autovac:
  assumes "binv c w S x" and "pmState x = PM_RUN"
  shows "binv c w S
           (let (q, s) = StartChildProcess e B_AUTOVAC_LAUNCHER x; s = s\<lparr>AutoVacPID := q\<rparr> in
            if AutoVacPID s \<noteq> 0 then s\<lparr>start_autovac_launcher := False\<rparr> else s)"
proof -
  have "binv c w S (case StartChildProcess e B_AUTOVAC_LAUNCHER x of (q, s) \<Rightarrow> s\<lparr>AutoVacPID := q\<rparr>)"
    using assms by (intro binv_start) simp_all
  then show ?thesis
    by (cases "StartChildProcess e B_AUTOVAC_LAUNCHER x") (auto simp add: Let_def binv_frame)
qed

lemma binv_ServerLoop_housekeeping:
  assumes "binv c w S x"
  shows "binv c w S (ServerLoop_housekeeping e x)"
  unfolding ServerLoop_housekeeping_def
  apply (intro binv_Let)
  subgoal using assms by (intro binv_if binv_frame)
  subgoal by (intro binv_if binv_start_two) simp_all
  subgoal by (intro binv_if binv_Let_val binv_start) simp_all
  subgoal by (intro binv_if binv_start_autovac) simp_all
  subgoal by (intro binv_if binv_Let_val binv_start_PgArch) simp_all
  subgoal by (rule binv_MaybeStartSlotSyncWorker)
  subgoal by (intro binv_Let binv_if binv_frame) simp_all
  subgoal by (intro binv_if binv_MaybeStartWalReceiver) simp_all
  subgoal by (rule binv_MaybeStartWalSummarizer)
  subgoal by (intro binv_if binv_frame) simp_all
  subgoal by (intro binv_Let binv_if binv_frame) simp_all
  subgoal by assumption
  done


lemma binv_recovery_started:
  assumes "binv c True loop_states x" and "pmState x = PM_STARTUP"
  shows "binv c True loop_states
           (let s = x\<lparr>FatalError := False, AbortStartTime := 0\<rparr>;
                s = (if XLogArchivingAlways e then
                       (let (q, s) = StartChildProcess e B_ARCHIVER s in s\<lparr>PgArchPID := q\<rparr>)
                     else s)
            in set_pmState PM_RECOVERY s)"
proof -
  let ?S = "{PM_STARTUP}"
  have a: "binv c True ?S (x\<lparr>FatalError := False, AbortStartTime := 0\<rparr>)"
    using assms by (simp add: binv_def inv_defs)
  have b: "binv c True loop_states (set_pmState PM_RECOVERY y)" if "binv c True ?S y" for y
  proof (rule binv_set_pmState [OF that])
    show "pmState y = PM_RECOVERY \<or> pm_edge (pmState y) PM_RECOVERY"
      using that by (simp add: binv_def)
    show "pids_ok (y\<lparr>pmState := PM_RECOVERY\<rparr>)" by (simp add: pids_ok_def)
    show "why_ok (y\<lparr>pmState := PM_RECOVERY\<rparr>)" by (simp add: why_ok_def)
  qed (simp_all add: loop_states_def)
  show ?thesis
    apply (rule hoare_Let [where P = "binv c True ?S"])
     apply (rule a)
    apply (rule hoare_Let [where P = "binv c True ?S"])
     apply (intro binv_if binv_Let_val binv_start_PgArch; simp)
    apply (erule b)
    done
qed

lemma binv_begin_hot_standby:
  assumes "binv c True loop_states x" and "pmState x = PM_RECOVERY"
  shows "binv c True loop_states
           (let s = ereport_LOG ''database system is ready to accept read-only connections'' x;
                s = set_pmState PM_HOT_STANDBY s
            in s\<lparr>connsAllowed := True, StartWorkerNeeded := True\<rparr>)"
proof -
  let ?y = "ereport_LOG ''database system is ready to accept read-only connections'' x"
  have y: "binv c True loop_states ?y" by (intro binv_frame assms)
  have "binv c True loop_states (set_pmState PM_HOT_STANDBY ?y)"
  proof (rule binv_set_pmState [OF y])
    show "pmState ?y = PM_HOT_STANDBY \<or> pm_edge (pmState ?y) PM_HOT_STANDBY"
      using assms(2) by (simp add: class_a_fields)
    show "pids_ok (?y\<lparr>pmState := PM_HOT_STANDBY\<rparr>)" by (simp add: pids_ok_def)
    show "why_ok (?y\<lparr>pmState := PM_HOT_STANDBY\<rparr>)" by (simp add: why_ok_def)
  qed (simp_all add: loop_states_def)
  then show ?thesis
    by (simp add: Let_def) (intro binv_frame binv_connsAllowed_True)
qed

lemma run_ok_Let:
  "binv c True loop_states a \<Longrightarrow> (\<And>x. binv c True loop_states x \<Longrightarrow> run_ok c (b x)) \<Longrightarrow>
   run_ok c (Let a b)"
  by simp

lemma run_ok_core_eq:
  assumes "run_ok c x" and "core_eq x y" and "exited x = None"
  shows "run_ok c y"
  using binv_run_ok [OF binv_core_eq [OF assms(2) run_ok_binv [OF assms(1,3)]]] .

lemma run_ok_process_pm_pmsignal:
  assumes "binv c True loop_states x"
  shows "run_ok c (process_pm_pmsignal e sigs x)"
  unfolding process_pm_pmsignal_def
  apply (rule run_ok_Let)
  subgoal using assms by (rule binv_frame)
  apply (rule run_ok_Let)
  subgoal by (intro binv_if binv_recovery_started) simp_all
  apply (rule run_ok_Let)
  subgoal by (intro binv_if binv_begin_hot_standby) simp_all
  apply (rule run_ok_Let)
  subgoal by (simp add: split_beta Let_def binv_frame)
  apply (rule run_ok_Let)
  subgoal by (intro binv_if binv_frame) simp_all
  apply (rule run_ok_Let)
  subgoal by (intro binv_if binv_frame) simp_all
  apply (rule run_ok_Let)
  subgoal by (intro binv_if binv_frame) simp_all
  apply (rule run_ok_Let)
  subgoal by (intro binv_if binv_frame) simp_all
  apply (rule run_ok_Let)
  subgoal by (intro binv_if binv_MaybeStartWalReceiver binv_frame) simp_all
  apply (rule hoare_Let [where P = "run_ok c"])
  subgoal by (auto intro: run_ok_PostmasterStateMachine binv_minv binv_run_ok)
  subgoal for x1 x2 x3 x4 x5 x6 x7 x8 x9 y
    by (auto simp add: unless_exited_def
          intro: run_ok_core_eq [OF _ core_eq_signal_child [OF core_eq_refl]])
  done

section \<open>Rules for conditionals and bindings\<close>

lemma hoare_if: "(c \<Longrightarrow> P a) \<Longrightarrow> (\<not> c \<Longrightarrow> P b) \<Longrightarrow> P (if c then a else b)"
  by simp

lemma hoare_Let_val: "P (b a) \<Longrightarrow> P (Let a b)"
  by simp

lemma hoare_case_prod: "P (f (fst p) (snd p)) \<Longrightarrow> P (case p of (a, b) \<Rightarrow> f a b)"
  by (simp add: split_beta)

section \<open>With no children left\<close>

lemma exited_set_pmState [simp]: "exited (set_pmState t x) = exited x"
  by (simp add: set_pmState_def)

lemma exited_PostmasterStateMachine_smart:
  "exited (PostmasterStateMachine_smart e s) = exited s"
  by (simp add: PostmasterStateMachine_smart_def Let_def split_beta class_a_fields)

lemma exited_PostmasterStateMachine_stop_backends:
  "exited (PostmasterStateMachine_stop_backends e s) = exited s"
  by (simp add: PostmasterStateMachine_stop_backends_def Let_def split_beta class_a_fields)

lemma exited_PostmasterStateMachine_shutdown_2:
  "exited (PostmasterStateMachine_shutdown_2 e s) = exited s"
  by (simp add: PostmasterStateMachine_shutdown_2_def Let_def split_beta class_a_fields)

lemma exited_PostmasterStateMachine_wait_dead_end:
  "exited (PostmasterStateMachine_wait_dead_end e s) = exited s"
  by (simp add: PostmasterStateMachine_wait_dead_end_def Let_def split_beta class_a_fields)

lemma exited_PostmasterStateMachine_wait_backends:
  "exited (PostmasterStateMachine_wait_backends e s) = exited s"
  unfolding PostmasterStateMachine_wait_backends_def
  apply (rule hoare_if [where P = "\<lambda>x. exited x = exited s"])
   apply (rule hoare_Let_val [where P = "\<lambda>x. exited x = exited s"])
   apply (rule hoare_case_prod [where P = "\<lambda>x. exited x = exited s"])
   apply (rule hoare_if [where P = "\<lambda>x. exited x = exited s"])
    apply (rule hoare_if [where P = "\<lambda>x. exited x = exited s"])
     apply (simp add: class_a_fields)
    apply (rule hoare_Let [where P = "\<lambda>x. exited x = exited s" and Q = "\<lambda>x. exited x = exited s"])
     apply (simp add: Let_def split_beta class_a_fields StartChildProcess_fields)
    apply (simp add: Let_def class_a_fields)
   apply (simp add: class_a_fields)
  apply simp
  done

lemma exited_PostmasterStateMachine_leading:
  "exited (PostmasterStateMachine_leading e s) = exited s"
  by (simp add: PostmasterStateMachine_leading_def exited_PostmasterStateMachine_smart
        exited_PostmasterStateMachine_stop_backends exited_PostmasterStateMachine_wait_backends
        exited_PostmasterStateMachine_shutdown_2 exited_PostmasterStateMachine_wait_dead_end)

lemma PostmasterStateMachine_leading_then_no_children:
  "PostmasterStateMachine e s =
     PostmasterStateMachine_no_children e (PostmasterStateMachine_leading e s)"
  by (simp add: PostmasterStateMachine_blocks PostmasterStateMachine_leading_def)

text \<open>
  When the fork of the new startup process fails, shared memory has been created
  once more, no startup process is launched and the state is never \<open>PM_STARTUP\<close>: the
  postmaster exits with status 1.
\<close>

theorem PostmasterStateMachine_restart_needs_fork:
  "Shutdown pm_all_gone = NoShutdown \<and> FatalError pm_all_gone \<and>
   StartupStatus pm_all_gone \<noteq> STARTUP_CRASHED \<and> restart_after_crash env_nofork \<and>
   exited pm_all_gone = None \<and>
   pmState (PostmasterStateMachine_leading env_nofork pm_all_gone) = PM_NO_CHILDREN \<and>
   exited (PostmasterStateMachine env_nofork pm_all_gone) = Some 1 \<and>
   pmState (PostmasterStateMachine env_nofork pm_all_gone) = PM_NO_CHILDREN \<and>
   StartupPID (PostmasterStateMachine env_nofork pm_all_gone) = 0 \<and>
   shmem_creations (PostmasterStateMachine env_nofork pm_all_gone) =
     [(PM_INIT, False, True, []), (PM_NO_CHILDREN, True, True, [])]"
  by code_simp

text \<open>
  C7. In every pass of \<open>PostmasterStateMachine\<close> of a postmaster that has not exited,
  whatever state the pass was entered in, once the state is \<open>PM_NO_CHILDREN\<close> after the
  five leading blocks (\<open>t\<close> is the postmaster at that point, \<open>r\<close> at the end of the
  pass): if a shutdown was requested the postmaster exits, with status 1 if
  \<open>FatalError\<close> is set and 0 otherwise; else if the startup process crashed or
  \<open>restart_after_crash\<close> is off it exits with status 1, shared memory is left alone
  and nothing is launched; else if \<open>FatalError\<close> is set, shared memory is created
  once more and the fork of a startup process is tried once: when it succeeds the
  state is \<open>PM_STARTUP\<close> with the new \<open>StartupPID\<close>, and when it fails the postmaster
  exits with status 1; with none of these the pass changes nothing.
\<close>

theorem PostmasterStateMachine_once_no_children:
  assumes "exited s = None"
      and "pmState (PostmasterStateMachine_leading e s) = PM_NO_CHILDREN"
  shows "(let t = PostmasterStateMachine_leading e s; r = PostmasterStateMachine e s in
          (exited r, pmState r, StartupPID r, shmem_creations r, env_calls r) =
          (if Shutdown t > NoShutdown then
             (Some (if FatalError t then 1 else 0), PM_NO_CHILDREN, StartupPID t, shmem_creations t,
              env_calls t)
           else if StartupStatus t = STARTUP_CRASHED \<or> \<not> restart_after_crash e then
             (Some 1, PM_NO_CHILDREN, StartupPID t, shmem_creations t, env_calls t)
           else if FatalError t then
             (if postmaster_child_launch e (env_calls t) < 0 then
                (Some 1, PM_NO_CHILDREN, StartupPID t,
                 shmem_creations t @ [(PM_NO_CHILDREN, True, True, tracked_children t)],
                 Suc (env_calls t))
              else
                (None, PM_STARTUP, postmaster_child_launch e (env_calls t),
                 shmem_creations t @ [(PM_NO_CHILDREN, True, True, tracked_children t)],
                 Suc (env_calls t)))
           else (None, PM_NO_CHILDREN, StartupPID t, shmem_creations t, env_calls t)))"
  using no_children_outcome [OF assms(2), of e] assms(1)
  by (simp add: Let_def PostmasterStateMachine_leading_then_no_children
        exited_PostmasterStateMachine_leading)

theorem PostmasterStateMachine_once_no_children_witness:
  "(exited (PostmasterStateMachine env0 pm_crash_drained),
    pmState (PostmasterStateMachine env0 pm_crash_drained),
    StartupPID (PostmasterStateMachine env0 pm_crash_drained),
    shmem_creations (PostmasterStateMachine env0 pm_crash_drained),
    env_calls (PostmasterStateMachine env0 pm_crash_drained)) =
     (None, PM_STARTUP, 200, [(PM_INIT, False, True, []), (PM_NO_CHILDREN, True, True, [])], 1) \<and>
   (exited (PostmasterStateMachine env0 pm_shutdown_done),
    pmState (PostmasterStateMachine env0 pm_shutdown_done),
    StartupPID (PostmasterStateMachine env0 pm_shutdown_done),
    shmem_creations (PostmasterStateMachine env0 pm_shutdown_done),
    env_calls (PostmasterStateMachine env0 pm_shutdown_done)) =
     (Some 0, PM_NO_CHILDREN, 0, [(PM_INIT, False, True, [])], 0) \<and>
   (exited (PostmasterStateMachine env0 pm_all_gone),
    pmState (PostmasterStateMachine env0 pm_all_gone),
    StartupPID (PostmasterStateMachine env0 pm_all_gone),
    shmem_creations (PostmasterStateMachine env0 pm_all_gone),
    env_calls (PostmasterStateMachine env0 pm_all_gone)) =
     (None, PM_STARTUP, 200, [(PM_INIT, False, True, []), (PM_NO_CHILDREN, True, True, [])], 1) \<and>
   (exited (PostmasterStateMachine env_nofork pm_all_gone),
    pmState (PostmasterStateMachine env_nofork pm_all_gone),
    StartupPID (PostmasterStateMachine env_nofork pm_all_gone),
    shmem_creations (PostmasterStateMachine env_nofork pm_all_gone),
    env_calls (PostmasterStateMachine env_nofork pm_all_gone)) =
     (Some 1, PM_NO_CHILDREN, 0, [(PM_INIT, False, True, []), (PM_NO_CHILDREN, True, True, [])], 1) \<and>
   (exited (PostmasterStateMachine (env0\<lparr>restart_after_crash := False\<rparr>) pm_all_gone),
    pmState (PostmasterStateMachine (env0\<lparr>restart_after_crash := False\<rparr>) pm_all_gone),
    StartupPID (PostmasterStateMachine (env0\<lparr>restart_after_crash := False\<rparr>) pm_all_gone),
    shmem_creations (PostmasterStateMachine (env0\<lparr>restart_after_crash := False\<rparr>) pm_all_gone),
    env_calls (PostmasterStateMachine (env0\<lparr>restart_after_crash := False\<rparr>) pm_all_gone)) =
     (Some 1, PM_NO_CHILDREN, 0, [(PM_INIT, False, True, [])], 0) \<and>
   (exited (PostmasterStateMachine env0 (pm_all_gone\<lparr>StartupStatus := STARTUP_CRASHED\<rparr>)),
    pmState (PostmasterStateMachine env0 (pm_all_gone\<lparr>StartupStatus := STARTUP_CRASHED\<rparr>)),
    StartupPID (PostmasterStateMachine env0 (pm_all_gone\<lparr>StartupStatus := STARTUP_CRASHED\<rparr>)),
    shmem_creations (PostmasterStateMachine env0 (pm_all_gone\<lparr>StartupStatus := STARTUP_CRASHED\<rparr>)),
    env_calls (PostmasterStateMachine env0 (pm_all_gone\<lparr>StartupStatus := STARTUP_CRASHED\<rparr>))) =
     (Some 1, PM_NO_CHILDREN, 0, [(PM_INIT, False, True, [])], 0) \<and>
   (exited (PostmasterStateMachine env0 (pm_crash_drained\<lparr>Shutdown := ImmediateShutdown\<rparr>)),
    pmState (PostmasterStateMachine env0 (pm_crash_drained\<lparr>Shutdown := ImmediateShutdown\<rparr>)),
    StartupPID (PostmasterStateMachine env0 (pm_crash_drained\<lparr>Shutdown := ImmediateShutdown\<rparr>)),
    shmem_creations (PostmasterStateMachine env0 (pm_crash_drained\<lparr>Shutdown := ImmediateShutdown\<rparr>)),
    env_calls (PostmasterStateMachine env0 (pm_crash_drained\<lparr>Shutdown := ImmediateShutdown\<rparr>))) =
     (Some 1, PM_NO_CHILDREN, 0, [(PM_INIT, False, True, [])], 0) \<and>
   (exited (PostmasterStateMachine env_nofork (pm_crash_drained\<lparr>Shutdown := FastShutdown, FatalError := False\<rparr>)),
    pmState (PostmasterStateMachine env_nofork (pm_crash_drained\<lparr>Shutdown := FastShutdown, FatalError := False\<rparr>)),
    StartupPID (PostmasterStateMachine env_nofork (pm_crash_drained\<lparr>Shutdown := FastShutdown, FatalError := False\<rparr>)),
    shmem_creations (PostmasterStateMachine env_nofork (pm_crash_drained\<lparr>Shutdown := FastShutdown, FatalError := False\<rparr>)),
    env_calls (PostmasterStateMachine env_nofork (pm_crash_drained\<lparr>Shutdown := FastShutdown, FatalError := False\<rparr>))) =
     (Some 1, PM_NO_CHILDREN, 0, [(PM_INIT, False, True, [])], 1)"
proof -
  have e: "restart_after_crash env0" "postmaster_child_launch env0 0 = 200"
          "restart_after_crash env_nofork" "postmaster_child_launch env_nofork 0 = - 1"
          "\<not> restart_after_crash (env0\<lparr>restart_after_crash := False\<rparr>)"
    by code_simp+
  have h0: "exited pm_crash_drained = None"
    "pmState (PostmasterStateMachine_leading env0 pm_crash_drained) = PM_NO_CHILDREN"
    by code_simp+
  have t0:
    "Shutdown (PostmasterStateMachine_leading env0 pm_crash_drained) = NoShutdown"
    "FatalError (PostmasterStateMachine_leading env0 pm_crash_drained)"
    "StartupStatus (PostmasterStateMachine_leading env0 pm_crash_drained) = STARTUP_NOT_RUNNING"
    "env_calls (PostmasterStateMachine_leading env0 pm_crash_drained) = 0"
    "StartupPID (PostmasterStateMachine_leading env0 pm_crash_drained) = 0"
    "shmem_creations (PostmasterStateMachine_leading env0 pm_crash_drained) = [(PM_INIT, False, True, [])]"
    "tracked_children (PostmasterStateMachine_leading env0 pm_crash_drained) = []"
    by code_simp+
  have h1: "exited pm_shutdown_done = None"
    "pmState (PostmasterStateMachine_leading env0 pm_shutdown_done) = PM_NO_CHILDREN"
    by code_simp+
  have t1:
    "Shutdown (PostmasterStateMachine_leading env0 pm_shutdown_done) = FastShutdown"
    "\<not> FatalError (PostmasterStateMachine_leading env0 pm_shutdown_done)"
    "StartupStatus (PostmasterStateMachine_leading env0 pm_shutdown_done) = STARTUP_NOT_RUNNING"
    "env_calls (PostmasterStateMachine_leading env0 pm_shutdown_done) = 0"
    "StartupPID (PostmasterStateMachine_leading env0 pm_shutdown_done) = 0"
    "shmem_creations (PostmasterStateMachine_leading env0 pm_shutdown_done) = [(PM_INIT, False, True, [])]"
    "tracked_children (PostmasterStateMachine_leading env0 pm_shutdown_done) = []"
    by code_simp+
  have h2: "exited pm_all_gone = None"
    "pmState (PostmasterStateMachine_leading env0 pm_all_gone) = PM_NO_CHILDREN"
    by code_simp+
  have t2:
    "Shutdown (PostmasterStateMachine_leading env0 pm_all_gone) = NoShutdown"
    "FatalError (PostmasterStateMachine_leading env0 pm_all_gone)"
    "StartupStatus (PostmasterStateMachine_leading env0 pm_all_gone) = STARTUP_NOT_RUNNING"
    "env_calls (PostmasterStateMachine_leading env0 pm_all_gone) = 0"
    "StartupPID (PostmasterStateMachine_leading env0 pm_all_gone) = 0"
    "shmem_creations (PostmasterStateMachine_leading env0 pm_all_gone) = [(PM_INIT, False, True, [])]"
    "tracked_children (PostmasterStateMachine_leading env0 pm_all_gone) = []"
    by code_simp+
  have h3: "exited pm_all_gone = None"
    "pmState (PostmasterStateMachine_leading env_nofork pm_all_gone) = PM_NO_CHILDREN"
    by code_simp+
  have t3:
    "Shutdown (PostmasterStateMachine_leading env_nofork pm_all_gone) = NoShutdown"
    "FatalError (PostmasterStateMachine_leading env_nofork pm_all_gone)"
    "StartupStatus (PostmasterStateMachine_leading env_nofork pm_all_gone) = STARTUP_NOT_RUNNING"
    "env_calls (PostmasterStateMachine_leading env_nofork pm_all_gone) = 0"
    "StartupPID (PostmasterStateMachine_leading env_nofork pm_all_gone) = 0"
    "shmem_creations (PostmasterStateMachine_leading env_nofork pm_all_gone) = [(PM_INIT, False, True, [])]"
    "tracked_children (PostmasterStateMachine_leading env_nofork pm_all_gone) = []"
    by code_simp+
  have h4: "exited pm_all_gone = None"
    "pmState (PostmasterStateMachine_leading (env0\<lparr>restart_after_crash := False\<rparr>) pm_all_gone) = PM_NO_CHILDREN"
    by code_simp+
  have t4:
    "Shutdown (PostmasterStateMachine_leading (env0\<lparr>restart_after_crash := False\<rparr>) pm_all_gone) = NoShutdown"
    "FatalError (PostmasterStateMachine_leading (env0\<lparr>restart_after_crash := False\<rparr>) pm_all_gone)"
    "StartupStatus (PostmasterStateMachine_leading (env0\<lparr>restart_after_crash := False\<rparr>) pm_all_gone) = STARTUP_NOT_RUNNING"
    "env_calls (PostmasterStateMachine_leading (env0\<lparr>restart_after_crash := False\<rparr>) pm_all_gone) = 0"
    "StartupPID (PostmasterStateMachine_leading (env0\<lparr>restart_after_crash := False\<rparr>) pm_all_gone) = 0"
    "shmem_creations (PostmasterStateMachine_leading (env0\<lparr>restart_after_crash := False\<rparr>) pm_all_gone) = [(PM_INIT, False, True, [])]"
    "tracked_children (PostmasterStateMachine_leading (env0\<lparr>restart_after_crash := False\<rparr>) pm_all_gone) = []"
    by code_simp+
  have h5: "exited (pm_all_gone\<lparr>StartupStatus := STARTUP_CRASHED\<rparr>) = None"
    "pmState (PostmasterStateMachine_leading env0 (pm_all_gone\<lparr>StartupStatus := STARTUP_CRASHED\<rparr>)) = PM_NO_CHILDREN"
    by code_simp+
  have t5:
    "Shutdown (PostmasterStateMachine_leading env0 (pm_all_gone\<lparr>StartupStatus := STARTUP_CRASHED\<rparr>)) = NoShutdown"
    "FatalError (PostmasterStateMachine_leading env0 (pm_all_gone\<lparr>StartupStatus := STARTUP_CRASHED\<rparr>))"
    "StartupStatus (PostmasterStateMachine_leading env0 (pm_all_gone\<lparr>StartupStatus := STARTUP_CRASHED\<rparr>)) = STARTUP_CRASHED"
    "env_calls (PostmasterStateMachine_leading env0 (pm_all_gone\<lparr>StartupStatus := STARTUP_CRASHED\<rparr>)) = 0"
    "StartupPID (PostmasterStateMachine_leading env0 (pm_all_gone\<lparr>StartupStatus := STARTUP_CRASHED\<rparr>)) = 0"
    "shmem_creations (PostmasterStateMachine_leading env0 (pm_all_gone\<lparr>StartupStatus := STARTUP_CRASHED\<rparr>)) = [(PM_INIT, False, True, [])]"
    "tracked_children (PostmasterStateMachine_leading env0 (pm_all_gone\<lparr>StartupStatus := STARTUP_CRASHED\<rparr>)) = []"
    by code_simp+
  have h6: "exited (pm_crash_drained\<lparr>Shutdown := ImmediateShutdown\<rparr>) = None"
    "pmState (PostmasterStateMachine_leading env0 (pm_crash_drained\<lparr>Shutdown := ImmediateShutdown\<rparr>)) = PM_NO_CHILDREN"
    by code_simp+
  have t6:
    "Shutdown (PostmasterStateMachine_leading env0 (pm_crash_drained\<lparr>Shutdown := ImmediateShutdown\<rparr>)) = ImmediateShutdown"
    "FatalError (PostmasterStateMachine_leading env0 (pm_crash_drained\<lparr>Shutdown := ImmediateShutdown\<rparr>))"
    "StartupStatus (PostmasterStateMachine_leading env0 (pm_crash_drained\<lparr>Shutdown := ImmediateShutdown\<rparr>)) = STARTUP_NOT_RUNNING"
    "env_calls (PostmasterStateMachine_leading env0 (pm_crash_drained\<lparr>Shutdown := ImmediateShutdown\<rparr>)) = 0"
    "StartupPID (PostmasterStateMachine_leading env0 (pm_crash_drained\<lparr>Shutdown := ImmediateShutdown\<rparr>)) = 0"
    "shmem_creations (PostmasterStateMachine_leading env0 (pm_crash_drained\<lparr>Shutdown := ImmediateShutdown\<rparr>)) = [(PM_INIT, False, True, [])]"
    "tracked_children (PostmasterStateMachine_leading env0 (pm_crash_drained\<lparr>Shutdown := ImmediateShutdown\<rparr>)) = []"
    by code_simp+
  have h7: "exited (pm_crash_drained\<lparr>Shutdown := FastShutdown, FatalError := False\<rparr>) = None"
    "pmState (PostmasterStateMachine_leading env_nofork (pm_crash_drained\<lparr>Shutdown := FastShutdown, FatalError := False\<rparr>)) = PM_NO_CHILDREN"
    by code_simp+
  have t7:
    "Shutdown (PostmasterStateMachine_leading env_nofork (pm_crash_drained\<lparr>Shutdown := FastShutdown, FatalError := False\<rparr>)) = FastShutdown"
    "FatalError (PostmasterStateMachine_leading env_nofork (pm_crash_drained\<lparr>Shutdown := FastShutdown, FatalError := False\<rparr>))"
    "StartupStatus (PostmasterStateMachine_leading env_nofork (pm_crash_drained\<lparr>Shutdown := FastShutdown, FatalError := False\<rparr>)) = STARTUP_NOT_RUNNING"
    "env_calls (PostmasterStateMachine_leading env_nofork (pm_crash_drained\<lparr>Shutdown := FastShutdown, FatalError := False\<rparr>)) = 1"
    "StartupPID (PostmasterStateMachine_leading env_nofork (pm_crash_drained\<lparr>Shutdown := FastShutdown, FatalError := False\<rparr>)) = 0"
    "shmem_creations (PostmasterStateMachine_leading env_nofork (pm_crash_drained\<lparr>Shutdown := FastShutdown, FatalError := False\<rparr>)) = [(PM_INIT, False, True, [])]"
    "tracked_children (PostmasterStateMachine_leading env_nofork (pm_crash_drained\<lparr>Shutdown := FastShutdown, FatalError := False\<rparr>)) = []"
    by code_simp+
  show ?thesis
    using PostmasterStateMachine_once_no_children [OF h0]
      PostmasterStateMachine_once_no_children [OF h1]
      PostmasterStateMachine_once_no_children [OF h2]
      PostmasterStateMachine_once_no_children [OF h3]
      PostmasterStateMachine_once_no_children [OF h4]
      PostmasterStateMachine_once_no_children [OF h5]
      PostmasterStateMachine_once_no_children [OF h6]
      PostmasterStateMachine_once_no_children [OF h7]
    by (simp add: Let_def e t0 t1 t2 t3 t4 t5 t6 t7)
qed

section \<open>Every run keeps the invariant\<close>

lemma run_ok_raise: "run_ok c s \<Longrightarrow> c' \<le> Shutdown s \<Longrightarrow> run_ok c' s"
  by (simp add: run_ok_def minv_def)

lemma run_ok_ServerLoop_step:
  assumes "run_ok c s" and "exited s = None"
  shows "run_ok c (ServerLoop_step e st s)"
proof -
  have b: "binv c True loop_states s" using assms by (rule run_ok_binv)
  show ?thesis
  proof (cases st)
    case (Signal_shutdown sg)
    then show ?thesis by (simp add: binv_run_ok binv_frame b)
  next
    case Signal_reload
    then show ?thesis by (simp add: binv_run_ok binv_frame b)
  next
    case Signal_child_exit
    then show ?thesis by (simp add: binv_run_ok binv_frame b)
  next
    case Signal_pmsignal
    then show ?thesis by (simp add: binv_run_ok binv_frame b)
  next
    case Process_shutdown_request
    then show ?thesis using run_ok_process_pm_shutdown_request [OF b] assms(1) by simp
  next
    case Process_reload_request
    then show ?thesis using assms(1) by (simp add: binv_run_ok binv_frame b)
  next
    case (Process_child_exit reaped)
    then show ?thesis using run_ok_process_pm_child_exit [OF b] assms(1) by simp
  next
    case (Process_pmsignal sigs)
    then show ?thesis using run_ok_process_pm_pmsignal [OF b] assms(1) by simp
  next
    case Accept_connection
    then show ?thesis by (simp add: binv_run_ok binv_frame b)
  next
    case Sleep_time
    then show ?thesis by (simp add: binv_run_ok binv_frame b)
  next
    case Housekeeping
    then show ?thesis by (simp add: binv_run_ok binv_ServerLoop_housekeeping b)
  qed
qed

lemma run_ok_ServerLoop_run:
  "run_ok c s \<Longrightarrow> run_ok c (ServerLoop_run steps s)"
proof (induction steps arbitrary: s)
  case Nil
  then show ?case by simp
next
  case (Cons a steps)
  obtain e st where a: "a = (e, st)" by (cases a)
  show ?case
  proof (cases "exited s = None")
    case True
    then show ?thesis
      using Cons.IH [OF run_ok_ServerLoop_step [OF Cons.prems True, of e st]] by (simp add: a)
  next
    case False
    then show ?thesis using Cons.prems by (simp add: a)
  qed
qed

lemma Shutdown_ServerLoop_run:
  assumes "run_ok c s"
  shows "Shutdown s \<le> Shutdown (ServerLoop_run steps s)"
proof -
  have "run_ok (Shutdown s) s" using assms by (rule run_ok_raise) simp
  then have "run_ok (Shutdown s) (ServerLoop_run steps s)" by (rule run_ok_ServerLoop_run)
  then show ?thesis by (simp add: run_ok_def minv_def)
qed

lemma PostmasterMain_before_startup:
  fixes e bgws
  defines "m \<equiv>
     (let s = postmaster_initial bgws;
          s = CreateSharedMemoryAndSemaphores e s;
          s = (tick s)\<lparr>SysLoggerPID := SysLogger_Start e (env_calls s)\<rparr>;
          s = (if CheckpointerPID s = 0 then
                 (let (q, s) = StartChildProcess e B_CHECKPOINTER s in s\<lparr>CheckpointerPID := q\<rparr>)
               else s);
          s = (if BgWriterPID s = 0 then
                 (let (q, s) = StartChildProcess e B_BG_WRITER s in s\<lparr>BgWriterPID := q\<rparr>)
               else s)
      in s)"
  shows "pmState m = PM_INIT" "pmState_log m = [PM_INIT]" "Shutdown m = 0" "\<not> FatalError m"
    "connsAllowed m" "exited m = None"
    "shmem_creations m = [(PM_INIT, False, restart_after_crash e, [])]"
  unfolding m_def
  by (simp_all add: Let_def split_beta postmaster_initial_def CreateSharedMemoryAndSemaphores_def
        tick_def tracked_children_def StartChildProcess_fields)


lemma PostmasterMain_ok:
  "run_ok 0 (PostmasterMain e bgws) \<or>
   exited (PostmasterMain e bgws) \<noteq> None \<and> pmState (PostmasterMain e bgws) = PM_INIT \<and>
   pmState_log (PostmasterMain e bgws) = [PM_INIT] \<and> Shutdown (PostmasterMain e bgws) = 0 \<and>
   shmem_creations (PostmasterMain e bgws) = [(PM_INIT, False, restart_after_crash e, [])]"
proof -
  define m where "m =
     (let s = postmaster_initial bgws;
          s = CreateSharedMemoryAndSemaphores e s;
          s = (tick s)\<lparr>SysLoggerPID := SysLogger_Start e (env_calls s)\<rparr>;
          s = (if CheckpointerPID s = 0 then
                 (let (q, s) = StartChildProcess e B_CHECKPOINTER s in s\<lparr>CheckpointerPID := q\<rparr>)
               else s);
          s = (if BgWriterPID s = 0 then
                 (let (q, s) = StartChildProcess e B_BG_WRITER s in s\<lparr>BgWriterPID := q\<rparr>)
               else s)
      in s)"
  note f = PostmasterMain_before_startup [where e = e and bgws = bgws, folded m_def]
  have eq: "PostmasterMain e bgws =
              (let (q, s) = StartChildProcess e B_STARTUP m
               in if exited s \<noteq> None then s
                  else
                    (let s = s\<lparr>StartupPID := q, StartupStatus := STARTUP_RUNNING\<rparr>;
                         s = set_pmState PM_STARTUP s;
                         s = maybe_start_bgworkers e s
                     in ConfigurePostmasterWaitSet True s))"
    unfolding PostmasterMain_def m_def Let_def ..
  show ?thesis
  proof (cases "postmaster_child_launch e (env_calls m) < 0")
    case True
    then have "PostmasterMain e bgws = ExitPostmaster 1 (ereport_LOG ''could not fork process: %m'' (tick m))"
      by (simp add: eq StartChildProcess_def Let_def ExitPostmaster_def)
    then show ?thesis
      using f by (simp add: ExitPostmaster_def class_a_fields)
  next
    case False
    define z where "z = set_pmState PM_STARTUP
        ((tick m)\<lparr>StartupPID := postmaster_child_launch e (env_calls m), StartupStatus := STARTUP_RUNNING\<rparr>)"
    from False have r: "PostmasterMain e bgws = ConfigurePostmasterWaitSet True (maybe_start_bgworkers e z)"
      using f by (simp add: eq StartChildProcess_def Let_def z_def class_a_fields)
    have "binv 0 True loop_states z"
      using f
      by (simp add: binv_def inv_defs z_def set_pmState_def class_a_fields pm_path_def
            loop_states_def)
    then have "binv 0 True loop_states (PostmasterMain e bgws)"
      unfolding r by (intro binv_frame)
    then show ?thesis by (simp add: binv_run_ok)
  qed
qed

lemma ServerLoop_run_exited: "exited s \<noteq> None \<Longrightarrow> ServerLoop_run steps s = s"
  by (cases steps) auto

lemma ServerLoop_run_append:
  "ServerLoop_run (xs @ ys) s = ServerLoop_run ys (ServerLoop_run xs s)"
proof (induction xs arbitrary: s)
  case Nil
  then show ?case by simp
next
  case (Cons a xs)
  obtain e st where a: "a = (e, st)" by (cases a)
  show ?case by (simp add: a Cons.IH ServerLoop_run_exited)
qed

lemma ServerLoop_run_PostmasterMain:
  "run_ok 0 (ServerLoop_run steps (PostmasterMain e bgws)) \<or>
   ServerLoop_run steps (PostmasterMain e bgws) = PostmasterMain e bgws \<and>
   exited (PostmasterMain e bgws) \<noteq> None \<and> pmState (PostmasterMain e bgws) = PM_INIT \<and>
   pmState_log (PostmasterMain e bgws) = [PM_INIT] \<and> Shutdown (PostmasterMain e bgws) = 0 \<and>
   shmem_creations (PostmasterMain e bgws) = [(PM_INIT, False, restart_after_crash e, [])]"
  using PostmasterMain_ok [of e bgws] run_ok_ServerLoop_run [of 0 "PostmasterMain e bgws" steps]
  by (auto simp add: ServerLoop_run_exited)

lemma log_ok_ServerLoop_run:
  "log_ok (ServerLoop_run steps (PostmasterMain e bgws))"
  using ServerLoop_run_PostmasterMain [of steps e bgws]
  by (auto simp add: run_ok_def minv_def log_ok_def pm_path_def)

lemma shmem_ok_ServerLoop_run:
  "shmem_ok (ServerLoop_run steps (PostmasterMain e bgws))"
  using ServerLoop_run_PostmasterMain [of steps e bgws]
  by (auto simp add: run_ok_def minv_def shmem_ok_def)

section \<open>The lifecycle state follows the edges of the code\<close>

lemma pm_edge_spec_edge:
  "pm_edge a b \<longleftrightarrow>
     (spec_edge a b \<and> a \<noteq> PM_INIT \<and> a \<noteq> PM_NO_CHILDREN \<and> a \<noteq> PM_STOP_BACKENDS \<and> a \<noteq> PM_WAIT_BACKENDS \<or>
      (a = PM_INIT \<or> a = PM_NO_CHILDREN) \<and> b = PM_STARTUP \<or>
      a = PM_STOP_BACKENDS \<and> b = PM_WAIT_BACKENDS \<or>
      a = PM_WAIT_BACKENDS \<and> (b = PM_SHUTDOWN \<or> b = PM_WAIT_DEAD_END \<or> b = PM_RUN) \<or>
      (a = PM_STARTUP \<or> a = PM_RECOVERY) \<and> b = PM_STOP_BACKENDS)"
  by (cases a; cases b; simp)

text \<open>
  A fast shutdown requested while the startup process is running takes the state
  from \<open>PM_STARTUP\<close> to \<open>PM_STOP_BACKENDS\<close>, which is none of the enumerated
  transitions.
\<close>

theorem fast_shutdown_in_startup_skips:
  "pmState_log (ServerLoop_run run_fast_shutdown_in_startup (PostmasterMain env0 [])) =
     [PM_INIT, PM_STARTUP, PM_STOP_BACKENDS, PM_WAIT_BACKENDS] \<and>
   \<not> spec_edge PM_STARTUP PM_STOP_BACKENDS \<and>
   \<not> successively spec_edge
       (pmState_log (ServerLoop_run run_fast_shutdown_in_startup (PostmasterMain env0 [])))"
  by code_simp

text \<open>
  C1. After \<open>PostmasterMain\<close>, for every sequence of signals, pmsignals, child exits
  and other steps of the server loop, each met with any environment: the values
  assigned to \<open>pmState\<close>, in order from \<open>PM_INIT\<close>, end in the current state, and each
  assignment either repeats the state or follows an edge of \<open>pm_edge\<close>, that is one
  of: Init to Startup; Startup to Recovery, Run, StopBackends or WaitBackends;
  Recovery to HotStandby, Run, StopBackends or WaitBackends; HotStandby to Run,
  StopBackends or WaitBackends; Run to StopBackends or WaitBackends; StopBackends to
  WaitBackends; WaitBackends to Run, Shutdown or WaitDeadEnd; Shutdown to Shutdown2
  or WaitBackends; Shutdown2 to WaitDeadEnd or WaitBackends; WaitDeadEnd to
  NoChildren or WaitBackends; NoChildren to Startup.
\<close>

theorem pmState_follows_pm_edge:
  "pmState_log (ServerLoop_run steps (PostmasterMain e bgws)) \<noteq> [] \<and>
   last (pmState_log (ServerLoop_run steps (PostmasterMain e bgws))) =
     pmState (ServerLoop_run steps (PostmasterMain e bgws)) \<and>
   pm_path (pmState_log (ServerLoop_run steps (PostmasterMain e bgws)))"
  using log_ok_ServerLoop_run [of steps e bgws] by (simp add: log_ok_def)

theorem pmState_follows_pm_edge_witness:
  "pm_path [PM_INIT, PM_STARTUP, PM_STOP_BACKENDS, PM_WAIT_BACKENDS] \<and>
   pmState (ServerLoop_run run_fast_shutdown_in_startup (PostmasterMain env0 [])) = PM_WAIT_BACKENDS"
proof -
  have "pmState_log (ServerLoop_run run_fast_shutdown_in_startup (PostmasterMain env0 [])) =
          [PM_INIT, PM_STARTUP, PM_STOP_BACKENDS, PM_WAIT_BACKENDS]"
    by code_simp
  then show ?thesis
    using pmState_follows_pm_edge [of run_fast_shutdown_in_startup env0 "[]"] by simp
qed

section \<open>Shared memory is created at boot and once for each restart\<close>

text \<open>
  C6. Each call of \<open>CreateSharedMemoryAndSemaphores\<close> is recorded with the state, the
  \<open>FatalError\<close> flag, the \<open>restart_after_crash\<close> setting and the children on the
  postmaster's books (all but the log collector) at the call. In every run after
  \<open>PostmasterMain\<close>: the first call is the one at boot, in \<open>PM_INIT\<close> without
  \<open>FatalError\<close> and with no child; every later call was made in \<open>PM_NO_CHILDREN\<close> with
  \<open>FatalError\<close> set, \<open>restart_after_crash\<close> on and no child on the books; and there
  are as many calls as entries to \<open>PM_STARTUP\<close>, one at boot and one for each
  restart after a crash, or one more when the postmaster has exited because the fork
  of the startup process failed right after the creation.
\<close>

theorem shared_memory_created_once_per_cycle:
  "shmem_creations (ServerLoop_run steps (PostmasterMain e bgws)) \<noteq> [] \<and>
   fst (hd (shmem_creations (ServerLoop_run steps (PostmasterMain e bgws)))) = PM_INIT \<and>
   \<not> fst (snd (hd (shmem_creations (ServerLoop_run steps (PostmasterMain e bgws))))) \<and>
   snd (snd (snd (hd (shmem_creations (ServerLoop_run steps (PostmasterMain e bgws)))))) = [] \<and>
   (\<forall>c \<in> set (tl (shmem_creations (ServerLoop_run steps (PostmasterMain e bgws)))).
      c = (PM_NO_CHILDREN, True, True, [])) \<and>
   (length (shmem_creations (ServerLoop_run steps (PostmasterMain e bgws))) =
      count_list (pmState_log (ServerLoop_run steps (PostmasterMain e bgws))) PM_STARTUP \<or>
    exited (ServerLoop_run steps (PostmasterMain e bgws)) \<noteq> None \<and>
    length (shmem_creations (ServerLoop_run steps (PostmasterMain e bgws))) =
      Suc (count_list (pmState_log (ServerLoop_run steps (PostmasterMain e bgws))) PM_STARTUP))"
  using shmem_ok_ServerLoop_run [of steps e bgws]
  by (simp add: shmem_ok_def split: list.splits)

theorem shared_memory_created_once_per_cycle_witness:
  "shmem_creations (ServerLoop_run run_fast_shutdown_in_startup (PostmasterMain env0 [])) =
     [(PM_INIT, False, True, [])] \<and>
   count_list (pmState_log (ServerLoop_run run_fast_shutdown_in_startup (PostmasterMain env0 [])))
     PM_STARTUP = 1 \<and>
   exited (ServerLoop_run run_fast_shutdown_in_startup (PostmasterMain env0 [])) = None"
proof -
  have "shmem_creations (ServerLoop_run run_fast_shutdown_in_startup (PostmasterMain env0 [])) =
          [(PM_INIT, False, True, [])]"
       "exited (ServerLoop_run run_fast_shutdown_in_startup (PostmasterMain env0 [])) = None"
    by code_simp+
  then show ?thesis
    using shared_memory_created_once_per_cycle [of run_fast_shutdown_in_startup env0 "[]"] by simp
qed

section \<open>The shutdown mode only rises\<close>

lemma Shutdown_set_pmState [simp]: "Shutdown (set_pmState t x) = Shutdown x"
  by (simp add: set_pmState_def)

lemma Shutdown_PostmasterStateMachine_smart:
  "Shutdown (PostmasterStateMachine_smart e s) = Shutdown s"
  by (simp add: PostmasterStateMachine_smart_def Let_def split_beta class_a_fields)

lemma Shutdown_PostmasterStateMachine_stop_backends:
  "Shutdown (PostmasterStateMachine_stop_backends e s) = Shutdown s"
  by (simp add: PostmasterStateMachine_stop_backends_def Let_def split_beta class_a_fields)

lemma Shutdown_PostmasterStateMachine_shutdown_2:
  "Shutdown (PostmasterStateMachine_shutdown_2 e s) = Shutdown s"
  by (simp add: PostmasterStateMachine_shutdown_2_def Let_def split_beta class_a_fields)

lemma Shutdown_PostmasterStateMachine_wait_dead_end:
  "Shutdown (PostmasterStateMachine_wait_dead_end e s) = Shutdown s"
  by (simp add: PostmasterStateMachine_wait_dead_end_def Let_def split_beta class_a_fields)

lemma Shutdown_PostmasterStateMachine_wait_backends:
  "Shutdown (PostmasterStateMachine_wait_backends e s) = Shutdown s"
  unfolding PostmasterStateMachine_wait_backends_def
  apply (rule hoare_if [where P = "\<lambda>x. Shutdown x = Shutdown s"])
   apply (rule hoare_Let_val [where P = "\<lambda>x. Shutdown x = Shutdown s"])
   apply (rule hoare_case_prod [where P = "\<lambda>x. Shutdown x = Shutdown s"])
   apply (rule hoare_if [where P = "\<lambda>x. Shutdown x = Shutdown s"])
    apply (rule hoare_if [where P = "\<lambda>x. Shutdown x = Shutdown s"])
     apply (simp add: class_a_fields)
    apply (rule hoare_Let [where P = "\<lambda>x. Shutdown x = Shutdown s" and Q = "\<lambda>x. Shutdown x = Shutdown s"])
     apply (simp add: Let_def split_beta class_a_fields StartChildProcess_fields)
    apply (simp add: Let_def class_a_fields)
   apply (simp add: class_a_fields)
  apply simp
  done

lemma Shutdown_PostmasterStateMachine_no_children:
  "Shutdown (PostmasterStateMachine_no_children e s) = Shutdown s"
  by (simp add: PostmasterStateMachine_no_children_def PostmasterStateMachine_exit_on_shutdown_def
        PostmasterStateMachine_exit_no_restart_def PostmasterStateMachine_reinit_def
        StartChildProcess_def CreateSharedMemoryAndSemaphores_def tick_def set_pmState_def
        ConfigurePostmasterWaitSet_def unless_exited_def ExitPostmaster_def ereport_LOG_def Let_def)

lemma Shutdown_PostmasterStateMachine:
  "Shutdown (PostmasterStateMachine e s) = Shutdown s"
  by (simp add: PostmasterStateMachine_blocks Shutdown_PostmasterStateMachine_no_children
        Shutdown_PostmasterStateMachine_wait_dead_end Shutdown_PostmasterStateMachine_shutdown_2
        Shutdown_PostmasterStateMachine_wait_backends Shutdown_PostmasterStateMachine_stop_backends
        Shutdown_PostmasterStateMachine_smart)

lemma latch_signals_pending:
  "pending_pm_immediate_shutdown_request (latch_signals sigs s) =
     (pending_pm_immediate_shutdown_request s \<or> SIGQUIT \<in> set sigs)"
  "pending_pm_fast_shutdown_request (latch_signals sigs s) =
     (pending_pm_fast_shutdown_request s \<or> SIGINT \<in> set sigs)"
  "Shutdown (latch_signals sigs s) = Shutdown s"
  unfolding latch_signals_def
  by (induction sigs rule: rev_induct)
     (auto simp add: handle_pm_shutdown_request_signal_def)

lemma fst_shutdown_request_mode:
  "fst (shutdown_request_mode s) =
     (if pending_pm_immediate_shutdown_request s then ImmediateShutdown
      else if pending_pm_fast_shutdown_request s then FastShutdown else SmartShutdown)"
  by (simp add: shutdown_request_mode_def Let_def)

lemma snd_shutdown_request_mode:
  "snd (shutdown_request_mode s) =
     s\<lparr>pending_pm_shutdown_request := False, pending_pm_immediate_shutdown_request := False,
       pending_pm_fast_shutdown_request := False\<rparr>"
  by (simp add: shutdown_request_mode_def Let_def)

lemma latched_mode_is_most_severe:
  assumes "sigs \<noteq> []" and "set sigs \<subseteq> {SIGTERM, SIGINT, SIGQUIT}"
      and "\<not> pending_pm_immediate_shutdown_request s" and "\<not> pending_pm_fast_shutdown_request s"
  shows "Max (signal_severity ` set sigs) = fst (shutdown_request_mode (latch_signals sigs s))"
proof (rule Max_eqI)
  show "finite (signal_severity ` set sigs)" by simp
  show "y \<le> fst (shutdown_request_mode (latch_signals sigs s))" if "y \<in> signal_severity ` set sigs" for y
    using that assms by (auto simp add: fst_shutdown_request_mode latch_signals_pending)
  show "fst (shutdown_request_mode (latch_signals sigs s)) \<in> signal_severity ` set sigs"
  proof -
    obtain sg where "sg \<in> set sigs" using assms(1) by (cases sigs) auto
    then show ?thesis
      using assms by (auto simp add: fst_shutdown_request_mode latch_signals_pending image_iff)
  qed
qed

lemma process_pm_shutdown_request_ignored:
  assumes "fst (shutdown_request_mode s) \<le> Shutdown s"
  shows "process_pm_shutdown_request e s = snd (shutdown_request_mode s)"
proof -
  have "Shutdown (snd (shutdown_request_mode s)) = Shutdown s"
    by (simp add: snd_shutdown_request_mode)
  moreover have "fst (shutdown_request_mode s) \<in> {1, 2, 3}"
    by (simp add: fst_shutdown_request_mode)
  ultimately show ?thesis
    using assms by (auto simp add: process_pm_shutdown_request_def split_beta)
qed

lemma process_pm_shutdown_request_recorded:
  assumes "Shutdown s < fst (shutdown_request_mode s)"
  shows "Shutdown (process_pm_shutdown_request e s) = fst (shutdown_request_mode s)"
proof -
  have "Shutdown (snd (shutdown_request_mode s)) = Shutdown s"
    by (simp add: snd_shutdown_request_mode)
  moreover have "fst (shutdown_request_mode s) \<in> {1, 2, 3}"
    by (simp add: fst_shutdown_request_mode)
  ultimately show ?thesis
    using assms
    by (auto simp add: process_pm_shutdown_request_def split_beta Let_def
          Shutdown_PostmasterStateMachine class_a_fields)
qed

lemma Shutdown_run_from_PostmasterMain:
  "Shutdown (ServerLoop_run xs (PostmasterMain e bgws)) \<le>
   Shutdown (ServerLoop_run (xs @ ys) (PostmasterMain e bgws))"
  using ServerLoop_run_PostmasterMain [of xs e bgws]
proof
  assume "run_ok 0 (ServerLoop_run xs (PostmasterMain e bgws))"
  then show ?thesis
    using Shutdown_ServerLoop_run [of 0 "ServerLoop_run xs (PostmasterMain e bgws)" ys]
    by (simp add: ServerLoop_run_append)
next
  assume "ServerLoop_run xs (PostmasterMain e bgws) = PostmasterMain e bgws \<and>
    exited (PostmasterMain e bgws) \<noteq> None \<and> pmState (PostmasterMain e bgws) = PM_INIT \<and>
    pmState_log (PostmasterMain e bgws) = [PM_INIT] \<and> Shutdown (PostmasterMain e bgws) = 0 \<and>
    shmem_creations (PostmasterMain e bgws) = [(PM_INIT, False, restart_after_crash e, [])]"
  then show ?thesis by (simp add: ServerLoop_run_append ServerLoop_run_exited)
qed

text \<open>
  C4. The recorded shutdown mode never decreases along a run: after any further
  steps it is at least what it was. When shutdown signals (SIGTERM for smart, SIGINT
  for fast, SIGQUIT for immediate) have been latched since the last processing, the
  mode processed is the most severe of them. A processed request whose mode is not
  above the recorded one is ignored: the state is left as it was but for the latched
  request flags, which are cleared. A processed request above the recorded mode
  becomes the recorded mode.
\<close>

theorem shutdown_mode_only_rises:
  "Shutdown (ServerLoop_run xs (PostmasterMain e bgws)) \<le>
     Shutdown (ServerLoop_run (xs @ ys) (PostmasterMain e bgws)) \<and>
   (sigs \<noteq> [] \<and> set sigs \<subseteq> {SIGTERM, SIGINT, SIGQUIT} \<and>
    \<not> pending_pm_immediate_shutdown_request s \<and> \<not> pending_pm_fast_shutdown_request s \<longrightarrow>
      fst (shutdown_request_mode (latch_signals sigs s)) = Max (signal_severity ` set sigs) \<and>
      Shutdown (latch_signals sigs s) = Shutdown s) \<and>
   (fst (shutdown_request_mode s) \<le> Shutdown s \<longrightarrow>
      process_pm_shutdown_request e' s =
        s\<lparr>pending_pm_shutdown_request := False, pending_pm_immediate_shutdown_request := False,
          pending_pm_fast_shutdown_request := False\<rparr>) \<and>
   (Shutdown s < fst (shutdown_request_mode s) \<longrightarrow>
      Shutdown (process_pm_shutdown_request e' s) = fst (shutdown_request_mode s))"
  using Shutdown_run_from_PostmasterMain [of xs e bgws ys]
    latched_mode_is_most_severe [of sigs s] latch_signals_pending(3) [of sigs s]
    process_pm_shutdown_request_ignored [of s e'] process_pm_shutdown_request_recorded [of s e']
  by (simp add: snd_shutdown_request_mode)

theorem shutdown_mode_only_rises_witness:
  "Shutdown (PostmasterMain env0 []) = 0 \<and>
   Shutdown (ServerLoop_run run_fast_shutdown_in_startup (PostmasterMain env0 [])) = 2 \<and>
   fst (shutdown_request_mode (latch_signals [SIGTERM, SIGQUIT, SIGINT] pm_running)) = 3 \<and>
   fst (shutdown_request_mode (latch_signals [SIGTERM, SIGINT, SIGTERM] pm_running)) = 2 \<and>
   process_pm_shutdown_request env0
     (latch_signals [SIGINT] (pm_running\<lparr>Shutdown := ImmediateShutdown\<rparr>)) =
     (latch_signals [SIGINT] (pm_running\<lparr>Shutdown := ImmediateShutdown\<rparr>))
       \<lparr>pending_pm_shutdown_request := False, pending_pm_immediate_shutdown_request := False,
        pending_pm_fast_shutdown_request := False\<rparr> \<and>
   Shutdown (process_pm_shutdown_request env0 (latch_signals [SIGTERM, SIGINT] pm_running)) = 2"
proof -
  have a: "Shutdown (PostmasterMain env0 []) = 0"
          "Shutdown (ServerLoop_run run_fast_shutdown_in_startup (PostmasterMain env0 [])) = 2"
    by code_simp+
  have b: "\<not> pending_pm_immediate_shutdown_request pm_running"
          "\<not> pending_pm_fast_shutdown_request pm_running" "Shutdown pm_running = 0"
    by code_simp+
  have c: "Max (signal_severity ` set [SIGTERM, SIGQUIT, SIGINT]) = 3"
          "Max (signal_severity ` set [SIGTERM, SIGINT, SIGTERM]) = 2"
    by simp_all
  have d: "fst (shutdown_request_mode (latch_signals [SIGINT] (pm_running\<lparr>Shutdown := ImmediateShutdown\<rparr>))) = 2"
          "Shutdown (latch_signals [SIGINT] (pm_running\<lparr>Shutdown := ImmediateShutdown\<rparr>)) = 3"
          "fst (shutdown_request_mode (latch_signals [SIGTERM, SIGINT] pm_running)) = 2"
          "Shutdown (latch_signals [SIGTERM, SIGINT] pm_running) = 0"
    by code_simp+
  show ?thesis
    using shutdown_mode_only_rises [of "[]" env0 "[]" run_fast_shutdown_in_startup
            "[SIGTERM, SIGQUIT, SIGINT]" pm_running env0]
          shutdown_mode_only_rises [of "[]" env0 "[]" "[]" "[SIGTERM, SIGINT, SIGTERM]" pm_running env0]
          shutdown_mode_only_rises [of "[]" env0 "[]" "[]" "[SIGINT]"
            "latch_signals [SIGINT] (pm_running\<lparr>Shutdown := ImmediateShutdown\<rparr>)" env0]
          shutdown_mode_only_rises [of "[]" env0 "[]" "[]" "[SIGINT]"
            "latch_signals [SIGTERM, SIGINT] pm_running" env0]
    by (simp add: a b c d)
qed

end
